theory Spec2Isabelle
  imports Main "HOL-Library.Word"
begin

section \<open>Go error values\<close>

text \<open>
  An \<open>error\<close> is a non-nil value of Go's \<open>error\<close> interface; an interface value that may
  be nil is an \<open>error option\<close>, with \<open>None\<close> for nil.
  \<^item> \<open>ErrorString a s\<close> is the \<open>*errors.errorString\<close> that \<open>errors.New(s)\<close> allocated at
    address \<open>a\<close>: two calls of \<open>errors.New\<close> give different addresses, and Go compares
    such errors by address.
  \<^item> \<open>DeadlineExceededError\<close> is the value \<open>context.DeadlineExceeded\<close>.
  \<^item> \<open>WrapError msg err\<close> is the \<open>*fmt.wrapError\<close> built by \<open>fmt.Errorf\<close> with a \<open>%w\<close> verb.
  \<^item> \<open>DBError sentinel cause message\<close> is \<open>&DBError{Sentinel, Cause, Message}\<close>.
  \<^item> \<open>DriverError text code sqlstate number unwrap\<close> is an error of any other type: its
    \<open>Error()\<close> text and what its methods \<open>GetCode()\<close>, \<open>SQLState()\<close>, \<open>Number()\<close> and
    \<open>Unwrap()\<close> return, \<open>None\<close> for a method the type lacks.
\<close>

datatype error =
    ErrorString nat string
  | DeadlineExceededError
  | WrapError string "error option"
  | DBError "error option" "error option" string
  | DriverError string "string option" "string option" "16 word option" "error option"

definition ErrNotFound :: error where
  "ErrNotFound = ErrorString 1 ''sqltoolkit/db: record not found''"

definition ErrDuplicateKey :: error where
  "ErrDuplicateKey = ErrorString 2 ''sqltoolkit/db: duplicate key''"

definition ErrForeignKeyViolation :: error where
  "ErrForeignKeyViolation = ErrorString 3 ''sqltoolkit/db: foreign key violation''"

definition ErrDeadlock :: error where
  "ErrDeadlock = ErrorString 4 ''sqltoolkit/db: deadlock detected''"

definition ErrTimeout :: error where
  "ErrTimeout = ErrorString 5 ''sqltoolkit/db: query timeout''"

definition ErrCheckViolation :: error where
  "ErrCheckViolation = ErrorString 6 ''sqltoolkit/db: check constraint violation''"

definition ErrConnectionFailed :: error where
  "ErrConnectionFailed = ErrorString 7 ''sqltoolkit/db: connection failed''"

text \<open>The sentinels of \<open>database/sql\<close> and \<open>context\<close> that the package compares against.\<close>

definition sql_ErrNoRows :: error where
  "sql_ErrNoRows = ErrorString 8 ''sql: no rows in result set''"

definition sql_ErrTxDone :: error where
  "sql_ErrTxDone = ErrorString 9 ''sql: transaction has already been committed or rolled back''"

definition context_canceled :: error where
  "context_canceled = ErrorString 10 ''context canceled''"

definition context_deadline_exceeded :: error where
  "context_deadline_exceeded = DeadlineExceededError"

lemmas sentinel_defs =
  ErrNotFound_def ErrDuplicateKey_def ErrForeignKeyViolation_def ErrDeadlock_def
  ErrTimeout_def ErrCheckViolation_def ErrConnectionFailed_def sql_ErrNoRows_def
  sql_ErrTxDone_def context_canceled_def context_deadline_exceeded_def

text \<open>
  \<open>Error()\<close>. \<open>fmt.Sprintf\<close> prints a nil operand of \<open>%s\<close> as \<open>%!s(<nil>)\<close> and a nil
  operand of \<open>%v\<close> as \<open><nil>\<close>.
\<close>

fun Error :: "error \<Rightarrow> string" where
  "Error (ErrorString a s) = s"
| "Error DeadlineExceededError = ''context deadline exceeded''"
| "Error (WrapError msg w) = msg"
| "Error (DBError s c m) =
     (let ss = (case s of None \<Rightarrow> ''%!s(<nil>)'' | Some e \<Rightarrow> Error e);
          cs = (case c of None \<Rightarrow> ''<nil>'' | Some e \<Rightarrow> Error e)
      in if m \<noteq> [] then ss @ '': '' @ m @ '' (cause: '' @ cs @ '')''
         else ss @ '' (cause: '' @ cs @ '')'')"
| "Error (DriverError text code st num w) = text"

text \<open>\<open>Unwrap()\<close>: \<open>None\<close> when the type has no such method or the method returns nil.\<close>

fun Unwrap :: "error \<Rightarrow> error option" where
  "Unwrap (ErrorString a s) = None"
| "Unwrap DeadlineExceededError = None"
| "Unwrap (WrapError msg w) = w"
| "Unwrap (DBError s c m) = c"
| "Unwrap (DriverError text code st num w) = w"

text \<open>
  The loop of \<open>errors.Is\<close> on a non-nil error and a non-nil target: equal to the target,
  or its own \<open>Is\<close> method accepts the target, or the same for what \<open>Unwrap\<close> gives. Only
  \<open>*DBError\<close> has an \<open>Is\<close> method: \<open>errors.Is(e.Sentinel, target)\<close>, which is false for a
  nil \<open>Sentinel\<close>.
\<close>

fun errors_is :: "error \<Rightarrow> error \<Rightarrow> bool" where
  "errors_is (ErrorString a s) t = (ErrorString a s = t)"
| "errors_is DeadlineExceededError t = (DeadlineExceededError = t)"
| "errors_is (WrapError msg w) t =
     (WrapError msg w = t \<or> (case w of None \<Rightarrow> False | Some e \<Rightarrow> errors_is e t))"
| "errors_is (DBError s c m) t =
     (DBError s c m = t
      \<or> (case s of None \<Rightarrow> False | Some e \<Rightarrow> errors_is e t)
      \<or> (case c of None \<Rightarrow> False | Some e \<Rightarrow> errors_is e t))"
| "errors_is (DriverError text code st num w) t =
     (DriverError text code st num w = t
      \<or> (case w of None \<Rightarrow> False | Some e \<Rightarrow> errors_is e t))"

definition errors_Is :: "error option \<Rightarrow> error option \<Rightarrow> bool" where
  "errors_Is err target =
     (case (err, target) of
        (Some e, Some t) \<Rightarrow> errors_is e t
      | _ \<Rightarrow> err = target)"

definition IsNotFound :: "error option \<Rightarrow> bool" where
  "IsNotFound err = errors_Is err (Some ErrNotFound)"

definition IsDuplicateKey :: "error option \<Rightarrow> bool" where
  "IsDuplicateKey err = errors_Is err (Some ErrDuplicateKey)"

definition IsDeadlock :: "error option \<Rightarrow> bool" where
  "IsDeadlock err = errors_Is err (Some ErrDeadlock)"

definition IsTimeout :: "error option \<Rightarrow> bool" where
  "IsTimeout err = errors_Is err (Some ErrTimeout)"

text \<open>
  \<open>errors.As\<close> walks the same chain and stops at the first error of the wanted type. For
  the target \<open>*DBError\<close> the result is that error; for the interface targets of the
  classifiers it is what the wanted method returns on it.
\<close>

fun As_DBError :: "error \<Rightarrow> error option" where
  "As_DBError (ErrorString a s) = None"
| "As_DBError DeadlineExceededError = None"
| "As_DBError (WrapError msg w) = (case w of None \<Rightarrow> None | Some e \<Rightarrow> As_DBError e)"
| "As_DBError (DBError s c m) = Some (DBError s c m)"
| "As_DBError (DriverError text code st num w) =
     (case w of None \<Rightarrow> None | Some e \<Rightarrow> As_DBError e)"

fun As_GetCode :: "error \<Rightarrow> string option" where
  "As_GetCode (ErrorString a s) = None"
| "As_GetCode DeadlineExceededError = None"
| "As_GetCode (WrapError msg w) = (case w of None \<Rightarrow> None | Some e \<Rightarrow> As_GetCode e)"
| "As_GetCode (DBError s c m) = (case c of None \<Rightarrow> None | Some e \<Rightarrow> As_GetCode e)"
| "As_GetCode (DriverError text code st num w) =
     (case code of Some k \<Rightarrow> Some k
      | None \<Rightarrow> (case w of None \<Rightarrow> None | Some e \<Rightarrow> As_GetCode e))"

fun As_SQLState :: "error \<Rightarrow> string option" where
  "As_SQLState (ErrorString a s) = None"
| "As_SQLState DeadlineExceededError = None"
| "As_SQLState (WrapError msg w) = (case w of None \<Rightarrow> None | Some e \<Rightarrow> As_SQLState e)"
| "As_SQLState (DBError s c m) = (case c of None \<Rightarrow> None | Some e \<Rightarrow> As_SQLState e)"
| "As_SQLState (DriverError text code st num w) =
     (case st of Some k \<Rightarrow> Some k
      | None \<Rightarrow> (case w of None \<Rightarrow> None | Some e \<Rightarrow> As_SQLState e))"

fun As_Number :: "error \<Rightarrow> 16 word option" where
  "As_Number (ErrorString a s) = None"
| "As_Number DeadlineExceededError = None"
| "As_Number (WrapError msg w) = (case w of None \<Rightarrow> None | Some e \<Rightarrow> As_Number e)"
| "As_Number (DBError s c m) = (case c of None \<Rightarrow> None | Some e \<Rightarrow> As_Number e)"
| "As_Number (DriverError text code st num w) =
     (case num of Some k \<Rightarrow> Some k
      | None \<Rightarrow> (case w of None \<Rightarrow> None | Some e \<Rightarrow> As_Number e))"

section \<open>The classifiers and the default mapper\<close>

text \<open>\<open>strings.Index\<close>, \<open>strings.LastIndex\<close> and \<open>strings.Contains\<close> on byte strings.\<close>

fun index_from :: "nat \<Rightarrow> string \<Rightarrow> string \<Rightarrow> int" where
  "index_from i [] sub = (if sub = [] then int i else - 1)"
| "index_from i (c # cs) sub =
     (if take (length sub) (c # cs) = sub then int i else index_from (Suc i) cs sub)"

definition strings_Index :: "string \<Rightarrow> string \<Rightarrow> int" where
  "strings_Index s sub = index_from 0 s sub"

fun last_index_from :: "nat \<Rightarrow> int \<Rightarrow> string \<Rightarrow> string \<Rightarrow> int" where
  "last_index_from i best [] sub = (if sub = [] then int i else best)"
| "last_index_from i best (c # cs) sub =
     last_index_from (Suc i) (if take (length sub) (c # cs) = sub then int i else best) cs sub"

definition strings_LastIndex :: "string \<Rightarrow> string \<Rightarrow> int" where
  "strings_LastIndex s sub = last_index_from 0 (- 1) s sub"

definition strings_Contains :: "string \<Rightarrow> string \<Rightarrow> bool" where
  "strings_Contains s sub = (0 \<le> strings_Index s sub)"

definition pqCodeFromString :: "string \<Rightarrow> string" where
  "pqCodeFromString s =
     (let marker = ''(SQLSTATE '';
          idx = strings_LastIndex s marker
      in if idx < 0 then ''''
         else (let rest = drop (nat idx + length marker) s;
                   end = strings_Index rest '')''
               in if end < 0 then rest else take (nat end) rest))"

definition mapByPGCode :: "string \<Rightarrow> error \<Rightarrow> error option" where
  "mapByPGCode code cause =
     (if code = ''23505'' then Some (DBError (Some ErrDuplicateKey) (Some cause) '''')
      else if code = ''23503'' then Some (DBError (Some ErrForeignKeyViolation) (Some cause) '''')
      else if code = ''23514'' then Some (DBError (Some ErrCheckViolation) (Some cause) '''')
      else if code = ''40P01'' then Some (DBError (Some ErrDeadlock) (Some cause) '''')
      else if code = ''57014'' then Some (DBError (Some ErrTimeout) (Some cause) '''')
      else if code \<in> set [''08000'', ''08003'', ''08006'', ''08001'', ''08004'', ''08007'',
                           ''08P01'']
        then Some (DBError (Some ErrConnectionFailed) (Some cause) '''')
      else None)"

definition mapPQError :: "error \<Rightarrow> error option" where
  "mapPQError err =
     (case As_GetCode err of
        None \<Rightarrow> mapByPGCode (pqCodeFromString (Error err)) err
      | Some code \<Rightarrow> mapByPGCode code err)"

definition mapPGXError :: "error \<Rightarrow> error option" where
  "mapPGXError err =
     (case As_SQLState err of
        None \<Rightarrow> None
      | Some st \<Rightarrow> mapByPGCode st err)"

definition mapMySQLError :: "error \<Rightarrow> error option" where
  "mapMySQLError err =
     (case As_Number err of
        None \<Rightarrow> None
      | Some n \<Rightarrow>
          if n = 1062 then Some (DBError (Some ErrDuplicateKey) (Some err) '''')
          else if n \<in> set [1452, 1216, 1217]
            then Some (DBError (Some ErrForeignKeyViolation) (Some err) '''')
          else if n = 1213 then Some (DBError (Some ErrDeadlock) (Some err) '''')
          else if n = 3024 then Some (DBError (Some ErrTimeout) (Some err) '''')
          else if n \<in> set [1045, 2002, 2003, 2006, 2013]
            then Some (DBError (Some ErrConnectionFailed) (Some err) '''')
          else None)"

definition mapSQLiteError :: "error \<Rightarrow> error option" where
  "mapSQLiteError err =
     (let s = Error err
      in if strings_Contains s ''UNIQUE constraint failed''
           then Some (DBError (Some ErrDuplicateKey) (Some err) '''')
         else if strings_Contains s ''FOREIGN KEY constraint failed''
           then Some (DBError (Some ErrForeignKeyViolation) (Some err) '''')
         else if strings_Contains s ''CHECK constraint failed''
           then Some (DBError (Some ErrCheckViolation) (Some err) '''')
         else if strings_Contains s ''database is locked''
           then Some (DBError (Some ErrDeadlock) (Some err) '''')
         else None)"

text \<open>An \<open>ErrorMapper\<close> is its \<open>Map\<close> method, a function of the error alone.\<close>

type_synonym ErrorMapper = "error option \<Rightarrow> error option"

definition defaultMap :: ErrorMapper where
  "defaultMap err =
     (case err of
        None \<Rightarrow> None
      | Some e \<Rightarrow>
          if errors_Is (Some e) (Some sql_ErrNoRows)
            then Some (DBError (Some ErrNotFound) (Some e) '''')
          else if errors_Is (Some e) (Some context_deadline_exceeded)
                  \<or> errors_Is (Some e) (Some context_canceled)
            then Some (DBError (Some ErrTimeout) (Some e) '''')
          else if As_DBError e \<noteq> None then Some e
          else (case mapPQError e of
                  Some mapped \<Rightarrow> Some mapped
                | None \<Rightarrow>
                    (case mapPGXError e of
                       Some mapped \<Rightarrow> Some mapped
                     | None \<Rightarrow>
                         (case mapMySQLError e of
                            Some mapped \<Rightarrow> Some mapped
                          | None \<Rightarrow>
                              (case mapSQLiteError e of
                                 Some mapped \<Rightarrow> Some mapped
                               | None \<Rightarrow> Some e)))))"

definition DefaultErrorMapper :: ErrorMapper where
  "DefaultErrorMapper = defaultMap"

section \<open>Effects: panics, the clock, the trace\<close>

text \<open>
  A Go call either returns a value or panics; both leave a state behind. The value
  given to \<open>panic\<close> is kept as its printed form. The package uses \<open>log/slog\<close>, so it
  builds with Go 1.21 or later, where \<open>recover()\<close> is non-nil whenever a panic is
  under way (\<open>panic(nil)\<close> becomes a \<open>*runtime.PanicNilError\<close>).
\<close>

type_synonym panic_value = string

datatype ('a, 's) outcome = Return 'a 's | Panic panic_value 's

datatype any = AnyNil | AnyInt int | AnyString string | AnyBool bool

text \<open>
  A \<open>context.Context\<close>, as far as the package looks at it: \<open>Deadline()\<close>, and the instant
  at which the caller's cancel function runs, if it ever does. Instants and durations
  are integers (nanoseconds). \<open>Done()\<close> is closed from the earlier of the two instants
  on, and \<open>Err()\<close> then names the one that came first.
\<close>

record Context =
  Deadline :: "int option"
  cancelled_at :: "int option"

definition context_Background :: Context where
  "context_Background = \<lparr>Deadline = None, cancelled_at = None\<rparr>"

definition ctx_done_at :: "Context \<Rightarrow> int option" where
  "ctx_done_at ctx =
     (case (Deadline ctx, cancelled_at ctx) of
        (None, None) \<Rightarrow> None
      | (Some d, None) \<Rightarrow> Some d
      | (None, Some c) \<Rightarrow> Some c
      | (Some d, Some c) \<Rightarrow> Some (min d c))"

definition ctx_Err :: "Context \<Rightarrow> int \<Rightarrow> error option" where
  "ctx_Err ctx t =
     (case (Deadline ctx, cancelled_at ctx) of
        (None, None) \<Rightarrow> None
      | (Some d, None) \<Rightarrow> (if d \<le> t then Some context_deadline_exceeded else None)
      | (None, Some c) \<Rightarrow> (if c \<le> t then Some context_canceled else None)
      | (Some d, Some c) \<Rightarrow>
          (if c \<le> t \<and> c \<le> d then Some context_canceled
           else if d \<le> t then Some context_deadline_exceeded
           else None))"

text \<open>
  \<open>context.WithTimeout(parent, d)\<close> at the instant \<open>now\<close> is
  \<open>WithDeadline(parent, now + d)\<close>, which keeps an earlier deadline of the parent.
\<close>

definition context_WithTimeout :: "Context \<Rightarrow> int \<Rightarrow> int \<Rightarrow> Context" where
  "context_WithTimeout parent d now =
     (case Deadline parent of
        Some cur \<Rightarrow> (if cur < now + d then parent else parent\<lparr>Deadline := Some (now + d)\<rparr>)
      | None \<Rightarrow> parent\<lparr>Deadline := Some (now + d)\<rparr>)"

record sql_TxOptions =
  Isolation :: int
  ReadOnly :: bool

text \<open>
  The trace lists what the package does to its collaborators, in order: each call of a
  hook method (with the position of the hook in the chain), each diagnostic given to
  \<open>slog.Error\<close>, each call of the underlying \<open>*sql.DB\<close> or \<open>*sql.Tx\<close>, and, in
  \<open>WithRetry\<close>, each call of the operation and each wait (both with the clock reading
  at that moment).
\<close>

datatype event =
    EvBeforeQuery nat Context string "any list"
  | EvAfterQuery nat Context string "any list" int "error option"
  | EvSlogError string panic_value
  | EvExecContext Context string "any list"
  | EvQueryContext Context string "any list"
  | EvQueryRowContext Context string "any list"
  | EvBeginTx Context "sql_TxOptions option"
  | EvCommit
  | EvRollback
  | EvFn int
  | EvSelect int int

text \<open>
  The world: the trace, the clock, and everything outside the package (the database,
  what the hooks keep). Code that is not the package's own (a hook, the driver, the
  operation given to \<open>WithRetry\<close>) sees and changes the clock and the outside, never
  the trace.
\<close>

record 'u world =
  trace :: "event list"
  clock :: int
  ext :: 'u

type_synonym ('a, 'u) foreign_call = "int \<times> 'u \<Rightarrow> ('a, int \<times> 'u) outcome"

definition foreign :: "('a, 'u) foreign_call \<Rightarrow> 'u world \<Rightarrow> ('a, 'u world) outcome" where
  "foreign f w =
     (case f (clock w, ext w) of
        Return a s \<Rightarrow> Return a (w\<lparr>clock := fst s, ext := snd s\<rparr>)
      | Panic p s \<Rightarrow> Panic p (w\<lparr>clock := fst s, ext := snd s\<rparr>))"

definition emit :: "event \<Rightarrow> 'u world \<Rightarrow> 'u world" where
  "emit ev w = w\<lparr>trace := trace w @ [ev]\<rparr>"

definition slog_Error :: "string \<Rightarrow> panic_value \<Rightarrow> 'u world \<Rightarrow> 'u world" where
  "slog_Error msg r w = emit (EvSlogError msg r) w"

section \<open>Hooks and the hook chain\<close>

record 'u Hook =
  BeforeQuery :: "Context \<Rightarrow> string \<Rightarrow> any list \<Rightarrow> (unit, 'u) foreign_call"
  AfterQuery :: "Context \<Rightarrow> string \<Rightarrow> any list \<Rightarrow> int \<Rightarrow> error option \<Rightarrow> (unit, 'u) foreign_call"

record 'u hookChain =
  hooks :: "'u Hook list"

text \<open>A \<open>Hook\<close> interface value may be nil: \<open>None\<close>.\<close>

definition newHookChain :: "'u Hook option list \<Rightarrow> 'u hookChain" where
  "newHookChain hs = \<lparr>hooks = List.map_filter (\<lambda>h. h) hs\<rparr>"

text \<open>
  \<open>safeBeforeQuery\<close> and \<open>safeAfterQuery\<close>: the deferred function recovers a panic of
  the hook and logs it. The first argument is the position of the hook in the chain;
  it only labels the trace entry.
\<close>

definition safeBeforeQuery ::
  "nat \<Rightarrow> 'u Hook \<Rightarrow> Context \<Rightarrow> string \<Rightarrow> any list \<Rightarrow> 'u world \<Rightarrow> (unit, 'u world) outcome" where
  "safeBeforeQuery i h ctx query args w =
     (case foreign (BeforeQuery h ctx query args) (emit (EvBeforeQuery i ctx query args) w) of
        Return u w' \<Rightarrow> Return () w'
      | Panic r w' \<Rightarrow> Return () (slog_Error ''sqltoolkit/db: hook panic in BeforeQuery'' r w'))"

definition safeAfterQuery ::
  "nat \<Rightarrow> 'u Hook \<Rightarrow> Context \<Rightarrow> string \<Rightarrow> any list \<Rightarrow> int \<Rightarrow> error option \<Rightarrow> 'u world
     \<Rightarrow> (unit, 'u world) outcome" where
  "safeAfterQuery i h ctx query args d err w =
     (case foreign (AfterQuery h ctx query args d err)
             (emit (EvAfterQuery i ctx query args d err) w) of
        Return u w' \<Rightarrow> Return () w'
      | Panic r w' \<Rightarrow> Return () (slog_Error ''sqltoolkit/db: hook panic in AfterQuery'' r w'))"

fun Before_loop ::
  "nat \<Rightarrow> 'u Hook list \<Rightarrow> Context \<Rightarrow> string \<Rightarrow> any list \<Rightarrow> 'u world \<Rightarrow> (unit, 'u world) outcome" where
  "Before_loop i [] ctx query args w = Return () w"
| "Before_loop i (h # hs) ctx query args w =
     (case safeBeforeQuery i h ctx query args w of
        Panic p w' \<Rightarrow> Panic p w'
      | Return u w' \<Rightarrow> Before_loop (Suc i) hs ctx query args w')"

fun After_loop ::
  "nat \<Rightarrow> 'u Hook list \<Rightarrow> Context \<Rightarrow> string \<Rightarrow> any list \<Rightarrow> int \<Rightarrow> error option \<Rightarrow> 'u world
     \<Rightarrow> (unit, 'u world) outcome" where
  "After_loop i [] ctx query args d err w = Return () w"
| "After_loop i (h # hs) ctx query args d err w =
     (case safeAfterQuery i h ctx query args d err w of
        Panic p w' \<Rightarrow> Panic p w'
      | Return u w' \<Rightarrow> After_loop (Suc i) hs ctx query args d err w')"

definition hookChain_Before ::
  "'u hookChain \<Rightarrow> Context \<Rightarrow> string \<Rightarrow> any list \<Rightarrow> 'u world \<Rightarrow> (unit, 'u world) outcome" where
  "hookChain_Before c ctx query args w = Before_loop 0 (hooks c) ctx query args w"

definition hookChain_After ::
  "'u hookChain \<Rightarrow> Context \<Rightarrow> string \<Rightarrow> any list \<Rightarrow> int \<Rightarrow> error option \<Rightarrow> 'u world
     \<Rightarrow> (unit, 'u world) outcome" where
  "hookChain_After c ctx query args d err w = After_loop 0 (hooks c) ctx query args d err w"

text \<open>
  \<open>compositeHook\<close>: its methods call the sub-hooks in order, with nothing deferred, so a
  panic of a sub-hook leaves the loop. Calling a method of a nil sub-hook panics.
\<close>

definition nil_dereference :: panic_value where
  "nil_dereference = ''runtime error: invalid memory address or nil pointer dereference''"

fun compositeHook_BeforeQuery ::
  "'u Hook option list \<Rightarrow> Context \<Rightarrow> string \<Rightarrow> any list \<Rightarrow> (unit, 'u) foreign_call" where
  "compositeHook_BeforeQuery [] ctx q args s = Return () s"
| "compositeHook_BeforeQuery (None # hs) ctx q args s = Panic nil_dereference s"
| "compositeHook_BeforeQuery (Some h # hs) ctx q args s =
     (case BeforeQuery h ctx q args s of
        Panic p s' \<Rightarrow> Panic p s'
      | Return u s' \<Rightarrow> compositeHook_BeforeQuery hs ctx q args s')"

fun compositeHook_AfterQuery ::
  "'u Hook option list \<Rightarrow> Context \<Rightarrow> string \<Rightarrow> any list \<Rightarrow> int \<Rightarrow> error option
     \<Rightarrow> (unit, 'u) foreign_call" where
  "compositeHook_AfterQuery [] ctx q args d err s = Return () s"
| "compositeHook_AfterQuery (None # hs) ctx q args d err s = Panic nil_dereference s"
| "compositeHook_AfterQuery (Some h # hs) ctx q args d err s =
     (case AfterQuery h ctx q args d err s of
        Panic p s' \<Rightarrow> Panic p s'
      | Return u s' \<Rightarrow> compositeHook_AfterQuery hs ctx q args d err s')"

definition CompositeHook :: "'u Hook option list \<Rightarrow> 'u Hook" where
  "CompositeHook hs =
     \<lparr>BeforeQuery = compositeHook_BeforeQuery hs, AfterQuery = compositeHook_AfterQuery hs\<rparr>"

section \<open>The executors: DB and Tx\<close>

text \<open>
  The standard library's side. A \<open>sql.Result\<close> and a \<open>*sql.Rows\<close> are opaque to the
  package; a \<open>*sql.Row\<close> holds the error that its \<open>Scan\<close> will return (nil when a row was
  read, \<open>sql.ErrNoRows\<close> when none matched). \<open>*sql.DB\<close> and \<open>*sql.Tx\<close> are the methods
  the package calls on them.

  The package's own \<open>Config\<close>, \<open>DB\<close>, \<open>Tx\<close> and \<open>Row\<close> follow. A field name can belong to
  one record only, so the field \<open>hooks\<close> of \<open>DB\<close> is \<open>hookchain\<close> here, and the fields
  of \<open>Tx\<close> and \<open>Row\<close> that \<open>DB\<close> has too carry the prefix \<open>tx_\<close> or \<open>row_\<close>.
\<close>

record sql_Result =
  LastInsertId :: int
  RowsAffected :: int

type_synonym sql_Rows = "any list list"

datatype sql_Row = SqlRow "error option"

fun sql_Row_Scan :: "sql_Row \<Rightarrow> error option" where
  "sql_Row_Scan (SqlRow err) = err"

record 'u sql_Tx =
  tx_ExecContext ::
    "Context \<Rightarrow> string \<Rightarrow> any list \<Rightarrow> (sql_Result option \<times> error option, 'u) foreign_call"
  tx_QueryContext ::
    "Context \<Rightarrow> string \<Rightarrow> any list \<Rightarrow> (sql_Rows option \<times> error option, 'u) foreign_call"
  tx_QueryRowContext :: "Context \<Rightarrow> string \<Rightarrow> any list \<Rightarrow> (sql_Row, 'u) foreign_call"
  Commit :: "(error option, 'u) foreign_call"
  Rollback :: "(error option, 'u) foreign_call"

record 'u sql_DB =
  ExecContext ::
    "Context \<Rightarrow> string \<Rightarrow> any list \<Rightarrow> (sql_Result option \<times> error option, 'u) foreign_call"
  QueryContext ::
    "Context \<Rightarrow> string \<Rightarrow> any list \<Rightarrow> (sql_Rows option \<times> error option, 'u) foreign_call"
  QueryRowContext :: "Context \<Rightarrow> string \<Rightarrow> any list \<Rightarrow> (sql_Row, 'u) foreign_call"
  BeginTx :: "Context \<Rightarrow> sql_TxOptions option \<Rightarrow> (error + 'u sql_Tx, 'u) foreign_call"

record 'u Config =
  DSN :: string
  DriverName :: string
  MaxOpenConns :: int
  MaxIdleConns :: int
  ConnMaxLifetime :: int
  ConnMaxIdleTime :: int
  DefaultTimeout :: int
  Hooks :: "'u Hook option list"

record 'u DB =
  sqldb :: "'u sql_DB"
  cfg :: "'u Config"
  hookchain :: "'u hookChain"
  errMap :: ErrorMapper

record 'u Tx =
  sqltx :: "'u sql_Tx"
  tx_hookchain :: "'u hookChain"
  tx_errMap :: ErrorMapper
  tx_cfg :: "'u Config"

record Row =
  raw :: sql_Row
  row_errMap :: ErrorMapper

text \<open>The \<open>DB\<close> that \<open>Open\<close> builds once \<open>sql.Open\<close> has given it the \<open>*sql.DB\<close>.\<close>

definition Open_DB :: "'u sql_DB \<Rightarrow> 'u Config \<Rightarrow> 'u DB" where
  "Open_DB s c =
     \<lparr>sqldb = s, cfg = c, hookchain = newHookChain (Hooks c), errMap = DefaultErrorMapper\<rparr>"

definition SetErrorMapper :: "'u DB \<Rightarrow> ErrorMapper \<Rightarrow> 'u DB" where
  "SetErrorMapper d m = d\<lparr>errMap := m\<rparr>"

text \<open>\<open>applyDefaultTimeout\<close>; the last argument is what \<open>time.Now()\<close> reads.\<close>

definition applyDefaultTimeout :: "'u DB \<Rightarrow> Context \<Rightarrow> int \<Rightarrow> Context" where
  "applyDefaultTimeout d ctx now =
     (if DefaultTimeout (cfg d) = 0 then ctx
      else (case Deadline ctx of
              Some t \<Rightarrow> ctx
            | None \<Rightarrow> context_WithTimeout ctx (DefaultTimeout (cfg d)) now))"

definition mapErr :: "'u DB \<Rightarrow> error option \<Rightarrow> error option" where
  "mapErr d err = (case err of None \<Rightarrow> None | Some e \<Rightarrow> errMap d (Some e))"

definition Tx_mapErr :: "'u Tx \<Rightarrow> error option \<Rightarrow> error option" where
  "Tx_mapErr t err = (case err of None \<Rightarrow> None | Some e \<Rightarrow> tx_errMap t (Some e))"

definition DB_Exec ::
  "'u DB \<Rightarrow> Context \<Rightarrow> string \<Rightarrow> any list \<Rightarrow> 'u world
     \<Rightarrow> (sql_Result option \<times> error option, 'u world) outcome" where
  "DB_Exec d ctx0 query args w =
     (let ctx = applyDefaultTimeout d ctx0 (clock w);
          start = clock w
      in case hookChain_Before (hookchain d) ctx query args w of
           Panic p w1 \<Rightarrow> Panic p w1
         | Return u w1 \<Rightarrow>
             (case foreign (ExecContext (sqldb d) ctx query args)
                     (emit (EvExecContext ctx query args) w1) of
                Panic p w2 \<Rightarrow> Panic p w2
              | Return r w2 \<Rightarrow>
                  (let err = mapErr d (snd r)
                   in case hookChain_After (hookchain d) ctx query args (clock w2 - start) err w2 of
                        Panic p w3 \<Rightarrow> Panic p w3
                      | Return u' w3 \<Rightarrow> Return (fst r, err) w3)))"

definition DB_Query ::
  "'u DB \<Rightarrow> Context \<Rightarrow> string \<Rightarrow> any list \<Rightarrow> 'u world
     \<Rightarrow> (sql_Rows option \<times> error option, 'u world) outcome" where
  "DB_Query d ctx0 query args w =
     (let ctx = applyDefaultTimeout d ctx0 (clock w);
          start = clock w
      in case hookChain_Before (hookchain d) ctx query args w of
           Panic p w1 \<Rightarrow> Panic p w1
         | Return u w1 \<Rightarrow>
             (case foreign (QueryContext (sqldb d) ctx query args)
                     (emit (EvQueryContext ctx query args) w1) of
                Panic p w2 \<Rightarrow> Panic p w2
              | Return r w2 \<Rightarrow>
                  (let err = mapErr d (snd r)
                   in case hookChain_After (hookchain d) ctx query args (clock w2 - start) err w2 of
                        Panic p w3 \<Rightarrow> Panic p w3
                      | Return u' w3 \<Rightarrow> Return (fst r, err) w3)))"

definition DB_QueryRow ::
  "'u DB \<Rightarrow> Context \<Rightarrow> string \<Rightarrow> any list \<Rightarrow> 'u world \<Rightarrow> (Row, 'u world) outcome" where
  "DB_QueryRow d ctx0 query args w =
     (let ctx = applyDefaultTimeout d ctx0 (clock w);
          start = clock w
      in case hookChain_Before (hookchain d) ctx query args w of
           Panic p w1 \<Rightarrow> Panic p w1
         | Return u w1 \<Rightarrow>
             (case foreign (QueryRowContext (sqldb d) ctx query args)
                     (emit (EvQueryRowContext ctx query args) w1) of
                Panic p w2 \<Rightarrow> Panic p w2
              | Return r w2 \<Rightarrow>
                  (case hookChain_After (hookchain d) ctx query args (clock w2 - start) None w2 of
                     Panic p w3 \<Rightarrow> Panic p w3
                   | Return u' w3 \<Rightarrow> Return \<lparr>raw = r, row_errMap = errMap d\<rparr> w3)))"

definition Row_Scan :: "Row \<Rightarrow> error option" where
  "Row_Scan r = row_errMap r (sql_Row_Scan (raw r))"

definition Tx_Exec ::
  "'u Tx \<Rightarrow> Context \<Rightarrow> string \<Rightarrow> any list \<Rightarrow> 'u world
     \<Rightarrow> (sql_Result option \<times> error option, 'u world) outcome" where
  "Tx_Exec t ctx query args w =
     (let start = clock w
      in case hookChain_Before (tx_hookchain t) ctx query args w of
           Panic p w1 \<Rightarrow> Panic p w1
         | Return u w1 \<Rightarrow>
             (case foreign (tx_ExecContext (sqltx t) ctx query args)
                     (emit (EvExecContext ctx query args) w1) of
                Panic p w2 \<Rightarrow> Panic p w2
              | Return r w2 \<Rightarrow>
                  (let err = Tx_mapErr t (snd r)
                   in case hookChain_After (tx_hookchain t) ctx query args (clock w2 - start) err
                             w2 of
                        Panic p w3 \<Rightarrow> Panic p w3
                      | Return u' w3 \<Rightarrow> Return (fst r, err) w3)))"

definition Tx_Query ::
  "'u Tx \<Rightarrow> Context \<Rightarrow> string \<Rightarrow> any list \<Rightarrow> 'u world
     \<Rightarrow> (sql_Rows option \<times> error option, 'u world) outcome" where
  "Tx_Query t ctx query args w =
     (let start = clock w
      in case hookChain_Before (tx_hookchain t) ctx query args w of
           Panic p w1 \<Rightarrow> Panic p w1
         | Return u w1 \<Rightarrow>
             (case foreign (tx_QueryContext (sqltx t) ctx query args)
                     (emit (EvQueryContext ctx query args) w1) of
                Panic p w2 \<Rightarrow> Panic p w2
              | Return r w2 \<Rightarrow>
                  (let err = Tx_mapErr t (snd r)
                   in case hookChain_After (tx_hookchain t) ctx query args (clock w2 - start) err
                             w2 of
                        Panic p w3 \<Rightarrow> Panic p w3
                      | Return u' w3 \<Rightarrow> Return (fst r, err) w3)))"

definition Tx_QueryRow ::
  "'u Tx \<Rightarrow> Context \<Rightarrow> string \<Rightarrow> any list \<Rightarrow> 'u world \<Rightarrow> (Row, 'u world) outcome" where
  "Tx_QueryRow t ctx query args w =
     (let start = clock w
      in case hookChain_Before (tx_hookchain t) ctx query args w of
           Panic p w1 \<Rightarrow> Panic p w1
         | Return u w1 \<Rightarrow>
             (case foreign (tx_QueryRowContext (sqltx t) ctx query args)
                     (emit (EvQueryRowContext ctx query args) w1) of
                Panic p w2 \<Rightarrow> Panic p w2
              | Return r w2 \<Rightarrow>
                  (case hookChain_After (tx_hookchain t) ctx query args (clock w2 - start) None
                          w2 of
                     Panic p w3 \<Rightarrow> Panic p w3
                   | Return u' w3 \<Rightarrow> Return \<lparr>raw = r, row_errMap = tx_errMap t\<rparr> w3)))"

section \<open>ExecTx\<close>

text \<open>The package's \<open>TxOptions\<close>; its fields carry a prefix to keep them apart from those
  of \<open>sql.TxOptions\<close>.\<close>

record TxOptions =
  opt_Isolation :: int
  opt_ReadOnly :: bool

text \<open>
  \<open>ExecTxOpts\<close> from the \<open>defer\<close> statement on: \<open>ExecTxOpts_body\<close> is the rest of the
  function, giving the named result \<open>err\<close> or a panic; \<open>ExecTxOpts_deferred\<close> is the
  deferred function, run on either. A panic inside the deferred function itself (of
  \<open>Rollback\<close>) takes the place of the one it was handling.
\<close>

definition ExecTxOpts_body ::
  "'u DB \<Rightarrow> 'u Tx \<Rightarrow> ('u Tx \<Rightarrow> 'u world \<Rightarrow> (error option, 'u world) outcome) \<Rightarrow> 'u world
     \<Rightarrow> (error option, 'u world) outcome" where
  "ExecTxOpts_body d tx fn w =
     (case fn tx w of
        Panic p w1 \<Rightarrow> Panic p w1
      | Return err w1 \<Rightarrow>
          (case err of
             Some e \<Rightarrow> Return (mapErr d (Some e)) w1
           | None \<Rightarrow>
               (case foreign (Commit (sqltx tx)) (emit EvCommit w1) of
                  Panic p w2 \<Rightarrow> Panic p w2
                | Return cerr w2 \<Rightarrow>
                    (case cerr of
                       Some e \<Rightarrow> Return (mapErr d (Some e)) w2
                     | None \<Rightarrow> Return None w2))))"

definition rollback_failed :: "error \<Rightarrow> error \<Rightarrow> error" where
  "rollback_failed rbErr err =
     WrapError (''sqltoolkit/db: rollback failed ('' @ Error rbErr
                @ '') after original error: '' @ Error err) (Some err)"

definition ExecTxOpts_deferred ::
  "'u sql_Tx \<Rightarrow> (error option, 'u world) outcome \<Rightarrow> (error option, 'u world) outcome" where
  "ExecTxOpts_deferred stx out =
     (case out of
        Panic p w \<Rightarrow>
          (case foreign (Rollback stx) (emit EvRollback w) of
             Panic p' w' \<Rightarrow> Panic p' w'
           | Return rbErr w' \<Rightarrow> Panic p w')
      | Return err w \<Rightarrow>
          (case err of
             None \<Rightarrow> Return None w
           | Some e \<Rightarrow>
               (case foreign (Rollback stx) (emit EvRollback w) of
                  Panic p' w' \<Rightarrow> Panic p' w'
                | Return rbErr w' \<Rightarrow>
                    (case rbErr of
                       None \<Rightarrow> Return (Some e) w'
                     | Some rb \<Rightarrow> Return (Some (rollback_failed rb e)) w'))))"

text \<open>
  The \<open>*sql.TxOptions\<close> that \<open>ExecTxOpts\<close> builds from its variadic \<open>opts\<close>: nil when
  none is given, otherwise the first one's fields.
\<close>

definition sqlOpts_of :: "TxOptions list \<Rightarrow> sql_TxOptions option" where
  "sqlOpts_of opts =
     (case opts of
        [] \<Rightarrow> None
      | opt # rest \<Rightarrow> Some \<lparr>Isolation = opt_Isolation opt, ReadOnly = opt_ReadOnly opt\<rparr>)"

text \<open>The \<open>Tx\<close> that \<open>ExecTxOpts\<close> builds around the \<open>*sql.Tx\<close> it began.\<close>

definition Tx_of :: "'u DB \<Rightarrow> 'u sql_Tx \<Rightarrow> 'u Tx" where
  "Tx_of d stx =
     \<lparr>sqltx = stx, tx_hookchain = hookchain d, tx_errMap = errMap d, tx_cfg = cfg d\<rparr>"

definition ExecTxOpts ::
  "'u DB \<Rightarrow> Context \<Rightarrow> ('u Tx \<Rightarrow> 'u world \<Rightarrow> (error option, 'u world) outcome)
     \<Rightarrow> TxOptions list \<Rightarrow> 'u world \<Rightarrow> (error option, 'u world) outcome" where
  "ExecTxOpts d ctx0 fn opts w =
     (let ctx = applyDefaultTimeout d ctx0 (clock w);
          sqlOpts = sqlOpts_of opts
      in case foreign (BeginTx (sqldb d) ctx sqlOpts) (emit (EvBeginTx ctx sqlOpts) w) of
           Panic p w1 \<Rightarrow> Panic p w1
         | Return b w1 \<Rightarrow>
             (case b of
                Inl e \<Rightarrow> Return (mapErr d (Some e)) w1
              | Inr stx \<Rightarrow>
                  (let tx = Tx_of d stx
                   in ExecTxOpts_deferred stx (ExecTxOpts_body d tx fn w1))))"

definition ExecTx ::
  "'u DB \<Rightarrow> Context \<Rightarrow> ('u Tx \<Rightarrow> 'u world \<Rightarrow> (error option, 'u world) outcome)
     \<Rightarrow> TxOptions list \<Rightarrow> 'u world \<Rightarrow> (error option, 'u world) outcome" where
  "ExecTx d ctx fn opts w = ExecTxOpts d ctx fn opts w"

section \<open>WithRetry\<close>

record RetryConfig =
  MaxAttempts :: int
  Delay :: int
  RetryOn :: "(error option \<Rightarrow> bool) option"

text \<open>Decimal printing of an integer, as the verb \<open>%d\<close> does.\<close>

function digits :: "nat \<Rightarrow> string" where
  "digits n = (if n < 10 then [''0123456789'' ! n]
               else digits (n div 10) @ [''0123456789'' ! (n mod 10)])"
  by pat_completeness auto
termination
  by (relation "measure (\<lambda>n. n)") auto

declare digits.simps [simp del]

definition itoa :: "int \<Rightarrow> string" where
  "itoa n = (if n < 0 then CHR ''-'' # digits (nat (- n)) else digits (nat n))"

text \<open>
  \<open>fmt.Errorf("sqltoolkit/db: all %d attempts failed, last error: %w", n, lastErr)\<close>. With
  a nil operand the verb \<open>%w\<close> prints \<open>%!w(<nil>)\<close> and the error made wraps nothing.
\<close>

definition all_attempts_failed :: "int \<Rightarrow> error option \<Rightarrow> error" where
  "all_attempts_failed n lastErr =
     WrapError (''sqltoolkit/db: all '' @ itoa n @ '' attempts failed, last error: ''
                @ (case lastErr of None \<Rightarrow> ''%!w(<nil>)'' | Some e \<Rightarrow> Error e)) lastErr"

text \<open>
  The \<open>select\<close> between \<open>ctx.Done()\<close> and \<open>time.After(cfg.Delay)\<close>. The timer is armed
  when the clock reads \<open>clock w\<close> and fires after the delay (at once when the delay is
  not positive). The \<open>select\<close> looks at its two channels some time later, \<open>lat\<close> after
  the timer was armed: how long that takes is up to the scheduler. If at that instant
  only one case is ready, it is taken; if both are ready, Go chooses one at random, and
  \<open>pk\<close> says whether it is \<open>ctx.Done()\<close>; if none is ready the \<open>select\<close> blocks and the
  case that becomes ready first is taken (\<open>pk\<close> again when both do at the same
  instant). The clock then reads the instant at which the case was taken.
\<close>

datatype select_case = CaseDone | CaseAfter

definition select_Done_After ::
  "int \<Rightarrow> bool \<Rightarrow> Context \<Rightarrow> int \<Rightarrow> 'u world \<Rightarrow> select_case \<times> 'u world" where
  "select_Done_After lat pk ctx d w =
     (let fire = clock w + max 0 d;
          poll = clock w + max 0 lat
      in case ctx_done_at ctx of
           None \<Rightarrow> (CaseAfter, w\<lparr>clock := max fire poll\<rparr>)
         | Some c \<Rightarrow>
             if c \<le> poll \<and> fire \<le> poll
             then (if pk then (CaseDone, w\<lparr>clock := poll\<rparr>) else (CaseAfter, w\<lparr>clock := poll\<rparr>))
             else if c \<le> poll then (CaseDone, w\<lparr>clock := poll\<rparr>)
             else if fire \<le> poll then (CaseAfter, w\<lparr>clock := poll\<rparr>)
             else if c < fire \<or> (c = fire \<and> pk) then (CaseDone, w\<lparr>clock := c\<rparr>)
             else (CaseAfter, w\<lparr>clock := fire\<rparr>))"

text \<open>
  What the scheduler decides for the \<open>select\<close> before each attempt: how long after the
  timer was armed the channels are looked at, and which case is taken when both are
  ready.
\<close>

record select_sched =
  poll_latency :: "int \<Rightarrow> int"
  pick_done :: "int \<Rightarrow> bool"

definition default_retryOn :: "error option \<Rightarrow> bool" where
  "default_retryOn err = (IsDeadlock err \<or> IsTimeout err)"

text \<open>The predicate \<open>WithRetry\<close> works with: \<open>cfg.RetryOn\<close>, or the default when that is nil.\<close>

definition retryOn_of :: "RetryConfig \<Rightarrow> error option \<Rightarrow> bool" where
  "retryOn_of rcfg = (case RetryOn rcfg of None \<Rightarrow> default_retryOn | Some f \<Rightarrow> f)"

text \<open>
  The \<open>for\<close> loop of \<open>WithRetry\<close> from the value \<open>attempt\<close> of its counter on. \<open>sch\<close> is
  what the scheduler decides for the \<open>select\<close> of each attempt. The counter stays below
  \<open>MaxAttempts\<close> while the loop runs, so it cannot overflow.
\<close>

function WithRetry_loop ::
  "select_sched \<Rightarrow> Context \<Rightarrow> RetryConfig \<Rightarrow> (error option \<Rightarrow> bool)
     \<Rightarrow> (error option, 'u) foreign_call \<Rightarrow> int \<Rightarrow> error option \<Rightarrow> 'u world
     \<Rightarrow> (error option, 'u world) outcome" where
  "WithRetry_loop sch ctx rcfg retryOn fn attempt lastErr w =
     (if attempt < MaxAttempts rcfg then
        (case (if attempt > 0
               then select_Done_After (poll_latency sch attempt) (pick_done sch attempt) ctx
                      (Delay rcfg) (emit (EvSelect (clock w) (Delay rcfg)) w)
               else (CaseAfter, w)) of
           (CaseDone, w1) \<Rightarrow> Return (ctx_Err ctx (clock w1)) w1
         | (CaseAfter, w1) \<Rightarrow>
             (case foreign fn (emit (EvFn (clock w1)) w1) of
                Panic p w2 \<Rightarrow> Panic p w2
              | Return lastErr' w2 \<Rightarrow>
                  (case lastErr' of
                     None \<Rightarrow> Return None w2
                   | Some e \<Rightarrow>
                       if \<not> retryOn (Some e) then Return (Some e) w2
                       else WithRetry_loop sch ctx rcfg retryOn fn (attempt + 1) (Some e) w2)))
      else Return (Some (all_attempts_failed (MaxAttempts rcfg) lastErr)) w)"
  by pat_completeness auto
termination
  by (relation "measure (\<lambda>(sch, ctx, rcfg, retryOn, fn, attempt, lastErr, w).
                           nat (MaxAttempts rcfg - attempt))") auto

declare WithRetry_loop.simps [simp del]

definition WithRetry ::
  "select_sched \<Rightarrow> Context \<Rightarrow> RetryConfig \<Rightarrow> (error option, 'u) foreign_call \<Rightarrow> 'u world
     \<Rightarrow> (error option, 'u world) outcome" where
  "WithRetry sch ctx rcfg fn w =
     (let retryOn = retryOn_of rcfg
      in WithRetry_loop sch ctx rcfg retryOn fn 0 None w)"

text \<open>
  Where a run of \<open>WithRetry\<close> stands when its loop tests the counter for the \<open>k\<close>-th time
  after the first (the counter then reads \<open>k\<close>): the value of \<open>lastErr\<close> and the world,
  when the run gets that far, that is when each of the \<open>k\<close> attempts before was allowed,
  had its wait completed and failed with an error the predicate accepts; \<open>None\<close> when
  the run has ended before.
\<close>

primrec WithRetry_head ::
  "select_sched \<Rightarrow> Context \<Rightarrow> RetryConfig \<Rightarrow> (error option, 'u) foreign_call \<Rightarrow> 'u world
     \<Rightarrow> nat \<Rightarrow> (error option \<times> 'u world) option" where
  "WithRetry_head sch ctx rcfg fn w 0 = Some (None, w)"
| "WithRetry_head sch ctx rcfg fn w (Suc k) =
     (case WithRetry_head sch ctx rcfg fn w k of
        None \<Rightarrow> None
      | Some (lastErr, wk) \<Rightarrow>
          if int k < MaxAttempts rcfg then
            (case (if 0 < k
                   then select_Done_After (poll_latency sch (int k)) (pick_done sch (int k)) ctx
                          (Delay rcfg) (emit (EvSelect (clock wk) (Delay rcfg)) wk)
                   else (CaseAfter, wk)) of
               (CaseDone, w1) \<Rightarrow> None
             | (CaseAfter, w1) \<Rightarrow>
                 (case foreign fn (emit (EvFn (clock w1)) w1) of
                    Panic p w2 \<Rightarrow> None
                  | Return lastErr' w2 \<Rightarrow>
                      (case lastErr' of
                         None \<Rightarrow> None
                       | Some e \<Rightarrow> if retryOn_of rcfg (Some e) then Some (Some e, w2) else None)))
          else None)"

section \<open>Reading the trace\<close>

fun state_of :: "('a, 's) outcome \<Rightarrow> 's" where
  "state_of (Return a s) = s"
| "state_of (Panic p s) = s"

text \<open>
  The calls of \<open>BeforeQuery\<close> in a trace (position of the hook, context, statement,
  arguments), the calls of \<open>AfterQuery\<close> (the same and the error given), the contexts
  handed to the underlying \<open>*sql.DB\<close> or \<open>*sql.Tx\<close>, and the instants at which
  \<open>WithRetry\<close> called its operation.
\<close>

fun before_calls :: "event list \<Rightarrow> (nat \<times> Context \<times> string \<times> any list) list" where
  "before_calls [] = []"
| "before_calls (EvBeforeQuery i ctx q args # evs) = (i, ctx, q, args) # before_calls evs"
| "before_calls (ev # evs) = before_calls evs"

fun after_calls ::
  "event list \<Rightarrow> (nat \<times> Context \<times> string \<times> any list \<times> error option) list" where
  "after_calls [] = []"
| "after_calls (EvAfterQuery i ctx q args d err # evs) = (i, ctx, q, args, err) # after_calls evs"
| "after_calls (ev # evs) = after_calls evs"

fun dispatched :: "event list \<Rightarrow> Context list" where
  "dispatched [] = []"
| "dispatched (EvExecContext ctx q args # evs) = ctx # dispatched evs"
| "dispatched (EvQueryContext ctx q args # evs) = ctx # dispatched evs"
| "dispatched (EvQueryRowContext ctx q args # evs) = ctx # dispatched evs"
| "dispatched (EvBeginTx ctx opts # evs) = ctx # dispatched evs"
| "dispatched (ev # evs) = dispatched evs"

fun fn_calls :: "event list \<Rightarrow> int list" where
  "fn_calls [] = []"
| "fn_calls (EvFn t # evs) = t # fn_calls evs"
| "fn_calls (ev # evs) = fn_calls evs"

section \<open>Examples\<close>

text \<open>
  The hook of the package's tests, which counts its calls: the outside is the pair of
  its counters (\<open>before\<close>, \<open>after\<close>). And a hook whose two methods panic.
\<close>

definition countingHook :: "(nat \<times> nat) Hook" where
  "countingHook =
     \<lparr>BeforeQuery = (\<lambda>ctx q args s. Return () (fst s, Suc (fst (snd s)), snd (snd s))),
      AfterQuery = (\<lambda>ctx q args d err s. Return () (fst s, fst (snd s), Suc (snd (snd s))))\<rparr>"

definition panickingHook :: "(nat \<times> nat) Hook" where
  "panickingHook =
     \<lparr>BeforeQuery = (\<lambda>ctx q args s. Panic ''boom'' s),
      AfterQuery = (\<lambda>ctx q args d err s. Panic ''boom'' s)\<rparr>"

text \<open>
  A stand-in for \<open>database/sql\<close>: every statement takes three ticks of the clock and
  ends with the given error (nil: it succeeds); \<open>Commit\<close> and \<open>Rollback\<close> return the
  errors given for them.
\<close>

definition stub_sql_Tx :: "error option \<Rightarrow> error option \<Rightarrow> error option \<Rightarrow> (nat \<times> nat) sql_Tx" where
  "stub_sql_Tx stmt commit_err rollback_err =
     \<lparr>tx_ExecContext = (\<lambda>ctx q args s.
        Return (if stmt = None then Some \<lparr>LastInsertId = 1, RowsAffected = 1\<rparr> else None, stmt)
          (fst s + 3, snd s)),
      tx_QueryContext = (\<lambda>ctx q args s.
        Return (if stmt = None then Some [] else None, stmt) (fst s + 3, snd s)),
      tx_QueryRowContext = (\<lambda>ctx q args s. Return (SqlRow stmt) (fst s + 3, snd s)),
      Commit = (\<lambda>s. Return commit_err s),
      Rollback = (\<lambda>s. Return rollback_err s)\<rparr>"

definition stub_sql_DB :: "error option \<Rightarrow> error option \<Rightarrow> error option \<Rightarrow> (nat \<times> nat) sql_DB" where
  "stub_sql_DB stmt commit_err rollback_err =
     \<lparr>ExecContext = (\<lambda>ctx q args s.
        Return (if stmt = None then Some \<lparr>LastInsertId = 1, RowsAffected = 1\<rparr> else None, stmt)
          (fst s + 3, snd s)),
      QueryContext = (\<lambda>ctx q args s.
        Return (if stmt = None then Some [] else None, stmt) (fst s + 3, snd s)),
      QueryRowContext = (\<lambda>ctx q args s. Return (SqlRow stmt) (fst s + 3, snd s)),
      BeginTx = (\<lambda>ctx opts s. Return (Inr (stub_sql_Tx stmt commit_err rollback_err)) s)\<rparr>"

definition example_Config :: "int \<Rightarrow> (nat \<times> nat) Hook option list \<Rightarrow> (nat \<times> nat) Config" where
  "example_Config timeout hs =
     \<lparr>DSN = '':memory:'', DriverName = ''sqlite3'', MaxOpenConns = 0, MaxIdleConns = 0,
      ConnMaxLifetime = 0, ConnMaxIdleTime = 0, DefaultTimeout = timeout, Hooks = hs\<rparr>"

definition example_DB ::
  "int \<Rightarrow> (nat \<times> nat) Hook option list \<Rightarrow> error option \<Rightarrow> error option \<Rightarrow> error option
     \<Rightarrow> (nat \<times> nat) DB" where
  "example_DB timeout hs stmt commit_err rollback_err =
     Open_DB (stub_sql_DB stmt commit_err rollback_err) (example_Config timeout hs)"

definition example_Tx ::
  "(nat \<times> nat) Hook option list \<Rightarrow> error option \<Rightarrow> error option \<Rightarrow> error option
     \<Rightarrow> (nat \<times> nat) Tx" where
  "example_Tx hs stmt commit_err rollback_err =
     \<lparr>sqltx = stub_sql_Tx stmt commit_err rollback_err, tx_hookchain = newHookChain hs,
      tx_errMap = DefaultErrorMapper, tx_cfg = example_Config 0 hs\<rparr>"

definition example_world :: "(nat \<times> nat) world" where
  "example_world = \<lparr>trace = [], clock = 100, ext = (0, 0)\<rparr>"

text \<open>What the SQLite driver reports for a locked database.\<close>

definition database_is_locked :: error where
  "database_is_locked = DriverError ''database is locked'' None None None None"

text \<open>
  An operation for \<open>WithRetry\<close> that counts its calls in the first counter, takes two
  ticks, and fails each time with the given error.
\<close>

definition failing_fn :: "error \<Rightarrow> (error option, nat \<times> nat) foreign_call" where
  "failing_fn e = (\<lambda>s. Return (Some e) (fst s + 2, Suc (fst (snd s)), snd (snd s)))"

text \<open>
  The operation of the package's test \<open>TestWithRetry_SucceedsOnSecondAttempt\<close>: it
  fails with the given error on its first call and succeeds from the second on.
\<close>

definition flaky_fn :: "error \<Rightarrow> (error option, nat \<times> nat) foreign_call" where
  "flaky_fn e =
     (\<lambda>s. Return (if fst (snd s) < 1 then Some e else None)
            (fst s + 2, Suc (fst (snd s)), snd (snd s)))"

text \<open>A transaction body that does nothing and returns the given error.\<close>

definition returning_body ::
  "error option \<Rightarrow> (nat \<times> nat) Tx \<Rightarrow> (nat \<times> nat) world
     \<Rightarrow> (error option, (nat \<times> nat) world) outcome" where
  "returning_body err tx w = Return err w"

text \<open>
  Two schedulers for the \<open>select\<close> of \<open>WithRetry\<close>. The first looks at the channels one
  tick after the timer was armed; the second only ten ticks after. Both take the timer
  when both cases are ready.
\<close>

definition prompt_sched :: select_sched where
  "prompt_sched = \<lparr>poll_latency = (\<lambda>attempt. 1), pick_done = (\<lambda>attempt. False)\<rparr>"

definition late_sched :: select_sched where
  "late_sched = \<lparr>poll_latency = (\<lambda>attempt. 10), pick_done = (\<lambda>attempt. False)\<rparr>"

text \<open>
  A transaction body that runs one statement with the given context and returns its
  error: \<open>func(tx *db.Tx) error { _, err := tx.Exec(ctx, q); return err }\<close>.
\<close>

definition exec_body ::
  "Context \<Rightarrow> string \<Rightarrow> (nat \<times> nat) Tx \<Rightarrow> (nat \<times> nat) world
     \<Rightarrow> (error option, (nat \<times> nat) world) outcome" where
  "exec_body ctx q tx w =
     (case Tx_Exec tx ctx q [] w of
        Panic p w' \<Rightarrow> Panic p w'
      | Return r w' \<Rightarrow> Return (snd r) w')"

section \<open>The default mapper on an error it has classified\<close>

lemma defaultMap_nil: "defaultMap None = None"
  by (simp add: defaultMap_def)

lemma defaultMap_not_nil: "defaultMap (Some e) \<noteq> None"
  by (simp add: defaultMap_def split: option.splits)

lemma defaultMap_classified_passthrough:
  assumes "As_DBError e \<noteq> None"
    and "\<not> errors_Is (Some e) (Some sql_ErrNoRows)"
    and "\<not> errors_Is (Some e) (Some context_deadline_exceeded)"
    and "\<not> errors_Is (Some e) (Some context_canceled)"
  shows "defaultMap (Some e) = Some e"
  using assms by (simp add: defaultMap_def)

text \<open>
  C1. The claim: the default mapper returns every already-classified error unchanged.
  The code tests for \<open>sql.ErrNoRows\<close> and for the context errors before it tests for
  an already mapped error, and \<open>errors.Is\<close> follows \<open>Unwrap\<close> into the cause. So the
  classified error that the mapper itself returns for \<open>sql.ErrNoRows\<close> is wrapped a
  second time when it is mapped again: the result is a new \<open>DBError\<close> whose cause is the
  classified error, not the classified error.
\<close>

theorem defaultMap_wraps_classified_not_found_again:
  "defaultMap (Some sql_ErrNoRows) = Some (DBError (Some ErrNotFound) (Some sql_ErrNoRows) [])
   \<and> defaultMap (Some (DBError (Some ErrNotFound) (Some sql_ErrNoRows) []))
       = Some (DBError (Some ErrNotFound)
                 (Some (DBError (Some ErrNotFound) (Some sql_ErrNoRows) [])) [])
   \<and> defaultMap (defaultMap (Some sql_ErrNoRows)) \<noteq> defaultMap (Some sql_ErrNoRows)"
  by (simp add: defaultMap_def errors_Is_def sentinel_defs)

section \<open>The hook chain never lets a panic through\<close>

lemma before_calls_append: "before_calls (xs @ ys) = before_calls xs @ before_calls ys"
  by (induction xs rule: before_calls.induct) simp_all

lemma after_calls_append: "after_calls (xs @ ys) = after_calls xs @ after_calls ys"
  by (induction xs rule: after_calls.induct) simp_all

lemma dispatched_append: "dispatched (xs @ ys) = dispatched xs @ dispatched ys"
  by (induction xs rule: dispatched.induct) simp_all

lemma fn_calls_append: "fn_calls (xs @ ys) = fn_calls xs @ fn_calls ys"
  by (induction xs rule: fn_calls.induct) simp_all

lemma foreign_trace: "trace (state_of (foreign f w)) = trace w"
  by (simp add: foreign_def split: outcome.splits)

lemma foreign_Return_trace: "foreign f w = Return a w' \<Longrightarrow> trace w' = trace w"
  using foreign_trace [of f w] by simp

lemma foreign_Panic_trace: "foreign f w = Panic p w' \<Longrightarrow> trace w' = trace w"
  using foreign_trace [of f w] by simp

lemma safeBeforeQuery_returns:
  "\<exists>w'. safeBeforeQuery i h ctx q args w = Return () w'"
  by (simp add: safeBeforeQuery_def split: outcome.splits)

lemma safeAfterQuery_returns:
  "\<exists>w'. safeAfterQuery i h ctx q args d err w = Return () w'"
  by (simp add: safeAfterQuery_def split: outcome.splits)

lemma safeBeforeQuery_calls:
  assumes "safeBeforeQuery i h ctx q args w = Return () w'"
  shows "before_calls (trace w') = before_calls (trace w) @ [(i, ctx, q, args)]"
    and "after_calls (trace w') = after_calls (trace w)"
    and "dispatched (trace w') = dispatched (trace w)"
  using assms
  by (auto simp: safeBeforeQuery_def slog_Error_def emit_def before_calls_append
      after_calls_append dispatched_append
      split: outcome.splits dest!: foreign_Return_trace foreign_Panic_trace)

lemma safeAfterQuery_calls:
  assumes "safeAfterQuery i h ctx q args d err w = Return () w'"
  shows "after_calls (trace w') = after_calls (trace w) @ [(i, ctx, q, args, err)]"
    and "before_calls (trace w') = before_calls (trace w)"
    and "dispatched (trace w') = dispatched (trace w)"
  using assms
  by (auto simp: safeAfterQuery_def slog_Error_def emit_def before_calls_append
      after_calls_append dispatched_append
      split: outcome.splits dest!: foreign_Return_trace foreign_Panic_trace)

lemma Before_loop_returns:
  "\<exists>w'. Before_loop i hs ctx q args w = Return () w'
        \<and> before_calls (trace w')
            = before_calls (trace w) @ map (\<lambda>k. (k, ctx, q, args)) [i..<i + length hs]
        \<and> after_calls (trace w') = after_calls (trace w)
        \<and> dispatched (trace w') = dispatched (trace w)"
proof (induction hs arbitrary: i w)
  case Nil
  then show ?case by simp
next
  case (Cons h hs)
  obtain w1 where s: "safeBeforeQuery i h ctx q args w = Return () w1"
    using safeBeforeQuery_returns by blast
  from Cons.IH [of "Suc i" w1] obtain w' where
    l: "Before_loop (Suc i) hs ctx q args w1 = Return () w'"
    and b: "before_calls (trace w')
            = before_calls (trace w1) @ map (\<lambda>k. (k, ctx, q, args)) [Suc i..<Suc i + length hs]"
    and a: "after_calls (trace w') = after_calls (trace w1)"
    and c: "dispatched (trace w') = dispatched (trace w1)"
    by blast
  have "[i..<i + length (h # hs)] = i # [Suc i..<Suc i + length hs]"
    by (subst upt_rec) simp
  with s l b a c safeBeforeQuery_calls [OF s] show ?case by simp
qed

lemma After_loop_returns:
  "\<exists>w'. After_loop i hs ctx q args d err w = Return () w'
        \<and> after_calls (trace w')
            = after_calls (trace w) @ map (\<lambda>k. (k, ctx, q, args, err)) [i..<i + length hs]
        \<and> before_calls (trace w') = before_calls (trace w)
        \<and> dispatched (trace w') = dispatched (trace w)"
proof (induction hs arbitrary: i w)
  case Nil
  then show ?case by simp
next
  case (Cons h hs)
  obtain w1 where s: "safeAfterQuery i h ctx q args d err w = Return () w1"
    using safeAfterQuery_returns by blast
  from Cons.IH [of "Suc i" w1] obtain w' where
    l: "After_loop (Suc i) hs ctx q args d err w1 = Return () w'"
    and a: "after_calls (trace w')
            = after_calls (trace w1)
              @ map (\<lambda>k. (k, ctx, q, args, err)) [Suc i..<Suc i + length hs]"
    and b: "before_calls (trace w') = before_calls (trace w1)"
    and c: "dispatched (trace w') = dispatched (trace w1)"
    by blast
  have "[i..<i + length (h # hs)] = i # [Suc i..<Suc i + length hs]"
    by (subst upt_rec) simp
  with s l b a c safeAfterQuery_calls [OF s] show ?case by simp
qed

lemma hookChain_Before_returns:
  "\<exists>w'. hookChain_Before c ctx q args w = Return () w'
        \<and> before_calls (trace w')
            = before_calls (trace w) @ map (\<lambda>k. (k, ctx, q, args)) [0..<length (hooks c)]
        \<and> after_calls (trace w') = after_calls (trace w)
        \<and> dispatched (trace w') = dispatched (trace w)"
  using Before_loop_returns [of 0 "hooks c" ctx q args w] by (simp add: hookChain_Before_def)

lemma hookChain_After_returns:
  "\<exists>w'. hookChain_After c ctx q args d err w = Return () w'
        \<and> after_calls (trace w')
            = after_calls (trace w) @ map (\<lambda>k. (k, ctx, q, args, err)) [0..<length (hooks c)]
        \<and> before_calls (trace w') = before_calls (trace w)
        \<and> dispatched (trace w') = dispatched (trace w)"
  using After_loop_returns [of 0 "hooks c" ctx q args d err w]
  by (simp add: hookChain_After_def)

section \<open>What an executor operation does around its statement\<close>

lemma DB_Exec_returns:
  assumes b: "hookChain_Before (hookchain d) (applyDefaultTimeout d ctx (clock w)) q args w = Return () w1"
    and x: "foreign (ExecContext (sqldb d) (applyDefaultTimeout d ctx (clock w)) q args)
              (emit (EvExecContext (applyDefaultTimeout d ctx (clock w)) q args) w1) = Return (res, rerr) w2"
  shows "\<exists>w3. DB_Exec d ctx q args w = Return (res, mapErr d rerr) w3
          \<and> after_calls (trace w3) = after_calls (trace w)
               @ map (\<lambda>k. (k, (applyDefaultTimeout d ctx (clock w)), q, args, mapErr d rerr))
                   [0..<length (hooks (hookchain d))]
          \<and> before_calls (trace w3) = before_calls (trace w)
               @ map (\<lambda>k. (k, (applyDefaultTimeout d ctx (clock w)), q, args))
                   [0..<length (hooks (hookchain d))]"
proof -
  from hookChain_Before_returns [of "hookchain d" "(applyDefaultTimeout d ctx (clock w))" q args w] b
  have b1: "before_calls (trace w1) = before_calls (trace w)
              @ map (\<lambda>k. (k, (applyDefaultTimeout d ctx (clock w)), q, args)) [0..<length (hooks (hookchain d))]"
    and a1: "after_calls (trace w1) = after_calls (trace w)"
    by auto
  from foreign_Return_trace [OF x]
  have t2: "trace w2 = trace w1 @ [EvExecContext (applyDefaultTimeout d ctx (clock w)) q args]"
    by (simp add: emit_def)
  obtain w3 where
    h: "hookChain_After (hookchain d) (applyDefaultTimeout d ctx (clock w)) q args (clock w2 - clock w) (mapErr d rerr) w2 = Return () w3"
    and a3: "after_calls (trace w3) = after_calls (trace w2)
               @ map (\<lambda>k. (k, (applyDefaultTimeout d ctx (clock w)), q, args, mapErr d rerr)) [0..<length (hooks (hookchain d))]"
    and b3: "before_calls (trace w3) = before_calls (trace w2)"
    using hookChain_After_returns by blast
  have "DB_Exec d ctx q args w = Return (res, mapErr d rerr) w3"
    using b x h by (simp add: DB_Exec_def Let_def)
  with a1 b1 t2 a3 b3 show ?thesis
    by (simp add: after_calls_append before_calls_append)
qed

lemma DB_Exec_dispatched:
  "dispatched (trace (state_of (DB_Exec d ctx q args w))) = dispatched (trace w) @ [(applyDefaultTimeout d ctx (clock w))]"
proof -
  obtain w1 where
    b: "hookChain_Before (hookchain d) (applyDefaultTimeout d ctx (clock w)) q args w = Return () w1"
    and d1: "dispatched (trace w1) = dispatched (trace w)"
    using hookChain_Before_returns by blast
  show ?thesis
  proof (cases "foreign (ExecContext (sqldb d) (applyDefaultTimeout d ctx (clock w)) q args) (emit (EvExecContext (applyDefaultTimeout d ctx (clock w)) q args) w1)")
    case (Panic p w2)
    from foreign_Panic_trace [OF Panic]
    have "trace w2 = trace w1 @ [EvExecContext (applyDefaultTimeout d ctx (clock w)) q args]"
      by (simp add: emit_def)
    with b d1 Panic show ?thesis
      by (simp add: DB_Exec_def Let_def dispatched_append)
  next
    case (Return r w2)
    from foreign_Return_trace [OF Return]
    have t2: "trace w2 = trace w1 @ [EvExecContext (applyDefaultTimeout d ctx (clock w)) q args]"
      by (simp add: emit_def)
    obtain w3 where
      h: "hookChain_After (hookchain d) (applyDefaultTimeout d ctx (clock w)) q args (clock w2 - clock w) (mapErr d (snd r)) w2 = Return () w3"
      and d3: "dispatched (trace w3) = dispatched (trace w2)"
      using hookChain_After_returns by blast
    with b d1 t2 Return show ?thesis
      by (simp add: DB_Exec_def Let_def dispatched_append)
  qed
qed

lemma DB_Query_returns:
  assumes b: "hookChain_Before (hookchain d) (applyDefaultTimeout d ctx (clock w)) q args w = Return () w1"
    and x: "foreign (QueryContext (sqldb d) (applyDefaultTimeout d ctx (clock w)) q args)
              (emit (EvQueryContext (applyDefaultTimeout d ctx (clock w)) q args) w1) = Return (res, rerr) w2"
  shows "\<exists>w3. DB_Query d ctx q args w = Return (res, mapErr d rerr) w3
          \<and> after_calls (trace w3) = after_calls (trace w)
               @ map (\<lambda>k. (k, (applyDefaultTimeout d ctx (clock w)), q, args, mapErr d rerr))
                   [0..<length (hooks (hookchain d))]
          \<and> before_calls (trace w3) = before_calls (trace w)
               @ map (\<lambda>k. (k, (applyDefaultTimeout d ctx (clock w)), q, args))
                   [0..<length (hooks (hookchain d))]"
proof -
  from hookChain_Before_returns [of "hookchain d" "(applyDefaultTimeout d ctx (clock w))" q args w] b
  have b1: "before_calls (trace w1) = before_calls (trace w)
              @ map (\<lambda>k. (k, (applyDefaultTimeout d ctx (clock w)), q, args)) [0..<length (hooks (hookchain d))]"
    and a1: "after_calls (trace w1) = after_calls (trace w)"
    by auto
  from foreign_Return_trace [OF x]
  have t2: "trace w2 = trace w1 @ [EvQueryContext (applyDefaultTimeout d ctx (clock w)) q args]"
    by (simp add: emit_def)
  obtain w3 where
    h: "hookChain_After (hookchain d) (applyDefaultTimeout d ctx (clock w)) q args (clock w2 - clock w) (mapErr d rerr) w2 = Return () w3"
    and a3: "after_calls (trace w3) = after_calls (trace w2)
               @ map (\<lambda>k. (k, (applyDefaultTimeout d ctx (clock w)), q, args, mapErr d rerr)) [0..<length (hooks (hookchain d))]"
    and b3: "before_calls (trace w3) = before_calls (trace w2)"
    using hookChain_After_returns by blast
  have "DB_Query d ctx q args w = Return (res, mapErr d rerr) w3"
    using b x h by (simp add: DB_Query_def Let_def)
  with a1 b1 t2 a3 b3 show ?thesis
    by (simp add: after_calls_append before_calls_append)
qed

lemma DB_Query_dispatched:
  "dispatched (trace (state_of (DB_Query d ctx q args w))) = dispatched (trace w) @ [(applyDefaultTimeout d ctx (clock w))]"
proof -
  obtain w1 where
    b: "hookChain_Before (hookchain d) (applyDefaultTimeout d ctx (clock w)) q args w = Return () w1"
    and d1: "dispatched (trace w1) = dispatched (trace w)"
    using hookChain_Before_returns by blast
  show ?thesis
  proof (cases "foreign (QueryContext (sqldb d) (applyDefaultTimeout d ctx (clock w)) q args) (emit (EvQueryContext (applyDefaultTimeout d ctx (clock w)) q args) w1)")
    case (Panic p w2)
    from foreign_Panic_trace [OF Panic]
    have "trace w2 = trace w1 @ [EvQueryContext (applyDefaultTimeout d ctx (clock w)) q args]"
      by (simp add: emit_def)
    with b d1 Panic show ?thesis
      by (simp add: DB_Query_def Let_def dispatched_append)
  next
    case (Return r w2)
    from foreign_Return_trace [OF Return]
    have t2: "trace w2 = trace w1 @ [EvQueryContext (applyDefaultTimeout d ctx (clock w)) q args]"
      by (simp add: emit_def)
    obtain w3 where
      h: "hookChain_After (hookchain d) (applyDefaultTimeout d ctx (clock w)) q args (clock w2 - clock w) (mapErr d (snd r)) w2 = Return () w3"
      and d3: "dispatched (trace w3) = dispatched (trace w2)"
      using hookChain_After_returns by blast
    with b d1 t2 Return show ?thesis
      by (simp add: DB_Query_def Let_def dispatched_append)
  qed
qed

lemma DB_QueryRow_returns:
  assumes b: "hookChain_Before (hookchain d) (applyDefaultTimeout d ctx (clock w)) q args w = Return () w1"
    and x: "foreign (QueryRowContext (sqldb d) (applyDefaultTimeout d ctx (clock w)) q args)
              (emit (EvQueryRowContext (applyDefaultTimeout d ctx (clock w)) q args) w1) = Return r w2"
  shows "\<exists>w3. DB_QueryRow d ctx q args w = Return \<lparr>raw = r, row_errMap = errMap d\<rparr> w3
          \<and> after_calls (trace w3) = after_calls (trace w)
               @ map (\<lambda>k. (k, (applyDefaultTimeout d ctx (clock w)), q, args, None))
                   [0..<length (hooks (hookchain d))]
          \<and> before_calls (trace w3) = before_calls (trace w)
               @ map (\<lambda>k. (k, (applyDefaultTimeout d ctx (clock w)), q, args))
                   [0..<length (hooks (hookchain d))]"
proof -
  from hookChain_Before_returns [of "hookchain d" "(applyDefaultTimeout d ctx (clock w))" q args w] b
  have b1: "before_calls (trace w1) = before_calls (trace w)
              @ map (\<lambda>k. (k, (applyDefaultTimeout d ctx (clock w)), q, args)) [0..<length (hooks (hookchain d))]"
    and a1: "after_calls (trace w1) = after_calls (trace w)"
    by auto
  from foreign_Return_trace [OF x]
  have t2: "trace w2 = trace w1 @ [EvQueryRowContext (applyDefaultTimeout d ctx (clock w)) q args]"
    by (simp add: emit_def)
  obtain w3 where
    h: "hookChain_After (hookchain d) (applyDefaultTimeout d ctx (clock w)) q args (clock w2 - clock w) (None) w2 = Return () w3"
    and a3: "after_calls (trace w3) = after_calls (trace w2)
               @ map (\<lambda>k. (k, (applyDefaultTimeout d ctx (clock w)), q, args, None)) [0..<length (hooks (hookchain d))]"
    and b3: "before_calls (trace w3) = before_calls (trace w2)"
    using hookChain_After_returns by blast
  have "DB_QueryRow d ctx q args w = Return \<lparr>raw = r, row_errMap = errMap d\<rparr> w3"
    using b x h by (simp add: DB_QueryRow_def Let_def)
  with a1 b1 t2 a3 b3 show ?thesis
    by (simp add: after_calls_append before_calls_append)
qed

lemma DB_QueryRow_dispatched:
  "dispatched (trace (state_of (DB_QueryRow d ctx q args w))) = dispatched (trace w) @ [(applyDefaultTimeout d ctx (clock w))]"
proof -
  obtain w1 where
    b: "hookChain_Before (hookchain d) (applyDefaultTimeout d ctx (clock w)) q args w = Return () w1"
    and d1: "dispatched (trace w1) = dispatched (trace w)"
    using hookChain_Before_returns by blast
  show ?thesis
  proof (cases "foreign (QueryRowContext (sqldb d) (applyDefaultTimeout d ctx (clock w)) q args) (emit (EvQueryRowContext (applyDefaultTimeout d ctx (clock w)) q args) w1)")
    case (Panic p w2)
    from foreign_Panic_trace [OF Panic]
    have "trace w2 = trace w1 @ [EvQueryRowContext (applyDefaultTimeout d ctx (clock w)) q args]"
      by (simp add: emit_def)
    with b d1 Panic show ?thesis
      by (simp add: DB_QueryRow_def Let_def dispatched_append)
  next
    case (Return r w2)
    from foreign_Return_trace [OF Return]
    have t2: "trace w2 = trace w1 @ [EvQueryRowContext (applyDefaultTimeout d ctx (clock w)) q args]"
      by (simp add: emit_def)
    obtain w3 where
      h: "hookChain_After (hookchain d) (applyDefaultTimeout d ctx (clock w)) q args (clock w2 - clock w) (None) w2 = Return () w3"
      and d3: "dispatched (trace w3) = dispatched (trace w2)"
      using hookChain_After_returns by blast
    with b d1 t2 Return show ?thesis
      by (simp add: DB_QueryRow_def Let_def dispatched_append)
  qed
qed

lemma Tx_Exec_returns:
  assumes b: "hookChain_Before (tx_hookchain t) ctx q args w = Return () w1"
    and x: "foreign (tx_ExecContext (sqltx t) ctx q args)
              (emit (EvExecContext ctx q args) w1) = Return (res, rerr) w2"
  shows "\<exists>w3. Tx_Exec t ctx q args w = Return (res, Tx_mapErr t rerr) w3
          \<and> after_calls (trace w3) = after_calls (trace w)
               @ map (\<lambda>k. (k, ctx, q, args, Tx_mapErr t rerr))
                   [0..<length (hooks (tx_hookchain t))]
          \<and> before_calls (trace w3) = before_calls (trace w)
               @ map (\<lambda>k. (k, ctx, q, args))
                   [0..<length (hooks (tx_hookchain t))]"
proof -
  from hookChain_Before_returns [of "tx_hookchain t" "ctx" q args w] b
  have b1: "before_calls (trace w1) = before_calls (trace w)
              @ map (\<lambda>k. (k, ctx, q, args)) [0..<length (hooks (tx_hookchain t))]"
    and a1: "after_calls (trace w1) = after_calls (trace w)"
    by auto
  from foreign_Return_trace [OF x]
  have t2: "trace w2 = trace w1 @ [EvExecContext ctx q args]"
    by (simp add: emit_def)
  obtain w3 where
    h: "hookChain_After (tx_hookchain t) ctx q args (clock w2 - clock w) (Tx_mapErr t rerr) w2 = Return () w3"
    and a3: "after_calls (trace w3) = after_calls (trace w2)
               @ map (\<lambda>k. (k, ctx, q, args, Tx_mapErr t rerr)) [0..<length (hooks (tx_hookchain t))]"
    and b3: "before_calls (trace w3) = before_calls (trace w2)"
    using hookChain_After_returns by blast
  have "Tx_Exec t ctx q args w = Return (res, Tx_mapErr t rerr) w3"
    using b x h by (simp add: Tx_Exec_def Let_def)
  with a1 b1 t2 a3 b3 show ?thesis
    by (simp add: after_calls_append before_calls_append)
qed

lemma Tx_Exec_dispatched:
  "dispatched (trace (state_of (Tx_Exec t ctx q args w))) = dispatched (trace w) @ [ctx]"
proof -
  obtain w1 where
    b: "hookChain_Before (tx_hookchain t) ctx q args w = Return () w1"
    and d1: "dispatched (trace w1) = dispatched (trace w)"
    using hookChain_Before_returns by blast
  show ?thesis
  proof (cases "foreign (tx_ExecContext (sqltx t) ctx q args) (emit (EvExecContext ctx q args) w1)")
    case (Panic p w2)
    from foreign_Panic_trace [OF Panic]
    have "trace w2 = trace w1 @ [EvExecContext ctx q args]"
      by (simp add: emit_def)
    with b d1 Panic show ?thesis
      by (simp add: Tx_Exec_def Let_def dispatched_append)
  next
    case (Return r w2)
    from foreign_Return_trace [OF Return]
    have t2: "trace w2 = trace w1 @ [EvExecContext ctx q args]"
      by (simp add: emit_def)
    obtain w3 where
      h: "hookChain_After (tx_hookchain t) ctx q args (clock w2 - clock w) (Tx_mapErr t (snd r)) w2 = Return () w3"
      and d3: "dispatched (trace w3) = dispatched (trace w2)"
      using hookChain_After_returns by blast
    with b d1 t2 Return show ?thesis
      by (simp add: Tx_Exec_def Let_def dispatched_append)
  qed
qed

lemma Tx_Query_returns:
  assumes b: "hookChain_Before (tx_hookchain t) ctx q args w = Return () w1"
    and x: "foreign (tx_QueryContext (sqltx t) ctx q args)
              (emit (EvQueryContext ctx q args) w1) = Return (res, rerr) w2"
  shows "\<exists>w3. Tx_Query t ctx q args w = Return (res, Tx_mapErr t rerr) w3
          \<and> after_calls (trace w3) = after_calls (trace w)
               @ map (\<lambda>k. (k, ctx, q, args, Tx_mapErr t rerr))
                   [0..<length (hooks (tx_hookchain t))]
          \<and> before_calls (trace w3) = before_calls (trace w)
               @ map (\<lambda>k. (k, ctx, q, args))
                   [0..<length (hooks (tx_hookchain t))]"
proof -
  from hookChain_Before_returns [of "tx_hookchain t" "ctx" q args w] b
  have b1: "before_calls (trace w1) = before_calls (trace w)
              @ map (\<lambda>k. (k, ctx, q, args)) [0..<length (hooks (tx_hookchain t))]"
    and a1: "after_calls (trace w1) = after_calls (trace w)"
    by auto
  from foreign_Return_trace [OF x]
  have t2: "trace w2 = trace w1 @ [EvQueryContext ctx q args]"
    by (simp add: emit_def)
  obtain w3 where
    h: "hookChain_After (tx_hookchain t) ctx q args (clock w2 - clock w) (Tx_mapErr t rerr) w2 = Return () w3"
    and a3: "after_calls (trace w3) = after_calls (trace w2)
               @ map (\<lambda>k. (k, ctx, q, args, Tx_mapErr t rerr)) [0..<length (hooks (tx_hookchain t))]"
    and b3: "before_calls (trace w3) = before_calls (trace w2)"
    using hookChain_After_returns by blast
  have "Tx_Query t ctx q args w = Return (res, Tx_mapErr t rerr) w3"
    using b x h by (simp add: Tx_Query_def Let_def)
  with a1 b1 t2 a3 b3 show ?thesis
    by (simp add: after_calls_append before_calls_append)
qed

lemma Tx_Query_dispatched:
  "dispatched (trace (state_of (Tx_Query t ctx q args w))) = dispatched (trace w) @ [ctx]"
proof -
  obtain w1 where
    b: "hookChain_Before (tx_hookchain t) ctx q args w = Return () w1"
    and d1: "dispatched (trace w1) = dispatched (trace w)"
    using hookChain_Before_returns by blast
  show ?thesis
  proof (cases "foreign (tx_QueryContext (sqltx t) ctx q args) (emit (EvQueryContext ctx q args) w1)")
    case (Panic p w2)
    from foreign_Panic_trace [OF Panic]
    have "trace w2 = trace w1 @ [EvQueryContext ctx q args]"
      by (simp add: emit_def)
    with b d1 Panic show ?thesis
      by (simp add: Tx_Query_def Let_def dispatched_append)
  next
    case (Return r w2)
    from foreign_Return_trace [OF Return]
    have t2: "trace w2 = trace w1 @ [EvQueryContext ctx q args]"
      by (simp add: emit_def)
    obtain w3 where
      h: "hookChain_After (tx_hookchain t) ctx q args (clock w2 - clock w) (Tx_mapErr t (snd r)) w2 = Return () w3"
      and d3: "dispatched (trace w3) = dispatched (trace w2)"
      using hookChain_After_returns by blast
    with b d1 t2 Return show ?thesis
      by (simp add: Tx_Query_def Let_def dispatched_append)
  qed
qed

lemma Tx_QueryRow_returns:
  assumes b: "hookChain_Before (tx_hookchain t) ctx q args w = Return () w1"
    and x: "foreign (tx_QueryRowContext (sqltx t) ctx q args)
              (emit (EvQueryRowContext ctx q args) w1) = Return r w2"
  shows "\<exists>w3. Tx_QueryRow t ctx q args w = Return \<lparr>raw = r, row_errMap = tx_errMap t\<rparr> w3
          \<and> after_calls (trace w3) = after_calls (trace w)
               @ map (\<lambda>k. (k, ctx, q, args, None))
                   [0..<length (hooks (tx_hookchain t))]
          \<and> before_calls (trace w3) = before_calls (trace w)
               @ map (\<lambda>k. (k, ctx, q, args))
                   [0..<length (hooks (tx_hookchain t))]"
proof -
  from hookChain_Before_returns [of "tx_hookchain t" "ctx" q args w] b
  have b1: "before_calls (trace w1) = before_calls (trace w)
              @ map (\<lambda>k. (k, ctx, q, args)) [0..<length (hooks (tx_hookchain t))]"
    and a1: "after_calls (trace w1) = after_calls (trace w)"
    by auto
  from foreign_Return_trace [OF x]
  have t2: "trace w2 = trace w1 @ [EvQueryRowContext ctx q args]"
    by (simp add: emit_def)
  obtain w3 where
    h: "hookChain_After (tx_hookchain t) ctx q args (clock w2 - clock w) (None) w2 = Return () w3"
    and a3: "after_calls (trace w3) = after_calls (trace w2)
               @ map (\<lambda>k. (k, ctx, q, args, None)) [0..<length (hooks (tx_hookchain t))]"
    and b3: "before_calls (trace w3) = before_calls (trace w2)"
    using hookChain_After_returns by blast
  have "Tx_QueryRow t ctx q args w = Return \<lparr>raw = r, row_errMap = tx_errMap t\<rparr> w3"
    using b x h by (simp add: Tx_QueryRow_def Let_def)
  with a1 b1 t2 a3 b3 show ?thesis
    by (simp add: after_calls_append before_calls_append)
qed

lemma Tx_QueryRow_dispatched:
  "dispatched (trace (state_of (Tx_QueryRow t ctx q args w))) = dispatched (trace w) @ [ctx]"
proof -
  obtain w1 where
    b: "hookChain_Before (tx_hookchain t) ctx q args w = Return () w1"
    and d1: "dispatched (trace w1) = dispatched (trace w)"
    using hookChain_Before_returns by blast
  show ?thesis
  proof (cases "foreign (tx_QueryRowContext (sqltx t) ctx q args) (emit (EvQueryRowContext ctx q args) w1)")
    case (Panic p w2)
    from foreign_Panic_trace [OF Panic]
    have "trace w2 = trace w1 @ [EvQueryRowContext ctx q args]"
      by (simp add: emit_def)
    with b d1 Panic show ?thesis
      by (simp add: Tx_QueryRow_def Let_def dispatched_append)
  next
    case (Return r w2)
    from foreign_Return_trace [OF Return]
    have t2: "trace w2 = trace w1 @ [EvQueryRowContext ctx q args]"
      by (simp add: emit_def)
    obtain w3 where
      h: "hookChain_After (tx_hookchain t) ctx q args (clock w2 - clock w) (None) w2 = Return () w3"
      and d3: "dispatched (trace w3) = dispatched (trace w2)"
      using hookChain_After_returns by blast
    with b d1 t2 Return show ?thesis
      by (simp add: Tx_QueryRow_def Let_def dispatched_append)
  qed
qed

section \<open>Evaluating the examples\<close>

lemmas example_defs =
  example_DB_def example_Tx_def example_Config_def example_world_def stub_sql_DB_def
  stub_sql_Tx_def Open_DB_def newHookChain_def List.map_filter_def DefaultErrorMapper_def
  context_Background_def

lemmas hook_defs =
  countingHook_def panickingHook_def hookChain_Before_def hookChain_After_def
  safeBeforeQuery_def safeAfterQuery_def foreign_def emit_def slog_Error_def
  applyDefaultTimeout_def mapErr_def Tx_mapErr_def Let_def

lemma classify_locked:
  "defaultMap (Some database_is_locked)
     = Some (DBError (Some ErrDeadlock) (Some database_is_locked) [])"
  by (simp add: defaultMap_def errors_Is_def sentinel_defs database_is_locked_def
      mapPQError_def mapPGXError_def mapMySQLError_def mapSQLiteError_def mapByPGCode_def
      pqCodeFromString_def strings_LastIndex_def strings_Index_def strings_Contains_def)

section \<open>The after-notification of a statement\<close>

text \<open>
  C2, as amended. Whatever the hooks do, once the call of the underlying \<open>*sql.DB\<close> or
  \<open>*sql.Tx\<close> has returned, the operation returns and \<open>AfterQuery\<close> has been called
  exactly once on each hook of the chain, in order. For \<open>Exec\<close> and \<open>Query\<close> the error it
  receives is the error of the statement as the error mapper classified it (nil for a
  statement that succeeded), which is also the error returned to the caller. For
  \<open>QueryRow\<close> it receives nil, whatever the statement did: the error of the statement
  is classified later, by \<open>Row.Scan\<close>. (\<open>w1\<close> and \<open>v1\<close> are the worlds the
  before-notification leaves; the other worlds named are those the driver leaves.)
\<close>

theorem AfterQuery_once_per_statement:
  "(hookChain_Before (hookchain d) (applyDefaultTimeout d ctx (clock w)) q args w = Return () w1 \<longrightarrow>
      (foreign (ExecContext (sqldb d) (applyDefaultTimeout d ctx (clock w)) q args)
           (emit (EvExecContext (applyDefaultTimeout d ctx (clock w)) q args) w1) = Return (res, rerr) w2 \<longrightarrow>
         (\<exists>w3. DB_Exec d ctx q args w = Return (res, mapErr d rerr) w3
            \<and> after_calls (trace w3) = after_calls (trace w)
                 @ map (\<lambda>k. (k, (applyDefaultTimeout d ctx (clock w)), q, args, mapErr d rerr))
                     [0..<length (hooks (hookchain d))]))
      \<and> (foreign (QueryContext (sqldb d) (applyDefaultTimeout d ctx (clock w)) q args)
           (emit (EvQueryContext (applyDefaultTimeout d ctx (clock w)) q args) w1) = Return (rows, qerr) w2q \<longrightarrow>
         (\<exists>w3. DB_Query d ctx q args w = Return (rows, mapErr d qerr) w3
            \<and> after_calls (trace w3) = after_calls (trace w)
                 @ map (\<lambda>k. (k, (applyDefaultTimeout d ctx (clock w)), q, args, mapErr d qerr))
                     [0..<length (hooks (hookchain d))]))
      \<and> (foreign (QueryRowContext (sqldb d) (applyDefaultTimeout d ctx (clock w)) q args)
           (emit (EvQueryRowContext (applyDefaultTimeout d ctx (clock w)) q args) w1) = Return r w2r \<longrightarrow>
         (\<exists>w3. DB_QueryRow d ctx q args w = Return \<lparr>raw = r, row_errMap = errMap d\<rparr> w3
            \<and> after_calls (trace w3) = after_calls (trace w)
                 @ map (\<lambda>k. (k, (applyDefaultTimeout d ctx (clock w)), q, args, None))
                     [0..<length (hooks (hookchain d))])))
   \<and> (hookChain_Before (tx_hookchain t) ctx q args w = Return () v1 \<longrightarrow>
      (foreign (tx_ExecContext (sqltx t) ctx q args)
           (emit (EvExecContext ctx q args) v1) = Return (tres, terr) v2 \<longrightarrow>
         (\<exists>w3. Tx_Exec t ctx q args w = Return (tres, Tx_mapErr t terr) w3
            \<and> after_calls (trace w3) = after_calls (trace w)
                 @ map (\<lambda>k. (k, ctx, q, args, Tx_mapErr t terr))
                     [0..<length (hooks (tx_hookchain t))]))
      \<and> (foreign (tx_QueryContext (sqltx t) ctx q args)
           (emit (EvQueryContext ctx q args) v1) = Return (trows, tqerr) v2q \<longrightarrow>
         (\<exists>w3. Tx_Query t ctx q args w = Return (trows, Tx_mapErr t tqerr) w3
            \<and> after_calls (trace w3) = after_calls (trace w)
                 @ map (\<lambda>k. (k, ctx, q, args, Tx_mapErr t tqerr))
                     [0..<length (hooks (tx_hookchain t))]))
      \<and> (foreign (tx_QueryRowContext (sqltx t) ctx q args)
           (emit (EvQueryRowContext ctx q args) v1) = Return tr v2r \<longrightarrow>
         (\<exists>w3. Tx_QueryRow t ctx q args w = Return \<lparr>raw = tr, row_errMap = tx_errMap t\<rparr> w3
            \<and> after_calls (trace w3) = after_calls (trace w)
                 @ map (\<lambda>k. (k, ctx, q, args, None))
                     [0..<length (hooks (tx_hookchain t))])))"
  by (intro conjI impI)
    (blast dest: DB_Exec_returns DB_Query_returns DB_QueryRow_returns
       Tx_Exec_returns Tx_Query_returns Tx_QueryRow_returns)+

text \<open>
  C2 as claimed fails for \<open>QueryRow\<close>: the statement fails on a locked database, the one
  hook is told nil, and the classified error of the attempt, which \<open>Scan\<close> returns, is
  the deadlock error.
\<close>

theorem QueryRow_AfterQuery_gets_nil_for_failed_statement:
  "DB_QueryRow (example_DB 0 [Some countingHook] (Some database_is_locked) None None)
       context_Background ''SELECT 1'' [] example_world
     = Return \<lparr>raw = SqlRow (Some database_is_locked), row_errMap = DefaultErrorMapper\<rparr>
         \<lparr>trace = [EvBeforeQuery 0 context_Background ''SELECT 1'' [], EvQueryRowContext context_Background ''SELECT 1'' [],
                   EvAfterQuery 0 context_Background ''SELECT 1'' [] 3 None],
          clock = 103, ext = (1, 1)\<rparr>
   \<and> Row_Scan \<lparr>raw = SqlRow (Some database_is_locked), row_errMap = DefaultErrorMapper\<rparr>
     = Some (DBError (Some ErrDeadlock) (Some database_is_locked) [])"
  by (simp add: example_defs hook_defs classify_locked DB_QueryRow_def Row_Scan_def)

theorem AfterQuery_once_per_statement_witness:
  "hookChain_Before (hookchain (example_DB 0 [Some panickingHook, None, Some countingHook] (Some database_is_locked) None None)) context_Background ''SELECT 1'' [] example_world
       = Return () \<lparr>trace = [EvBeforeQuery 0 context_Background ''SELECT 1'' [],
                   EvSlogError ''sqltoolkit/db: hook panic in BeforeQuery'' ''boom'',
                   EvBeforeQuery 1 context_Background ''SELECT 1'' []],
          clock = 100, ext = (1, 0)\<rparr>
   \<and> foreign (ExecContext (sqldb (example_DB 0 [Some panickingHook, None, Some countingHook] (Some database_is_locked) None None)) context_Background ''SELECT 1'' [])
         (emit (EvExecContext context_Background ''SELECT 1'' []) \<lparr>trace = [EvBeforeQuery 0 context_Background ''SELECT 1'' [],
                   EvSlogError ''sqltoolkit/db: hook panic in BeforeQuery'' ''boom'',
                   EvBeforeQuery 1 context_Background ''SELECT 1'' []],
          clock = 100, ext = (1, 0)\<rparr>)
       = Return (None, Some database_is_locked) \<lparr>trace = [EvBeforeQuery 0 context_Background ''SELECT 1'' [],
                   EvSlogError ''sqltoolkit/db: hook panic in BeforeQuery'' ''boom'',
                   EvBeforeQuery 1 context_Background ''SELECT 1'' [], EvExecContext context_Background ''SELECT 1'' []],
          clock = 103, ext = (1, 0)\<rparr>
   \<and> (\<exists>w3. DB_Exec (example_DB 0 [Some panickingHook, None, Some countingHook] (Some database_is_locked) None None) context_Background ''SELECT 1'' [] example_world = Return (None, Some (DBError (Some ErrDeadlock) (Some database_is_locked) [])) w3
          \<and> after_calls (trace w3) = [(0, context_Background, ''SELECT 1'', [], Some (DBError (Some ErrDeadlock) (Some database_is_locked) [])), (1, context_Background, ''SELECT 1'', [], Some (DBError (Some ErrDeadlock) (Some database_is_locked) []))])
   \<and> foreign (QueryContext (sqldb (example_DB 0 [Some panickingHook, None, Some countingHook] (Some database_is_locked) None None)) context_Background ''SELECT 1'' [])
         (emit (EvQueryContext context_Background ''SELECT 1'' []) \<lparr>trace = [EvBeforeQuery 0 context_Background ''SELECT 1'' [],
                   EvSlogError ''sqltoolkit/db: hook panic in BeforeQuery'' ''boom'',
                   EvBeforeQuery 1 context_Background ''SELECT 1'' []],
          clock = 100, ext = (1, 0)\<rparr>)
       = Return (None, Some database_is_locked) \<lparr>trace = [EvBeforeQuery 0 context_Background ''SELECT 1'' [],
                   EvSlogError ''sqltoolkit/db: hook panic in BeforeQuery'' ''boom'',
                   EvBeforeQuery 1 context_Background ''SELECT 1'' [], EvQueryContext context_Background ''SELECT 1'' []],
          clock = 103, ext = (1, 0)\<rparr>
   \<and> (\<exists>w3. DB_Query (example_DB 0 [Some panickingHook, None, Some countingHook] (Some database_is_locked) None None) context_Background ''SELECT 1'' [] example_world = Return (None, Some (DBError (Some ErrDeadlock) (Some database_is_locked) [])) w3
          \<and> after_calls (trace w3) = [(0, context_Background, ''SELECT 1'', [], Some (DBError (Some ErrDeadlock) (Some database_is_locked) [])), (1, context_Background, ''SELECT 1'', [], Some (DBError (Some ErrDeadlock) (Some database_is_locked) []))])
   \<and> foreign (QueryRowContext (sqldb (example_DB 0 [Some panickingHook, None, Some countingHook] (Some database_is_locked) None None)) context_Background ''SELECT 1'' [])
         (emit (EvQueryRowContext context_Background ''SELECT 1'' []) \<lparr>trace = [EvBeforeQuery 0 context_Background ''SELECT 1'' [],
                   EvSlogError ''sqltoolkit/db: hook panic in BeforeQuery'' ''boom'',
                   EvBeforeQuery 1 context_Background ''SELECT 1'' []],
          clock = 100, ext = (1, 0)\<rparr>)
       = Return (SqlRow (Some database_is_locked)) \<lparr>trace = [EvBeforeQuery 0 context_Background ''SELECT 1'' [],
                   EvSlogError ''sqltoolkit/db: hook panic in BeforeQuery'' ''boom'',
                   EvBeforeQuery 1 context_Background ''SELECT 1'' [], EvQueryRowContext context_Background ''SELECT 1'' []],
          clock = 103, ext = (1, 0)\<rparr>
   \<and> (\<exists>w3. DB_QueryRow (example_DB 0 [Some panickingHook, None, Some countingHook] (Some database_is_locked) None None) context_Background ''SELECT 1'' [] example_world = Return \<lparr>raw = SqlRow (Some database_is_locked), row_errMap = DefaultErrorMapper\<rparr> w3
          \<and> after_calls (trace w3) = [(0, context_Background, ''SELECT 1'', [], None), (1, context_Background, ''SELECT 1'', [], None)])
   \<and> hookChain_Before (tx_hookchain (example_Tx [Some panickingHook, None, Some countingHook] (Some database_is_locked) None None)) context_Background ''SELECT 1'' [] example_world
       = Return () \<lparr>trace = [EvBeforeQuery 0 context_Background ''SELECT 1'' [],
                   EvSlogError ''sqltoolkit/db: hook panic in BeforeQuery'' ''boom'',
                   EvBeforeQuery 1 context_Background ''SELECT 1'' []],
          clock = 100, ext = (1, 0)\<rparr>
   \<and> foreign (tx_ExecContext (sqltx (example_Tx [Some panickingHook, None, Some countingHook] (Some database_is_locked) None None)) context_Background ''SELECT 1'' [])
         (emit (EvExecContext context_Background ''SELECT 1'' []) \<lparr>trace = [EvBeforeQuery 0 context_Background ''SELECT 1'' [],
                   EvSlogError ''sqltoolkit/db: hook panic in BeforeQuery'' ''boom'',
                   EvBeforeQuery 1 context_Background ''SELECT 1'' []],
          clock = 100, ext = (1, 0)\<rparr>)
       = Return (None, Some database_is_locked) \<lparr>trace = [EvBeforeQuery 0 context_Background ''SELECT 1'' [],
                   EvSlogError ''sqltoolkit/db: hook panic in BeforeQuery'' ''boom'',
                   EvBeforeQuery 1 context_Background ''SELECT 1'' [], EvExecContext context_Background ''SELECT 1'' []],
          clock = 103, ext = (1, 0)\<rparr>
   \<and> (\<exists>w3. Tx_Exec (example_Tx [Some panickingHook, None, Some countingHook] (Some database_is_locked) None None) context_Background ''SELECT 1'' [] example_world = Return (None, Some (DBError (Some ErrDeadlock) (Some database_is_locked) [])) w3
          \<and> after_calls (trace w3) = [(0, context_Background, ''SELECT 1'', [], Some (DBError (Some ErrDeadlock) (Some database_is_locked) [])), (1, context_Background, ''SELECT 1'', [], Some (DBError (Some ErrDeadlock) (Some database_is_locked) []))])
   \<and> foreign (tx_QueryContext (sqltx (example_Tx [Some panickingHook, None, Some countingHook] (Some database_is_locked) None None)) context_Background ''SELECT 1'' [])
         (emit (EvQueryContext context_Background ''SELECT 1'' []) \<lparr>trace = [EvBeforeQuery 0 context_Background ''SELECT 1'' [],
                   EvSlogError ''sqltoolkit/db: hook panic in BeforeQuery'' ''boom'',
                   EvBeforeQuery 1 context_Background ''SELECT 1'' []],
          clock = 100, ext = (1, 0)\<rparr>)
       = Return (None, Some database_is_locked) \<lparr>trace = [EvBeforeQuery 0 context_Background ''SELECT 1'' [],
                   EvSlogError ''sqltoolkit/db: hook panic in BeforeQuery'' ''boom'',
                   EvBeforeQuery 1 context_Background ''SELECT 1'' [], EvQueryContext context_Background ''SELECT 1'' []],
          clock = 103, ext = (1, 0)\<rparr>
   \<and> (\<exists>w3. Tx_Query (example_Tx [Some panickingHook, None, Some countingHook] (Some database_is_locked) None None) context_Background ''SELECT 1'' [] example_world = Return (None, Some (DBError (Some ErrDeadlock) (Some database_is_locked) [])) w3
          \<and> after_calls (trace w3) = [(0, context_Background, ''SELECT 1'', [], Some (DBError (Some ErrDeadlock) (Some database_is_locked) [])), (1, context_Background, ''SELECT 1'', [], Some (DBError (Some ErrDeadlock) (Some database_is_locked) []))])
   \<and> foreign (tx_QueryRowContext (sqltx (example_Tx [Some panickingHook, None, Some countingHook] (Some database_is_locked) None None)) context_Background ''SELECT 1'' [])
         (emit (EvQueryRowContext context_Background ''SELECT 1'' []) \<lparr>trace = [EvBeforeQuery 0 context_Background ''SELECT 1'' [],
                   EvSlogError ''sqltoolkit/db: hook panic in BeforeQuery'' ''boom'',
                   EvBeforeQuery 1 context_Background ''SELECT 1'' []],
          clock = 100, ext = (1, 0)\<rparr>)
       = Return (SqlRow (Some database_is_locked)) \<lparr>trace = [EvBeforeQuery 0 context_Background ''SELECT 1'' [],
                   EvSlogError ''sqltoolkit/db: hook panic in BeforeQuery'' ''boom'',
                   EvBeforeQuery 1 context_Background ''SELECT 1'' [], EvQueryRowContext context_Background ''SELECT 1'' []],
          clock = 103, ext = (1, 0)\<rparr>
   \<and> (\<exists>w3. Tx_QueryRow (example_Tx [Some panickingHook, None, Some countingHook] (Some database_is_locked) None None) context_Background ''SELECT 1'' [] example_world = Return \<lparr>raw = SqlRow (Some database_is_locked), row_errMap = DefaultErrorMapper\<rparr> w3
          \<and> after_calls (trace w3) = [(0, context_Background, ''SELECT 1'', [], None), (1, context_Background, ''SELECT 1'', [], None)])"
proof -
  have b: "hookChain_Before (newHookChain [Some panickingHook, None, Some countingHook]) context_Background ''SELECT 1'' [] example_world
       = Return () \<lparr>trace = [EvBeforeQuery 0 context_Background ''SELECT 1'' [],
                   EvSlogError ''sqltoolkit/db: hook panic in BeforeQuery'' ''boom'',
                   EvBeforeQuery 1 context_Background ''SELECT 1'' []],
          clock = 100, ext = (1, 0)\<rparr>"
    by (simp add: example_defs hook_defs)
  note t = AfterQuery_once_per_statement
    [where d = "(example_DB 0 [Some panickingHook, None, Some countingHook] (Some database_is_locked) None None)" and t = "(example_Tx [Some panickingHook, None, Some countingHook] (Some database_is_locked) None None)"
       and ctx = context_Background and q = "''SELECT 1''" and args = "[]" and w = example_world
       and ?w1.0 = "\<lparr>trace = [EvBeforeQuery 0 context_Background ''SELECT 1'' [],
                   EvSlogError ''sqltoolkit/db: hook panic in BeforeQuery'' ''boom'',
                   EvBeforeQuery 1 context_Background ''SELECT 1'' []],
          clock = 100, ext = (1, 0)\<rparr>" and ?v1.0 = "\<lparr>trace = [EvBeforeQuery 0 context_Background ''SELECT 1'' [],
                   EvSlogError ''sqltoolkit/db: hook panic in BeforeQuery'' ''boom'',
                   EvBeforeQuery 1 context_Background ''SELECT 1'' []],
          clock = 100, ext = (1, 0)\<rparr>"
       and res = None and rerr = "Some database_is_locked" and ?w2.0 = "\<lparr>trace = [EvBeforeQuery 0 context_Background ''SELECT 1'' [],
                   EvSlogError ''sqltoolkit/db: hook panic in BeforeQuery'' ''boom'',
                   EvBeforeQuery 1 context_Background ''SELECT 1'' [], EvExecContext context_Background ''SELECT 1'' []],
          clock = 103, ext = (1, 0)\<rparr>"
       and rows = None and qerr = "Some database_is_locked" and w2q = "\<lparr>trace = [EvBeforeQuery 0 context_Background ''SELECT 1'' [],
                   EvSlogError ''sqltoolkit/db: hook panic in BeforeQuery'' ''boom'',
                   EvBeforeQuery 1 context_Background ''SELECT 1'' [], EvQueryContext context_Background ''SELECT 1'' []],
          clock = 103, ext = (1, 0)\<rparr>"
       and r = "SqlRow (Some database_is_locked)" and w2r = "\<lparr>trace = [EvBeforeQuery 0 context_Background ''SELECT 1'' [],
                   EvSlogError ''sqltoolkit/db: hook panic in BeforeQuery'' ''boom'',
                   EvBeforeQuery 1 context_Background ''SELECT 1'' [], EvQueryRowContext context_Background ''SELECT 1'' []],
          clock = 103, ext = (1, 0)\<rparr>"
       and tres = None and terr = "Some database_is_locked" and ?v2.0 = "\<lparr>trace = [EvBeforeQuery 0 context_Background ''SELECT 1'' [],
                   EvSlogError ''sqltoolkit/db: hook panic in BeforeQuery'' ''boom'',
                   EvBeforeQuery 1 context_Background ''SELECT 1'' [], EvExecContext context_Background ''SELECT 1'' []],
          clock = 103, ext = (1, 0)\<rparr>"
       and trows = None and tqerr = "Some database_is_locked" and v2q = "\<lparr>trace = [EvBeforeQuery 0 context_Background ''SELECT 1'' [],
                   EvSlogError ''sqltoolkit/db: hook panic in BeforeQuery'' ''boom'',
                   EvBeforeQuery 1 context_Background ''SELECT 1'' [], EvQueryContext context_Background ''SELECT 1'' []],
          clock = 103, ext = (1, 0)\<rparr>"
       and tr = "SqlRow (Some database_is_locked)" and v2r = "\<lparr>trace = [EvBeforeQuery 0 context_Background ''SELECT 1'' [],
                   EvSlogError ''sqltoolkit/db: hook panic in BeforeQuery'' ''boom'',
                   EvBeforeQuery 1 context_Background ''SELECT 1'' [], EvQueryRowContext context_Background ''SELECT 1'' []],
          clock = 103, ext = (1, 0)\<rparr>"]
  show ?thesis
    using t b by (simp add: example_defs hook_defs classify_locked)
qed

section \<open>A hook that panics\<close>









section \<open>A composite hook\<close>

lemma compositeHook_BeforeQuery_panic:
  "compositeHook_BeforeQuery pre ctx q args s = Return () s1 \<Longrightarrow>
   BeforeQuery h ctx q args s1 = Panic p s2 \<Longrightarrow>
   compositeHook_BeforeQuery (pre @ Some h # post) ctx q args s = Panic p s2"
proof (induction pre ctx q args s rule: compositeHook_BeforeQuery.induct)
  case (1 ctx q args s)
  then show ?case by simp
next
  case (2 hs ctx q args s)
  then show ?case by simp
next
  case (3 h' hs ctx q args s)
  then show ?case by (auto split: outcome.splits)
qed

lemma compositeHook_AfterQuery_panic:
  "compositeHook_AfterQuery pre ctx q args dur err s = Return () s1 \<Longrightarrow>
   AfterQuery h ctx q args dur err s1 = Panic p s2 \<Longrightarrow>
   compositeHook_AfterQuery (pre @ Some h # post) ctx q args dur err s = Panic p s2"
proof (induction pre ctx q args dur err s rule: compositeHook_AfterQuery.induct)
  case (1 ctx q args dur err s)
  then show ?case by simp
next
  case (2 hs ctx q args dur err s)
  then show ?case by simp
next
  case (3 h' hs ctx q args dur err s)
  then show ?case by (auto split: outcome.splits)
qed

text \<open>
  C10. In a composite hook whose sub-hooks before \<open>h\<close> return and whose sub-hook \<open>h\<close>
  panics, the method of the composite panics with the same value from the state that
  \<open>h\<close> left: the sub-hooks after \<open>h\<close> are not called, whatever they are. The chain
  recovers that panic where it called the composite, logs it and returns.
\<close>

theorem composite_hook_panic_skips_later_sub_hooks:
  "(compositeHook_BeforeQuery pre ctx q args (clock w, ext w) = Return () s1 \<longrightarrow>
    BeforeQuery h ctx q args s1 = Panic p s2 \<longrightarrow>
      BeforeQuery (CompositeHook (pre @ Some h # post)) ctx q args (clock w, ext w) = Panic p s2
      \<and> safeBeforeQuery i (CompositeHook (pre @ Some h # post)) ctx q args w
          = Return ()
              (slog_Error ''sqltoolkit/db: hook panic in BeforeQuery'' p
                 ((emit (EvBeforeQuery i ctx q args) w)\<lparr>clock := fst s2, ext := snd s2\<rparr>)))
   \<and> (compositeHook_AfterQuery pre ctx q args dur err (clock w, ext w) = Return () s1 \<longrightarrow>
    AfterQuery h ctx q args dur err s1 = Panic p s2 \<longrightarrow>
      AfterQuery (CompositeHook (pre @ Some h # post)) ctx q args dur err (clock w, ext w)
        = Panic p s2
      \<and> safeAfterQuery i (CompositeHook (pre @ Some h # post)) ctx q args dur err w
          = Return ()
              (slog_Error ''sqltoolkit/db: hook panic in AfterQuery'' p
                 ((emit (EvAfterQuery i ctx q args dur err) w)
                    \<lparr>clock := fst s2, ext := snd s2\<rparr>)))"
proof (intro conjI impI)
  assume a: "compositeHook_BeforeQuery pre ctx q args (clock w, ext w) = Return () s1"
    and b: "BeforeQuery h ctx q args s1 = Panic p s2"
  from compositeHook_BeforeQuery_panic [OF a b, of post]
  show c: "BeforeQuery (CompositeHook (pre @ Some h # post)) ctx q args (clock w, ext w)
             = Panic p s2"
    by (simp add: CompositeHook_def)
  then show "safeBeforeQuery i (CompositeHook (pre @ Some h # post)) ctx q args w
          = Return ()
              (slog_Error ''sqltoolkit/db: hook panic in BeforeQuery'' p
                 ((emit (EvBeforeQuery i ctx q args) w)\<lparr>clock := fst s2, ext := snd s2\<rparr>))"
    by (simp add: safeBeforeQuery_def foreign_def emit_def)
next
  assume a: "compositeHook_AfterQuery pre ctx q args dur err (clock w, ext w) = Return () s1"
    and b: "AfterQuery h ctx q args dur err s1 = Panic p s2"
  from compositeHook_AfterQuery_panic [OF a b, of post]
  show c: "AfterQuery (CompositeHook (pre @ Some h # post)) ctx q args dur err (clock w, ext w)
             = Panic p s2"
    by (simp add: CompositeHook_def)
  then show "safeAfterQuery i (CompositeHook (pre @ Some h # post)) ctx q args dur err w
          = Return ()
              (slog_Error ''sqltoolkit/db: hook panic in AfterQuery'' p
                 ((emit (EvAfterQuery i ctx q args dur err) w)
                    \<lparr>clock := fst s2, ext := snd s2\<rparr>))"
    by (simp add: safeAfterQuery_def foreign_def emit_def)
qed

theorem composite_hook_panic_skips_later_sub_hooks_witness:
  "compositeHook_BeforeQuery [Some countingHook] context_Background ''SELECT 1'' []
       (clock example_world, ext example_world)
     = Return () (100, 1, 0)
   \<and> BeforeQuery panickingHook context_Background ''SELECT 1'' [] (100, 1, 0)
     = Panic ''boom'' (100, 1, 0)
   \<and> BeforeQuery (CompositeHook ([Some countingHook] @ Some panickingHook # [Some countingHook]))
       context_Background ''SELECT 1'' [] (clock example_world, ext example_world)
     = Panic ''boom'' (100, 1, 0)
   \<and> safeBeforeQuery 0
       (CompositeHook ([Some countingHook] @ Some panickingHook # [Some countingHook]))
       context_Background ''SELECT 1'' [] example_world
     = Return ()
         \<lparr>trace = [EvBeforeQuery 0 context_Background ''SELECT 1'' [],
                   EvSlogError ''sqltoolkit/db: hook panic in BeforeQuery'' ''boom''],
          clock = 100, ext = (1, 0)\<rparr>
   \<and> compositeHook_AfterQuery [Some countingHook] context_Background ''SELECT 1'' [] 3 None
       (clock example_world, ext example_world)
     = Return () (100, 0, 1)
   \<and> AfterQuery panickingHook context_Background ''SELECT 1'' [] 3 None (100, 0, 1)
     = Panic ''boom'' (100, 0, 1)
   \<and> AfterQuery (CompositeHook ([Some countingHook] @ Some panickingHook # [Some countingHook]))
       context_Background ''SELECT 1'' [] 3 None (clock example_world, ext example_world)
     = Panic ''boom'' (100, 0, 1)
   \<and> safeAfterQuery 0
       (CompositeHook ([Some countingHook] @ Some panickingHook # [Some countingHook]))
       context_Background ''SELECT 1'' [] 3 None example_world
     = Return ()
         \<lparr>trace = [EvAfterQuery 0 context_Background ''SELECT 1'' [] 3 None,
                   EvSlogError ''sqltoolkit/db: hook panic in AfterQuery'' ''boom''],
          clock = 100, ext = (0, 1)\<rparr>"
proof -
  note t = composite_hook_panic_skips_later_sub_hooks
    [where pre = "[Some countingHook]" and h = panickingHook and post = "[Some countingHook]"
       and ctx = context_Background and q = "''SELECT 1''" and args = "[]"
       and dur = 3 and err = None and w = example_world and p = "''boom''" and i = 0]
  show ?thesis
    using t [where ?s1.0 = "(100, 1, 0)" and ?s2.0 = "(100, 1, 0)"]
      t [where ?s1.0 = "(100, 0, 1)" and ?s2.0 = "(100, 0, 1)"]
    by (simp add: example_defs hook_defs)
qed

section \<open>The default timeout\<close>

lemma applyDefaultTimeout_Deadline:
  "Deadline (applyDefaultTimeout d ctx now)
     = (case Deadline ctx of
          Some dl \<Rightarrow> Some dl
        | None \<Rightarrow> if DefaultTimeout (cfg d) = 0 then None
                  else Some (now + DefaultTimeout (cfg d)))"
  by (simp add: applyDefaultTimeout_def context_WithTimeout_def split: option.splits)

lemma applyDefaultTimeout_cancelled_at:
  "cancelled_at (applyDefaultTimeout d ctx now) = cancelled_at ctx"
  by (simp add: applyDefaultTimeout_def context_WithTimeout_def split: option.splits)

text \<open>
  The context the operations of \<open>DB\<close> hand to the underlying \<open>*sql.DB\<close> has the caller's
  deadline when the caller's context has one, whatever the configured default; it has
  no deadline when the caller's has none and the configured default is zero; otherwise
  its deadline is the configured default after the instant of the call. Nothing else
  of the context changes.
\<close>

lemma default_timeout_of_DB_operations:
  "Deadline (applyDefaultTimeout d ctx now)
     = (case Deadline ctx of
          Some dl \<Rightarrow> Some dl
        | None \<Rightarrow> if DefaultTimeout (cfg d) = 0 then None
                  else Some (now + DefaultTimeout (cfg d)))
   \<and> cancelled_at (applyDefaultTimeout d ctx now) = cancelled_at ctx
   \<and> dispatched (trace (state_of (DB_Exec d ctx q args w)))
       = dispatched (trace w) @ [applyDefaultTimeout d ctx (clock w)]
   \<and> dispatched (trace (state_of (DB_Query d ctx q args w)))
       = dispatched (trace w) @ [applyDefaultTimeout d ctx (clock w)]
   \<and> dispatched (trace (state_of (DB_QueryRow d ctx q args w)))
       = dispatched (trace w) @ [applyDefaultTimeout d ctx (clock w)]"
  by (simp add: applyDefaultTimeout_Deadline applyDefaultTimeout_cancelled_at
      DB_Exec_dispatched DB_Query_dispatched DB_QueryRow_dispatched)

text \<open>
  The operations of \<open>Tx\<close> hand the caller's context on as it is, whatever the
  configuration the transaction carries.
\<close>

lemma Tx_operations_hand_on_the_callers_context:
  "dispatched (trace (state_of (Tx_Exec t ctx q args w))) = dispatched (trace w) @ [ctx]
   \<and> dispatched (trace (state_of (Tx_Query t ctx q args w))) = dispatched (trace w) @ [ctx]
   \<and> dispatched (trace (state_of (Tx_QueryRow t ctx q args w))) = dispatched (trace w) @ [ctx]"
  by (simp add: Tx_Exec_dispatched Tx_Query_dispatched Tx_QueryRow_dispatched)

text \<open>
  C7. A \<open>DB\<close> opened with a default timeout of 1000, and a caller's context without a
  deadline, at the instant 100. \<open>DB.Exec\<close> hands the driver a context with the deadline
  1100: the default is applied. A transaction of that \<open>DB\<close> carries the configuration
  of the \<open>DB\<close>, default timeout included, yet \<open>Tx.Exec\<close>, \<open>Tx.Query\<close> and \<open>Tx.QueryRow\<close>
  hand the driver the caller's context as it is, without a deadline: the default
  timeout is not applied to a context that has no deadline. In \<open>ExecTx\<close> the context of
  \<open>BeginTx\<close> gets the deadline 1100 and the statement the body runs gets none.
\<close>

theorem Tx_operations_do_not_apply_the_default_timeout:
  "DefaultTimeout (cfg (example_DB 1000 [] None None None)) = 1000
   \<and> DefaultTimeout (tx_cfg (Tx_of (example_DB 1000 [] None None None)
                                 (stub_sql_Tx None None None))) = 1000
   \<and> Deadline context_Background = None
   \<and> dispatched (trace (state_of (DB_Exec (example_DB 1000 [] None None None)
        context_Background ''UPDATE t SET n = 1'' [] example_world)))
     = [\<lparr>Deadline = Some 1100, cancelled_at = None\<rparr>]
   \<and> dispatched (trace (state_of (Tx_Exec
        (Tx_of (example_DB 1000 [] None None None) (stub_sql_Tx None None None))
        context_Background ''UPDATE t SET n = 1'' [] example_world)))
     = [\<lparr>Deadline = None, cancelled_at = None\<rparr>]
   \<and> dispatched (trace (state_of (Tx_Query
        (Tx_of (example_DB 1000 [] None None None) (stub_sql_Tx None None None))
        context_Background ''SELECT n FROM t'' [] example_world)))
     = [\<lparr>Deadline = None, cancelled_at = None\<rparr>]
   \<and> dispatched (trace (state_of (Tx_QueryRow
        (Tx_of (example_DB 1000 [] None None None) (stub_sql_Tx None None None))
        context_Background ''SELECT n FROM t'' [] example_world)))
     = [\<lparr>Deadline = None, cancelled_at = None\<rparr>]
   \<and> dispatched (trace (state_of (ExecTx (example_DB 1000 [] None None None)
        context_Background (exec_body context_Background ''UPDATE t SET n = 1'') []
        example_world)))
     = [\<lparr>Deadline = Some 1100, cancelled_at = None\<rparr>, \<lparr>Deadline = None, cancelled_at = None\<rparr>]"
proof -
  let ?D = "example_DB 1000 [] None None None"
  let ?T = "Tx_of ?D (stub_sql_Tx None None None)"
  have tr: "dispatched (trace example_world) = []"
    by (simp add: example_world_def)
  have ctx: "applyDefaultTimeout ?D context_Background (clock example_world)
               = \<lparr>Deadline = Some 1100, cancelled_at = None\<rparr>"
    by (simp add: applyDefaultTimeout_def context_WithTimeout_def example_defs)
  have tx: "ExecTx ?D context_Background (exec_body context_Background ''UPDATE t SET n = 1'') []
              example_world
            = Return None
                \<lparr>trace = [EvBeginTx \<lparr>Deadline = Some 1100, cancelled_at = None\<rparr> None,
                          EvExecContext \<lparr>Deadline = None, cancelled_at = None\<rparr>
                            ''UPDATE t SET n = 1'' [],
                          EvCommit],
                 clock = 103, ext = (0, 0)\<rparr>"
    by (simp add: ExecTx_def ExecTxOpts_def ExecTxOpts_body_def ExecTxOpts_deferred_def
        sqlOpts_of_def Tx_of_def exec_body_def Tx_Exec_def context_WithTimeout_def
        example_defs hook_defs)
  show ?thesis
    by (simp add: DB_Exec_dispatched Tx_Exec_dispatched Tx_Query_dispatched
        Tx_QueryRow_dispatched tr ctx tx)
       (simp add: example_defs Tx_of_def)
qed

section \<open>ExecTx\<close>

lemma errors_is_refl: "errors_is e e"
  by (cases e) simp_all

lemma rollback_failed_keeps_both:
  "Unwrap (rollback_failed rb m) = Some m
   \<and> errors_Is (Some (rollback_failed rb m)) (Some m)
   \<and> Error (rollback_failed rb m)
       = ''sqltoolkit/db: rollback failed ('' @ Error rb @ '') after original error: ''
         @ Error m"
  by (simp add: rollback_failed_def errors_Is_def errors_is_refl)

lemma Error_database_is_locked: "Error database_is_locked = ''database is locked''"
  by (simp add: database_is_locked_def)

lemma sqltx_Tx_of: "sqltx (Tx_of d stx) = stx"
  by (simp add: Tx_of_def)

lemma ExecTxOpts_began:
  assumes "foreign (BeginTx (sqldb d) (applyDefaultTimeout d ctx (clock w)) (sqlOpts_of opts))
             (emit (EvBeginTx (applyDefaultTimeout d ctx (clock w)) (sqlOpts_of opts)) w)
           = Return (Inr stx) w1"
  shows "ExecTxOpts d ctx fn opts w
           = ExecTxOpts_deferred stx (ExecTxOpts_body d (Tx_of d stx) fn w1)"
  using assms by (simp add: ExecTxOpts_def Let_def)

lemma ExecTxOpts_body_error:
  assumes begun: "foreign (BeginTx (sqldb d) (applyDefaultTimeout d ctx (clock w)) (sqlOpts_of opts))
             (emit (EvBeginTx (applyDefaultTimeout d ctx (clock w)) (sqlOpts_of opts)) w)
           = Return (Inr stx) w1"
    and body: "fn (Tx_of d stx) w1 = Return (Some e) w2"
    and mapped: "mapErr d (Some e) = Some m"
    and rb: "foreign (Rollback stx) (emit EvRollback w2) = Return rbErr w3"
  shows "ExecTxOpts d ctx fn opts w
           = Return (Some (case rbErr of None \<Rightarrow> m | Some rb \<Rightarrow> rollback_failed rb m)) w3"
    and "trace w3 = trace w2 @ [EvRollback]"
proof -
  show "ExecTxOpts d ctx fn opts w
           = Return (Some (case rbErr of None \<Rightarrow> m | Some rb \<Rightarrow> rollback_failed rb m)) w3"
    using ExecTxOpts_began [OF begun, of fn] body mapped rb
    by (simp add: ExecTxOpts_body_def ExecTxOpts_deferred_def sqltx_Tx_of split: option.splits)
  show "trace w3 = trace w2 @ [EvRollback]"
    using foreign_Return_trace [OF rb] by (simp add: emit_def)
qed

lemma ExecTxOpts_commit_failed:
  assumes begun: "foreign (BeginTx (sqldb d) (applyDefaultTimeout d ctx (clock w)) (sqlOpts_of opts))
             (emit (EvBeginTx (applyDefaultTimeout d ctx (clock w)) (sqlOpts_of opts)) w)
           = Return (Inr stx) w1"
    and body: "fn (Tx_of d stx) w1 = Return None w2"
    and commit: "foreign (Commit stx) (emit EvCommit w2) = Return (Some ce) w3"
    and mapped: "mapErr d (Some ce) = Some m"
    and rb: "foreign (Rollback stx) (emit EvRollback w3) = Return rbErr w4"
  shows "ExecTxOpts d ctx fn opts w
           = Return (Some (case rbErr of None \<Rightarrow> m | Some rb \<Rightarrow> rollback_failed rb m)) w4"
    and "trace w4 = trace w2 @ [EvCommit, EvRollback]"
proof -
  show "ExecTxOpts d ctx fn opts w
           = Return (Some (case rbErr of None \<Rightarrow> m | Some rb \<Rightarrow> rollback_failed rb m)) w4"
    using ExecTxOpts_began [OF begun, of fn] body commit mapped rb
    by (simp add: ExecTxOpts_body_def ExecTxOpts_deferred_def sqltx_Tx_of split: option.splits)
  show "trace w4 = trace w2 @ [EvCommit, EvRollback]"
    using foreign_Return_trace [OF rb] foreign_Return_trace [OF commit] by (simp add: emit_def)
qed

lemma ExecTxOpts_committed:
  assumes begun: "foreign (BeginTx (sqldb d) (applyDefaultTimeout d ctx (clock w)) (sqlOpts_of opts))
             (emit (EvBeginTx (applyDefaultTimeout d ctx (clock w)) (sqlOpts_of opts)) w)
           = Return (Inr stx) w1"
    and body: "fn (Tx_of d stx) w1 = Return None w2"
    and commit: "foreign (Commit stx) (emit EvCommit w2) = Return None w3"
  shows "ExecTxOpts d ctx fn opts w = Return None w3"
    and "trace w3 = trace w2 @ [EvCommit]"
proof -
  show "ExecTxOpts d ctx fn opts w = Return None w3"
    using ExecTxOpts_began [OF begun, of fn] body commit
    by (simp add: ExecTxOpts_body_def ExecTxOpts_deferred_def sqltx_Tx_of)
  show "trace w3 = trace w2 @ [EvCommit]"
    using foreign_Return_trace [OF commit] by (simp add: emit_def)
qed

text \<open>
  C3, as amended. When the transaction has begun, the body returns a non-nil error and
  the error mapper gives the non-nil error \<open>m\<close> for it, \<open>ExecTxOpts\<close> (and \<open>ExecTx\<close>)
  calls \<open>Rollback\<close> once, after the body and without calling \<open>Commit\<close>. When the rollback
  succeeds it returns \<open>m\<close>: the body's error as the mapper classified it. When the
  rollback fails it returns an error that wraps \<open>m\<close> and whose text holds the texts of
  the rollback's error and of \<open>m\<close>.
\<close>

theorem ExecTx_rolls_back_on_body_error:
  "foreign (BeginTx (sqldb d) (applyDefaultTimeout d ctx (clock w)) (sqlOpts_of opts))
       (emit (EvBeginTx (applyDefaultTimeout d ctx (clock w)) (sqlOpts_of opts)) w)
     = Return (Inr stx) w1 \<longrightarrow>
   fn (Tx_of d stx) w1 = Return (Some e) w2 \<longrightarrow>
   mapErr d (Some e) = Some m \<longrightarrow>
   foreign (Rollback stx) (emit EvRollback w2) = Return rbErr w3 \<longrightarrow>
     ExecTxOpts d ctx fn opts w
       = Return (Some (case rbErr of None \<Rightarrow> m | Some rb \<Rightarrow> rollback_failed rb m)) w3
     \<and> ExecTx d ctx fn opts w
       = Return (Some (case rbErr of None \<Rightarrow> m | Some rb \<Rightarrow> rollback_failed rb m)) w3
     \<and> trace w3 = trace w2 @ [EvRollback]
     \<and> (\<forall>rb. Unwrap (rollback_failed rb m) = Some m
             \<and> errors_Is (Some (rollback_failed rb m)) (Some m)
             \<and> Error (rollback_failed rb m)
                 = ''sqltoolkit/db: rollback failed ('' @ Error rb
                   @ '') after original error: '' @ Error m)"
  using ExecTxOpts_body_error [of d ctx w opts stx w1 fn e w2 m rbErr w3]
    rollback_failed_keeps_both [of _ m]
  by (simp add: ExecTx_def)

text \<open>
  C3 as claimed fails where it says that the body's error is returned unchanged: the
  body returns \<open>sql.ErrNoRows\<close>, the rollback succeeds, and \<open>ExecTxOpts\<close> returns the
  classified error that wraps it.
\<close>

theorem ExecTx_returns_body_error_classified:
  "ExecTxOpts (example_DB 0 [] None None None) context_Background
       (returning_body (Some sql_ErrNoRows)) [] example_world
     = Return (Some (DBError (Some ErrNotFound) (Some sql_ErrNoRows) []))
         \<lparr>trace = [EvBeginTx context_Background None, EvRollback], clock = 100, ext = (0, 0)\<rparr>
   \<and> DBError (Some ErrNotFound) (Some sql_ErrNoRows) [] \<noteq> sql_ErrNoRows"
  by (simp add: example_defs hook_defs ExecTxOpts_def ExecTxOpts_body_def
      ExecTxOpts_deferred_def returning_body_def sqlOpts_of_def Tx_of_def
      defaultMap_def errors_Is_def sentinel_defs)

theorem ExecTx_rolls_back_on_body_error_witness:
  "foreign (BeginTx (sqldb (example_DB 0 [] None None (Some sql_ErrTxDone)))
        (applyDefaultTimeout (example_DB 0 [] None None (Some sql_ErrTxDone))
           context_Background (clock example_world)) (sqlOpts_of []))
       (emit (EvBeginTx (applyDefaultTimeout (example_DB 0 [] None None (Some sql_ErrTxDone))
           context_Background (clock example_world)) (sqlOpts_of [])) example_world)
     = Return (Inr (stub_sql_Tx None None (Some sql_ErrTxDone)))
         \<lparr>trace = [EvBeginTx context_Background None], clock = 100, ext = (0, 0)\<rparr>
   \<and> returning_body (Some database_is_locked)
       (Tx_of (example_DB 0 [] None None (Some sql_ErrTxDone))
          (stub_sql_Tx None None (Some sql_ErrTxDone)))
       \<lparr>trace = [EvBeginTx context_Background None], clock = 100, ext = (0, 0)\<rparr>
     = Return (Some database_is_locked)
         \<lparr>trace = [EvBeginTx context_Background None], clock = 100, ext = (0, 0)\<rparr>
   \<and> mapErr (example_DB 0 [] None None (Some sql_ErrTxDone)) (Some database_is_locked)
     = Some (DBError (Some ErrDeadlock) (Some database_is_locked) [])
   \<and> foreign (Rollback (stub_sql_Tx None None (Some sql_ErrTxDone)))
       (emit EvRollback
          \<lparr>trace = [EvBeginTx context_Background None], clock = 100, ext = (0, 0)\<rparr>)
     = Return (Some sql_ErrTxDone)
         \<lparr>trace = [EvBeginTx context_Background None, EvRollback], clock = 100, ext = (0, 0)\<rparr>
   \<and> ExecTxOpts (example_DB 0 [] None None (Some sql_ErrTxDone)) context_Background
       (returning_body (Some database_is_locked)) [] example_world
     = Return
         (Some (rollback_failed sql_ErrTxDone
                  (DBError (Some ErrDeadlock) (Some database_is_locked) [])))
         \<lparr>trace = [EvBeginTx context_Background None, EvRollback], clock = 100, ext = (0, 0)\<rparr>
   \<and> Error (rollback_failed sql_ErrTxDone
              (DBError (Some ErrDeadlock) (Some database_is_locked) []))
     = ''sqltoolkit/db: rollback failed (sql: transaction has already been committed or rolled back) after original error: sqltoolkit/db: deadlock detected (cause: database is locked)''"
proof -
  note t = ExecTx_rolls_back_on_body_error
    [where d = "example_DB 0 [] None None (Some sql_ErrTxDone)" and ctx = context_Background
       and w = example_world and opts = "[]"
       and stx = "stub_sql_Tx None None (Some sql_ErrTxDone)"
       and ?w1.0 = "\<lparr>trace = [EvBeginTx context_Background None], clock = 100, ext = (0, 0)\<rparr>"
       and fn = "returning_body (Some database_is_locked)" and e = database_is_locked
       and ?w2.0 = "\<lparr>trace = [EvBeginTx context_Background None], clock = 100, ext = (0, 0)\<rparr>"
       and m = "DBError (Some ErrDeadlock) (Some database_is_locked) []"
       and rbErr = "Some sql_ErrTxDone"
       and ?w3.0 = "\<lparr>trace = [EvBeginTx context_Background None, EvRollback],
                     clock = 100, ext = (0, 0)\<rparr>"]
  have msg: "Error (rollback_failed sql_ErrTxDone
              (DBError (Some ErrDeadlock) (Some database_is_locked) []))
     = ''sqltoolkit/db: rollback failed (sql: transaction has already been committed or rolled back) after original error: sqltoolkit/db: deadlock detected (cause: database is locked)''"
    by (simp add: rollback_failed_def sentinel_defs Error_database_is_locked)
  show ?thesis
    using t msg
    by (simp add: example_defs hook_defs returning_body_def sqlOpts_of_def classify_locked)
qed

text \<open>
  C4, as amended. When the transaction has begun and the body returns nil,
  \<open>ExecTxOpts\<close> calls \<open>Commit\<close>; when that returns nil it returns nil. When \<open>Commit\<close>
  fails and the error mapper gives the non-nil error \<open>m\<close> for its error, the deferred
  function then calls \<open>Rollback\<close>: \<open>ExecTxOpts\<close> returns \<open>m\<close>, the classified commit error,
  when that rollback returns nil, and otherwise an error that wraps \<open>m\<close> and reports the
  rollback's error.
\<close>

theorem ExecTx_commits_and_reports_commit_failure:
  "foreign (BeginTx (sqldb d) (applyDefaultTimeout d ctx (clock w)) (sqlOpts_of opts))
       (emit (EvBeginTx (applyDefaultTimeout d ctx (clock w)) (sqlOpts_of opts)) w)
     = Return (Inr stx) w1 \<longrightarrow>
   fn (Tx_of d stx) w1 = Return None w2 \<longrightarrow>
     (foreign (Commit stx) (emit EvCommit w2) = Return None w3 \<longrightarrow>
        ExecTxOpts d ctx fn opts w = Return None w3
        \<and> ExecTx d ctx fn opts w = Return None w3
        \<and> trace w3 = trace w2 @ [EvCommit])
     \<and> (foreign (Commit stx) (emit EvCommit w2) = Return (Some ce) w3 \<longrightarrow>
        mapErr d (Some ce) = Some m \<longrightarrow>
        foreign (Rollback stx) (emit EvRollback w3) = Return rbErr w4 \<longrightarrow>
          ExecTxOpts d ctx fn opts w
            = Return (Some (case rbErr of None \<Rightarrow> m | Some rb \<Rightarrow> rollback_failed rb m)) w4
          \<and> ExecTx d ctx fn opts w
            = Return (Some (case rbErr of None \<Rightarrow> m | Some rb \<Rightarrow> rollback_failed rb m)) w4
          \<and> trace w4 = trace w2 @ [EvCommit, EvRollback]
          \<and> (\<forall>rb. Unwrap (rollback_failed rb m) = Some m
                  \<and> errors_Is (Some (rollback_failed rb m)) (Some m)))"
  using ExecTxOpts_committed [of d ctx w opts stx w1 fn w2 w3]
    ExecTxOpts_commit_failed [of d ctx w opts stx w1 fn w2 ce w3 m rbErr w4]
    rollback_failed_keeps_both [of _ m]
  by (simp add: ExecTx_def)

text \<open>
  C4 as claimed fails when the rollback that follows the failed commit fails too, as it
  does in \<open>database/sql\<close>, whose \<open>Rollback\<close> returns \<open>sql.ErrTxDone\<close> once \<open>Commit\<close> has
  been tried: what is returned is not the classified commit error but an error that
  wraps it.
\<close>

theorem ExecTx_wraps_commit_error_when_rollback_fails:
  "ExecTxOpts (example_DB 0 [] None (Some database_is_locked) (Some sql_ErrTxDone))
       context_Background (returning_body None) [] example_world
     = Return
         (Some (WrapError
            ''sqltoolkit/db: rollback failed (sql: transaction has already been committed or rolled back) after original error: sqltoolkit/db: deadlock detected (cause: database is locked)''
            (Some (DBError (Some ErrDeadlock) (Some database_is_locked) []))))
         \<lparr>trace = [EvBeginTx context_Background None, EvCommit, EvRollback],
          clock = 100, ext = (0, 0)\<rparr>
   \<and> mapErr (example_DB 0 [] None (Some database_is_locked) (Some sql_ErrTxDone))
       (Some database_is_locked)
     = Some (DBError (Some ErrDeadlock) (Some database_is_locked) [])"
  by (simp add: example_defs hook_defs ExecTxOpts_def ExecTxOpts_body_def
      ExecTxOpts_deferred_def returning_body_def sqlOpts_of_def Tx_of_def classify_locked
      rollback_failed_def sentinel_defs Error_database_is_locked)

theorem ExecTx_commits_and_reports_commit_failure_witness:
  "foreign (BeginTx (sqldb (example_DB 0 [] None (Some database_is_locked) None))
        (applyDefaultTimeout (example_DB 0 [] None (Some database_is_locked) None)
           context_Background (clock example_world)) (sqlOpts_of []))
       (emit (EvBeginTx (applyDefaultTimeout (example_DB 0 [] None (Some database_is_locked) None)
           context_Background (clock example_world)) (sqlOpts_of [])) example_world)
     = Return (Inr (stub_sql_Tx None (Some database_is_locked) None))
         \<lparr>trace = [EvBeginTx context_Background None], clock = 100, ext = (0, 0)\<rparr>
   \<and> returning_body None
       (Tx_of (example_DB 0 [] None (Some database_is_locked) None)
          (stub_sql_Tx None (Some database_is_locked) None))
       \<lparr>trace = [EvBeginTx context_Background None], clock = 100, ext = (0, 0)\<rparr>
     = Return None \<lparr>trace = [EvBeginTx context_Background None], clock = 100, ext = (0, 0)\<rparr>
   \<and> foreign (Commit (stub_sql_Tx None (Some database_is_locked) None))
       (emit EvCommit
          \<lparr>trace = [EvBeginTx context_Background None], clock = 100, ext = (0, 0)\<rparr>)
     = Return (Some database_is_locked)
         \<lparr>trace = [EvBeginTx context_Background None, EvCommit], clock = 100, ext = (0, 0)\<rparr>
   \<and> mapErr (example_DB 0 [] None (Some database_is_locked) None) (Some database_is_locked)
     = Some (DBError (Some ErrDeadlock) (Some database_is_locked) [])
   \<and> foreign (Rollback (stub_sql_Tx None (Some database_is_locked) None))
       (emit EvRollback
          \<lparr>trace = [EvBeginTx context_Background None, EvCommit], clock = 100, ext = (0, 0)\<rparr>)
     = Return None
         \<lparr>trace = [EvBeginTx context_Background None, EvCommit, EvRollback],
          clock = 100, ext = (0, 0)\<rparr>
   \<and> ExecTxOpts (example_DB 0 [] None (Some database_is_locked) None) context_Background
       (returning_body None) [] example_world
     = Return (Some (DBError (Some ErrDeadlock) (Some database_is_locked) []))
         \<lparr>trace = [EvBeginTx context_Background None, EvCommit, EvRollback],
          clock = 100, ext = (0, 0)\<rparr>
   \<and> foreign (Commit (stub_sql_Tx None None None))
       (emit EvCommit
          \<lparr>trace = [EvBeginTx context_Background None], clock = 100, ext = (0, 0)\<rparr>)
     = Return None
         \<lparr>trace = [EvBeginTx context_Background None, EvCommit], clock = 100, ext = (0, 0)\<rparr>
   \<and> ExecTxOpts (example_DB 0 [] None None None) context_Background
       (returning_body None) [] example_world
     = Return None
         \<lparr>trace = [EvBeginTx context_Background None, EvCommit], clock = 100, ext = (0, 0)\<rparr>"
proof -
  note failed = ExecTx_commits_and_reports_commit_failure
    [where d = "example_DB 0 [] None (Some database_is_locked) None" and ctx = context_Background
       and w = example_world and opts = "[]"
       and stx = "stub_sql_Tx None (Some database_is_locked) None"
       and ?w1.0 = "\<lparr>trace = [EvBeginTx context_Background None], clock = 100, ext = (0, 0)\<rparr>"
       and fn = "returning_body None"
       and ?w2.0 = "\<lparr>trace = [EvBeginTx context_Background None], clock = 100, ext = (0, 0)\<rparr>"
       and ce = database_is_locked
       and ?w3.0 = "\<lparr>trace = [EvBeginTx context_Background None, EvCommit],
                     clock = 100, ext = (0, 0)\<rparr>"
       and m = "DBError (Some ErrDeadlock) (Some database_is_locked) []"
       and rbErr = None
       and ?w4.0 = "\<lparr>trace = [EvBeginTx context_Background None, EvCommit, EvRollback],
                     clock = 100, ext = (0, 0)\<rparr>"]
  note committed = ExecTx_commits_and_reports_commit_failure
    [where d = "example_DB 0 [] None None None" and ctx = context_Background
       and w = example_world and opts = "[]"
       and stx = "stub_sql_Tx None None None"
       and ?w1.0 = "\<lparr>trace = [EvBeginTx context_Background None], clock = 100, ext = (0, 0)\<rparr>"
       and fn = "returning_body None"
       and ?w2.0 = "\<lparr>trace = [EvBeginTx context_Background None], clock = 100, ext = (0, 0)\<rparr>"
       and ?w3.0 = "\<lparr>trace = [EvBeginTx context_Background None, EvCommit],
                     clock = 100, ext = (0, 0)\<rparr>"]
  show ?thesis
    using failed committed
    by (simp add: example_defs hook_defs returning_body_def sqlOpts_of_def classify_locked)
qed

section \<open>WithRetry\<close>

lemma WithRetry_loop_exhausted:
  "\<not> attempt < MaxAttempts rcfg \<Longrightarrow>
   WithRetry_loop sch ctx rcfg retryOn fn attempt lastErr w
     = Return (Some (all_attempts_failed (MaxAttempts rcfg) lastErr)) w"
  by (subst WithRetry_loop.simps) simp

lemma WithRetry_loop_step:
  assumes "attempt < MaxAttempts rcfg"
  shows "WithRetry_loop sch ctx rcfg retryOn fn attempt lastErr w =
     (case (if attempt > 0
            then select_Done_After (poll_latency sch attempt) (pick_done sch attempt) ctx (Delay rcfg)
                   (emit (EvSelect (clock w) (Delay rcfg)) w)
            else (CaseAfter, w)) of
        (CaseDone, w1) \<Rightarrow> Return (ctx_Err ctx (clock w1)) w1
      | (CaseAfter, w1) \<Rightarrow>
          (case foreign fn (emit (EvFn (clock w1)) w1) of
             Panic p w2 \<Rightarrow> Panic p w2
           | Return lastErr' w2 \<Rightarrow>
               (case lastErr' of
                  None \<Rightarrow> Return None w2
                | Some e \<Rightarrow>
                    if \<not> retryOn (Some e) then Return (Some e) w2
                    else WithRetry_loop sch ctx rcfg retryOn fn (attempt + 1) (Some e) w2)))"
  using assms by (subst WithRetry_loop.simps) simp

lemma select_Done_After_trace: "trace (snd (select_Done_After lat pk ctx d w)) = trace w"
  by (simp add: select_Done_After_def Let_def split: option.splits)

lemma select_Done_After_ext: "ext (snd (select_Done_After lat pk ctx d w)) = ext w"
  by (simp add: select_Done_After_def Let_def split: option.splits)

lemma select_Done_After_done:
  "select_Done_After lat pk ctx d w = (CaseDone, w1) \<Longrightarrow>
   \<exists>c. ctx_done_at ctx = Some c \<and> c \<le> clock w1"
  by (auto simp: select_Done_After_def Let_def split: option.splits if_splits)

text \<open>
  The timer case is only ever taken once the timer has fired: the clock then reads the
  later of the instant the timer fires and the instant the \<open>select\<close> looks.
\<close>

lemma select_Done_After_after:
  "select_Done_After lat pk ctx d w = (CaseAfter, w1) \<Longrightarrow>
   w1 = w\<lparr>clock := max (clock w + max 0 d) (clock w + max 0 lat)\<rparr>"
  by (auto simp: select_Done_After_def Let_def split: option.splits if_splits)

text \<open>
  The context done before the timer fires, and the \<open>select\<close> looking before the timer
  fires: only \<open>ctx.Done()\<close> is ready when the \<open>select\<close> takes a case.
\<close>

lemma select_Done_After_interrupted:
  "ctx_done_at ctx = Some c \<Longrightarrow> max c (clock w + max 0 lat) < clock w + max 0 d \<Longrightarrow>
   select_Done_After lat pk ctx d w = (CaseDone, w\<lparr>clock := max c (clock w + max 0 lat)\<rparr>)"
  by (auto simp: select_Done_After_def Let_def max_def split: if_splits)

text \<open>The context not done when the \<open>select\<close> takes a case: only the timer can be taken.\<close>

lemma select_Done_After_elapsed:
  "(case ctx_done_at ctx of
      None \<Rightarrow> True
    | Some c \<Rightarrow> max (clock w + max 0 d) (clock w + max 0 lat) < c) \<Longrightarrow>
   select_Done_After lat pk ctx d w
     = (CaseAfter, w\<lparr>clock := max (clock w + max 0 d) (clock w + max 0 lat)\<rparr>)"
  by (auto simp: select_Done_After_def Let_def max_def split: option.splits if_splits)

lemma ctx_Err_done:
  "ctx_done_at ctx = Some c \<Longrightarrow> c \<le> t \<Longrightarrow>
   ctx_Err ctx t = Some context_canceled \<or> ctx_Err ctx t = Some context_deadline_exceeded"
  by (auto simp: ctx_done_at_def ctx_Err_def split: option.splits if_splits)

text \<open>Whatever \<open>WithRetry\<close> does, it only adds to the trace.\<close>

lemma WithRetry_loop_extends_trace:
  "\<exists>evs. trace (state_of (WithRetry_loop sch ctx rcfg retryOn fn attempt lastErr w))
          = trace w @ evs"
proof (induction "nat (MaxAttempts rcfg - attempt)" arbitrary: attempt lastErr w)
  case 0
  then have "\<not> attempt < MaxAttempts rcfg" by simp
  then show ?case by (simp add: WithRetry_loop_exhausted)
next
  case (Suc n)
  then have lt: "attempt < MaxAttempts rcfg" by simp
  define sel where "sel = (if attempt > 0
            then select_Done_After (poll_latency sch attempt) (pick_done sch attempt) ctx (Delay rcfg)
                   (emit (EvSelect (clock w) (Delay rcfg)) w)
            else (CaseAfter, w))"
  obtain sc w1 where sel: "sel = (sc, w1)" by (cases sel)
  have tr1: "\<exists>evs. trace w1 = trace w @ evs"
    using sel select_Done_After_trace [where lat = "poll_latency sch attempt" and pk = "pick_done sch attempt" and ctx = ctx
        and d = "Delay rcfg" and w = "emit (EvSelect (clock w) (Delay rcfg)) w"]
    by (auto simp: sel_def emit_def split: if_splits)
  note step = WithRetry_loop_step [OF lt, where sch = sch and ctx = ctx and retryOn = retryOn
      and fn = fn and lastErr = lastErr and w = w, folded sel_def, unfolded sel]
  show ?case
  proof (cases sc)
    case CaseDone
    with step tr1 show ?thesis by simp
  next
    case CaseAfter
    show ?thesis
    proof (cases "foreign fn (emit (EvFn (clock w1)) w1)")
      case (Panic p w2)
      from foreign_Panic_trace [OF Panic] have "trace w2 = trace w1 @ [EvFn (clock w1)]"
        by (simp add: emit_def)
      with step CaseAfter Panic tr1 show ?thesis by auto
    next
      case (Return r w2)
      from foreign_Return_trace [OF Return] have t2: "trace w2 = trace w1 @ [EvFn (clock w1)]"
        by (simp add: emit_def)
      show ?thesis
      proof (cases r)
        case None
        with step CaseAfter Return t2 tr1 show ?thesis by auto
      next
        case (Some e)
        show ?thesis
        proof (cases "retryOn (Some e)")
          case False
          with step CaseAfter Return Some t2 tr1 show ?thesis by auto
        next
          case True
          have "n = nat (MaxAttempts rcfg - (attempt + 1))" using Suc.hyps(2) by simp
          from Suc.hyps(1) [OF this, of "Some e" w2] obtain evs where
            "trace (state_of (WithRetry_loop sch ctx rcfg retryOn fn (attempt + 1) (Some e) w2))
               = trace w2 @ evs"
            by blast
          with step CaseAfter Return Some True t2 tr1 show ?thesis by auto
        qed
      qed
    qed
  qed
qed

lemma WithRetry_loop_first_call:
  assumes "attempt < MaxAttempts rcfg" and "\<not> 0 < attempt"
  shows "\<exists>evs. trace (state_of (WithRetry_loop sch ctx rcfg retryOn fn attempt lastErr w))
          = trace w @ EvFn (clock w) # evs"
proof (cases "foreign fn (emit (EvFn (clock w)) w)")
  case (Panic p w2)
  from foreign_Panic_trace [OF Panic] have "trace w2 = trace w @ [EvFn (clock w)]"
    by (simp add: emit_def)
  with WithRetry_loop_step [OF assms(1), where sch = sch and ctx = ctx and retryOn = retryOn
      and fn = fn and lastErr = lastErr and w = w] assms(2) Panic
  show ?thesis by simp
next
  case (Return r w2)
  from foreign_Return_trace [OF Return] have t2: "trace w2 = trace w @ [EvFn (clock w)]"
    by (simp add: emit_def)
  note step = WithRetry_loop_step [OF assms(1), where sch = sch and ctx = ctx and retryOn = retryOn
      and fn = fn and lastErr = lastErr and w = w]
  show ?thesis
  proof (cases r)
    case None
    with step assms(2) Return t2 show ?thesis by simp
  next
    case (Some e)
    show ?thesis
    proof (cases "retryOn (Some e)")
      case False
      with step assms(2) Return Some t2 show ?thesis by simp
    next
      case True
      obtain evs where
        "trace (state_of (WithRetry_loop sch ctx rcfg retryOn fn (attempt + 1) (Some e) w2))
           = trace w2 @ evs"
        using WithRetry_loop_extends_trace by blast
      with step assms(2) Return Some True t2 show ?thesis by simp
    qed
  qed
qed

lemma WithRetry_loop_cancelled:
  assumes "attempt < MaxAttempts rcfg" and "0 < attempt" and "ctx_done_at ctx = Some c"
    and "max c (clock w + max 0 (poll_latency sch attempt)) < clock w + max 0 (Delay rcfg)"
  shows "WithRetry_loop sch ctx rcfg retryOn fn attempt lastErr w
     = Return (ctx_Err ctx (max c (clock w + max 0 (poll_latency sch attempt))))
         (w\<lparr>trace := trace w @ [EvSelect (clock w) (Delay rcfg)],
            clock := max c (clock w + max 0 (poll_latency sch attempt))\<rparr>)"
proof -
  have "max c (clock (emit (EvSelect (clock w) (Delay rcfg)) w) + max 0 (poll_latency sch attempt))
          < clock (emit (EvSelect (clock w) (Delay rcfg)) w) + max 0 (Delay rcfg)"
    using assms(4) by (simp add: emit_def)
  from select_Done_After_interrupted [OF assms(3) this]
  have sel: "select_Done_After (poll_latency sch attempt) (pick_done sch attempt) ctx (Delay rcfg)
               (emit (EvSelect (clock w) (Delay rcfg)) w)
             = (CaseDone, w\<lparr>trace := trace w @ [EvSelect (clock w) (Delay rcfg)],
                            clock := max c (clock w + max 0 (poll_latency sch attempt))\<rparr>)"
    by (simp add: emit_def)
  show ?thesis
    by (subst WithRetry_loop_step [OF assms(1)]) (simp add: assms(2) sel)
qed

text \<open>
  A later attempt begins with the wait, and the operation is not called again before
  the delay has passed.
\<close>

lemma WithRetry_loop_wait_first:
  assumes "attempt < MaxAttempts rcfg" and "0 < attempt"
  shows "\<exists>evs. trace (state_of (WithRetry_loop sch ctx rcfg retryOn fn attempt lastErr w))
            = trace w @ EvSelect (clock w) (Delay rcfg) # evs
          \<and> (evs = [] \<or> (\<exists>t evs'. evs = EvFn t # evs' \<and> clock w + max 0 (Delay rcfg) \<le> t))"
proof -
  define w0 where "w0 = emit (EvSelect (clock w) (Delay rcfg)) w"
  obtain sc w1 where sel: "select_Done_After (poll_latency sch attempt) (pick_done sch attempt)
      ctx (Delay rcfg) w0 = (sc, w1)"
    by (cases "select_Done_After (poll_latency sch attempt) (pick_done sch attempt)
      ctx (Delay rcfg) w0")
  have tr1: "trace w1 = trace w @ [EvSelect (clock w) (Delay rcfg)]"
    using select_Done_After_trace [where lat = "poll_latency sch attempt"
        and pk = "pick_done sch attempt" and ctx = ctx and d = "Delay rcfg" and w = w0] sel
    by (simp add: w0_def emit_def)
  note step = WithRetry_loop_step [OF assms(1), where sch = sch and ctx = ctx and retryOn = retryOn
      and fn = fn and lastErr = lastErr and w = w, folded w0_def]
  show ?thesis
  proof (cases sc)
    case CaseDone
    with step sel assms(2) tr1 show ?thesis by simp
  next
    case CaseAfter
    with sel have "w1 = w0\<lparr>clock := max (clock w0 + max 0 (Delay rcfg))
                                     (clock w0 + max 0 (poll_latency sch attempt))\<rparr>"
      by (simp add: select_Done_After_after)
    then have late: "clock w + max 0 (Delay rcfg) \<le> clock w1"
      by (simp add: w0_def emit_def)
    show ?thesis
    proof (cases "foreign fn (emit (EvFn (clock w1)) w1)")
      case (Panic p w2)
      from foreign_Panic_trace [OF Panic] have "trace w2 = trace w1 @ [EvFn (clock w1)]"
        by (simp add: emit_def)
      with step assms(2) sel CaseAfter Panic tr1 late show ?thesis by simp
    next
      case (Return r w2)
      from foreign_Return_trace [OF Return] have t2: "trace w2 = trace w1 @ [EvFn (clock w1)]"
        by (simp add: emit_def)
      show ?thesis
      proof (cases r)
        case None
        with step assms(2) sel CaseAfter Return t2 tr1 late show ?thesis by simp
      next
        case (Some e)
        show ?thesis
        proof (cases "retryOn (Some e)")
          case False
          with step assms(2) sel CaseAfter Return Some t2 tr1 late show ?thesis by simp
        next
          case True
          obtain evs where
            "trace (state_of (WithRetry_loop sch ctx rcfg retryOn fn (attempt + 1) (Some e) w2))
               = trace w2 @ evs"
            using WithRetry_loop_extends_trace by blast
          with step assms(2) sel CaseAfter Return Some True t2 tr1 late show ?thesis by simp
        qed
      qed
    qed
  qed
qed

text \<open>
  With the context not done when the \<open>select\<close> takes a case, the wait is completed and
  the operation is called then.
\<close>

lemma WithRetry_loop_waited:
  assumes "attempt < MaxAttempts rcfg" and "0 < attempt"
    and "case ctx_done_at ctx of
           None \<Rightarrow> True
         | Some c \<Rightarrow> max (clock w + max 0 (Delay rcfg))
                         (clock w + max 0 (poll_latency sch attempt)) < c"
  shows "\<exists>evs. trace (state_of (WithRetry_loop sch ctx rcfg retryOn fn attempt lastErr w))
          = trace w @ EvSelect (clock w) (Delay rcfg)
              # EvFn (max (clock w + max 0 (Delay rcfg))
                         (clock w + max 0 (poll_latency sch attempt))) # evs"
proof -
  define w0 where "w0 = emit (EvSelect (clock w) (Delay rcfg)) w"
  define t where "t = max (clock w + max 0 (Delay rcfg))
                          (clock w + max 0 (poll_latency sch attempt))"
  have "case ctx_done_at ctx of
          None \<Rightarrow> True
        | Some c \<Rightarrow> max (clock w0 + max 0 (Delay rcfg))
                        (clock w0 + max 0 (poll_latency sch attempt)) < c"
    using assms(3) by (auto simp: w0_def emit_def split: option.splits)
  from select_Done_After_elapsed [OF this]
  have sel: "select_Done_After (poll_latency sch attempt) (pick_done sch attempt) ctx (Delay rcfg)
               w0 = (CaseAfter, w0\<lparr>clock := t\<rparr>)"
    by (simp add: w0_def emit_def t_def)
  obtain evs where evs:
    "trace (state_of (WithRetry_loop sch ctx rcfg retryOn fn attempt lastErr w))
       = trace w @ EvSelect (clock w) (Delay rcfg) # evs"
    "evs = [] \<or> (\<exists>t evs'. evs = EvFn t # evs' \<and> clock w + max 0 (Delay rcfg) \<le> t)"
    using WithRetry_loop_wait_first [OF assms(1,2)] by blast
  note step = WithRetry_loop_step [OF assms(1), where sch = sch and ctx = ctx and retryOn = retryOn
      and fn = fn and lastErr = lastErr and w = w, folded w0_def, unfolded sel]
  have tr0: "trace (w0\<lparr>clock := t\<rparr>) = trace w @ [EvSelect (clock w) (Delay rcfg)]"
    by (simp add: w0_def emit_def)
  show ?thesis
  proof (cases "foreign fn (emit (EvFn t) (w0\<lparr>clock := t\<rparr>))")
    case (Panic p w2)
    from foreign_Panic_trace [OF Panic] tr0
    have "trace w2 = trace w @ [EvSelect (clock w) (Delay rcfg), EvFn t]"
      by (simp add: emit_def)
    with step assms(2) Panic show ?thesis by (simp add: t_def)
  next
    case (Return r w2)
    from foreign_Return_trace [OF Return] tr0
    have t2: "trace w2 = trace w @ [EvSelect (clock w) (Delay rcfg), EvFn t]"
      by (simp add: emit_def)
    show ?thesis
    proof (cases r)
      case None
      with step assms(2) Return t2 show ?thesis by (simp add: t_def)
    next
      case (Some e)
      show ?thesis
      proof (cases "retryOn (Some e)")
        case False
        with step assms(2) Return Some t2 show ?thesis by (simp add: t_def)
      next
        case True
        obtain evs where
          "trace (state_of (WithRetry_loop sch ctx rcfg retryOn fn (attempt + 1) (Some e) w2))
             = trace w2 @ evs"
          using WithRetry_loop_extends_trace by blast
        with step assms(2) Return Some True t2 show ?thesis by (simp add: t_def)
      qed
    qed
  qed
qed

text \<open>
  An operation that fails every time with an error the predicate accepts: the loop ends
  after the last attempt with the composite error, or earlier, in a wait, the context
  being done, with the error of the context.
\<close>

lemma WithRetry_loop_always_failing:
  assumes fails: "\<forall>s. \<exists>e s'. fn s = Return (Some e) s' \<and> retryOn (Some e)"
  shows "attempt < MaxAttempts rcfg \<Longrightarrow>
    (\<exists>w' e s. WithRetry_loop sch ctx rcfg retryOn fn attempt lastErr w
               = Return (Some (all_attempts_failed (MaxAttempts rcfg) (Some e))) w'
             \<and> fn s = Return (Some e) (clock w', ext w')
             \<and> length (fn_calls (trace w'))
                 = length (fn_calls (trace w)) + nat (MaxAttempts rcfg - attempt))
    \<or> (\<exists>w' c k. WithRetry_loop sch ctx rcfg retryOn fn attempt lastErr w
               = Return (ctx_Err ctx (clock w')) w'
             \<and> ctx_done_at ctx = Some c \<and> c \<le> clock w'
             \<and> (\<exists>evs s. trace w' = trace w @ evs @ [EvSelect s (Delay rcfg)])
             \<and> length (fn_calls (trace w')) = length (fn_calls (trace w)) + k
             \<and> k < nat (MaxAttempts rcfg - attempt)
             \<and> (0 < attempt \<or> 0 < k))"
    (is "_ \<Longrightarrow> ?all attempt lastErr w \<or> ?ctx attempt lastErr w")
proof (induction "nat (MaxAttempts rcfg - attempt)" arbitrary: attempt lastErr w)
  case 0
  then show ?case by simp
next
  case (Suc n)
  define sel where "sel = (if attempt > 0
            then select_Done_After (poll_latency sch attempt) (pick_done sch attempt) ctx (Delay rcfg)
                   (emit (EvSelect (clock w) (Delay rcfg)) w)
            else (CaseAfter, w))"
  obtain sc w1 where sel: "sel = (sc, w1)" by (cases sel)
  have tr0: "\<exists>evs. trace w1 = trace w @ evs"
    using sel select_Done_After_trace [where lat = "poll_latency sch attempt"
        and pk = "pick_done sch attempt" and ctx = ctx
        and d = "Delay rcfg" and w = "emit (EvSelect (clock w) (Delay rcfg)) w"]
    by (auto simp: sel_def emit_def split: if_splits)
  have tr1: "fn_calls (trace w1) = fn_calls (trace w)"
    using sel select_Done_After_trace [where lat = "poll_latency sch attempt"
        and pk = "pick_done sch attempt" and ctx = ctx
        and d = "Delay rcfg" and w = "emit (EvSelect (clock w) (Delay rcfg)) w"]
    by (auto simp: sel_def emit_def fn_calls_append split: if_splits)
  note step = WithRetry_loop_step [OF Suc.prems, where sch = sch and ctx = ctx
      and retryOn = retryOn and fn = fn and lastErr = lastErr and w = w,
      folded sel_def, unfolded sel]
  show ?case
  proof (cases sc)
    case CaseDone
    with sel have pos: "0 < attempt" and
      s: "select_Done_After (poll_latency sch attempt) (pick_done sch attempt) ctx (Delay rcfg)
            (emit (EvSelect (clock w) (Delay rcfg)) w) = (CaseDone, w1)"
      by (auto simp: sel_def split: if_splits)
    from select_Done_After_done [OF s] obtain c where
      c: "ctx_done_at ctx = Some c" "c \<le> clock w1" by blast
    have "trace w1 = trace w @ [] @ [EvSelect (clock w) (Delay rcfg)]"
      using select_Done_After_trace [where lat = "poll_latency sch attempt"
        and pk = "pick_done sch attempt" and ctx = ctx
        and d = "Delay rcfg" and w = "emit (EvSelect (clock w) (Delay rcfg)) w"] s
      by (simp add: emit_def)
    then have waits: "\<exists>evs s. trace w1 = trace w @ evs @ [EvSelect s (Delay rcfg)]"
      by blast
    have "WithRetry_loop sch ctx rcfg retryOn fn attempt lastErr w
            = Return (ctx_Err ctx (clock w1)) w1"
      using step CaseDone by simp
    moreover have "length (fn_calls (trace w1)) = length (fn_calls (trace w)) + 0"
      using tr1 by simp
    moreover have "0 < nat (MaxAttempts rcfg - attempt)" using Suc.prems by simp
    ultimately have "?ctx attempt lastErr w" using c pos waits by blast
    then show ?thesis ..
  next
    case CaseAfter
    obtain e s' where f: "fn (clock w1, ext w1) = Return (Some e) s'" and r: "retryOn (Some e)"
      using fails by blast
    define w2 where
      "w2 = w1\<lparr>trace := trace w1 @ [EvFn (clock w1)], clock := fst s', ext := snd s'\<rparr>"
    have fw: "foreign fn (emit (EvFn (clock w1)) w1) = Return (Some e) w2"
      using f by (simp add: foreign_def emit_def w2_def)
    have st: "WithRetry_loop sch ctx rcfg retryOn fn attempt lastErr w
       = WithRetry_loop sch ctx rcfg retryOn fn (attempt + 1) (Some e) w2"
      using step CaseAfter fw r by simp
    have calls: "length (fn_calls (trace w2)) = length (fn_calls (trace w)) + 1"
      using tr1 by (simp add: w2_def fn_calls_append)
    obtain evs0 where tr2: "trace w2 = trace w @ evs0"
      using tr0 by (auto simp: w2_def)
    have last: "fn (clock w1, ext w1) = Return (Some e) (clock w2, ext w2)"
      using f by (simp add: w2_def)
    show ?thesis
    proof (cases "attempt + 1 < MaxAttempts rcfg")
      case True
      have ar: "Suc (nat (MaxAttempts rcfg - (attempt + 1))) = nat (MaxAttempts rcfg - attempt)"
        using True by linarith
      have n: "n = nat (MaxAttempts rcfg - (attempt + 1))" using Suc.hyps(2) by simp
      from Suc.hyps(1) [OF n True, of "Some e" w2]
      show ?thesis
      proof
        assume "?all (attempt + 1) (Some e) w2"
        then obtain w' e' s where
          r: "WithRetry_loop sch ctx rcfg retryOn fn (attempt + 1) (Some e) w2
                = Return (Some (all_attempts_failed (MaxAttempts rcfg) (Some e'))) w'"
          and l: "fn s = Return (Some e') (clock w', ext w')"
          and c: "length (fn_calls (trace w'))
                    = length (fn_calls (trace w2)) + nat (MaxAttempts rcfg - (attempt + 1))"
          by blast
        from c calls ar have "length (fn_calls (trace w'))
            = length (fn_calls (trace w)) + nat (MaxAttempts rcfg - attempt)"
          by simp
        with r l st have "?all attempt lastErr w" by metis
        then show ?thesis ..
      next
        assume "?ctx (attempt + 1) (Some e) w2"
        then obtain w' c k evs s0 where
          r: "WithRetry_loop sch ctx rcfg retryOn fn (attempt + 1) (Some e) w2
                = Return (ctx_Err ctx (clock w')) w'"
          and d: "ctx_done_at ctx = Some c" "c \<le> clock w'"
          and t: "trace w' = trace w2 @ evs @ [EvSelect s0 (Delay rcfg)]"
          and c: "length (fn_calls (trace w')) = length (fn_calls (trace w2)) + k"
          and k: "k < nat (MaxAttempts rcfg - (attempt + 1))"
          by blast
        from t tr2 have "trace w' = trace w @ (evs0 @ evs) @ [EvSelect s0 (Delay rcfg)]"
          by simp
        then have waits: "\<exists>evs s. trace w' = trace w @ evs @ [EvSelect s (Delay rcfg)]"
          by blast
        from c calls have n': "length (fn_calls (trace w')) = length (fn_calls (trace w)) + Suc k"
          by simp
        from k ar have k': "Suc k < nat (MaxAttempts rcfg - attempt)" by simp
        have "WithRetry_loop sch ctx rcfg retryOn fn attempt lastErr w
                = Return (ctx_Err ctx (clock w')) w'"
          using st r by simp
        with d waits n' k' have "?ctx attempt lastErr w" by blast
        then show ?thesis ..
      qed
    next
      case False
      with Suc.prems have m: "MaxAttempts rcfg = attempt + 1" by simp
      from False have "WithRetry_loop sch ctx rcfg retryOn fn (attempt + 1) (Some e) w2
          = Return (Some (all_attempts_failed (MaxAttempts rcfg) (Some e))) w2"
        by (rule WithRetry_loop_exhausted)
      moreover from calls m have "length (fn_calls (trace w2))
          = length (fn_calls (trace w)) + nat (MaxAttempts rcfg - attempt)"
        by simp
      ultimately have "?all attempt lastErr w" using st last by metis
      then show ?thesis ..
    qed
  qed
qed

lemma WithRetry_always_failing:
  assumes "1 \<le> MaxAttempts rcfg"
    and "\<forall>s. \<exists>e s'. fn s = Return (Some e) s' \<and> retryOn_of rcfg (Some e)"
  shows "(\<exists>w' e s. WithRetry sch ctx rcfg fn w
               = Return (Some (all_attempts_failed (MaxAttempts rcfg) (Some e))) w'
             \<and> fn s = Return (Some e) (clock w', ext w')
             \<and> length (fn_calls (trace w'))
                 = length (fn_calls (trace w)) + nat (MaxAttempts rcfg))
    \<or> (\<exists>w' c k. WithRetry sch ctx rcfg fn w = Return (ctx_Err ctx (clock w')) w'
             \<and> (ctx_Err ctx (clock w') = Some context_canceled
                \<or> ctx_Err ctx (clock w') = Some context_deadline_exceeded)
             \<and> ctx_done_at ctx = Some c \<and> c \<le> clock w'
             \<and> (\<exists>evs s. trace w' = trace w @ evs @ [EvSelect s (Delay rcfg)])
             \<and> length (fn_calls (trace w')) = length (fn_calls (trace w)) + k
             \<and> 0 < k \<and> k < nat (MaxAttempts rcfg))"
    (is "?all \<or> ?ctx")
proof -
  have lt: "0 < MaxAttempts rcfg" using assms(1) by simp
  from WithRetry_loop_always_failing [OF assms(2) lt, where sch = sch and ctx = ctx
      and lastErr = None and w = w]
  show ?thesis
  proof
    assume "\<exists>w' e s. WithRetry_loop sch ctx rcfg (retryOn_of rcfg) fn 0 None w
               = Return (Some (all_attempts_failed (MaxAttempts rcfg) (Some e))) w'
             \<and> fn s = Return (Some e) (clock w', ext w')
             \<and> length (fn_calls (trace w'))
                 = length (fn_calls (trace w)) + nat (MaxAttempts rcfg - 0)"
    then have ?all by (simp add: WithRetry_def)
    then show ?thesis ..
  next
    assume "\<exists>w' c k. WithRetry_loop sch ctx rcfg (retryOn_of rcfg) fn 0 None w
               = Return (ctx_Err ctx (clock w')) w'
             \<and> ctx_done_at ctx = Some c \<and> c \<le> clock w'
             \<and> (\<exists>evs s. trace w' = trace w @ evs @ [EvSelect s (Delay rcfg)])
             \<and> length (fn_calls (trace w')) = length (fn_calls (trace w)) + k
             \<and> k < nat (MaxAttempts rcfg - 0)
             \<and> ((0::int) < 0 \<or> 0 < k)"
    then obtain w' c k where
      r: "WithRetry sch ctx rcfg fn w = Return (ctx_Err ctx (clock w')) w'"
      and d: "ctx_done_at ctx = Some c" "c \<le> clock w'"
      and t: "\<exists>evs s. trace w' = trace w @ evs @ [EvSelect s (Delay rcfg)]"
      and n: "length (fn_calls (trace w')) = length (fn_calls (trace w)) + k"
      and k: "0 < k" "k < nat (MaxAttempts rcfg)"
      by (auto simp: WithRetry_def)
    from ctx_Err_done [OF d] r d t n k have ?ctx by blast
    then show ?thesis ..
  qed
qed

lemma WithRetry_always_failing_context_never_done:
  assumes "1 \<le> MaxAttempts rcfg"
    and "\<forall>s. \<exists>e s'. fn s = Return (Some e) s' \<and> retryOn_of rcfg (Some e)"
    and "ctx_done_at ctx = None"
  shows "\<exists>w' e s. WithRetry sch ctx rcfg fn w
               = Return (Some (all_attempts_failed (MaxAttempts rcfg) (Some e))) w'
             \<and> fn s = Return (Some e) (clock w', ext w')
             \<and> length (fn_calls (trace w'))
                 = length (fn_calls (trace w)) + nat (MaxAttempts rcfg)"
  using WithRetry_always_failing [OF assms(1,2), of sch ctx w] assms(3) by auto

lemma WithRetry_not_retryable:
  assumes "1 \<le> MaxAttempts rcfg"
    and "fn (clock w, ext w) = Return (Some e) s'"
    and "\<not> retryOn_of rcfg (Some e)"
  shows "WithRetry sch ctx rcfg fn w
           = Return (Some e) (w\<lparr>trace := trace w @ [EvFn (clock w)], clock := fst s', ext := snd s'\<rparr>)"
proof -
  have lt: "0 < MaxAttempts rcfg" using assms(1) by simp
  have "foreign fn (emit (EvFn (clock w)) w)
          = Return (Some e) (w\<lparr>trace := trace w @ [EvFn (clock w)], clock := fst s', ext := snd s'\<rparr>)"
    using assms(2) by (simp add: foreign_def emit_def)
  with assms(3) show ?thesis
    by (simp add: WithRetry_def WithRetry_loop_step [OF lt])
qed

lemma WithRetry_loop_success:
  assumes "attempt < MaxAttempts rcfg"
    and "(if 0 < attempt
          then select_Done_After (poll_latency sch attempt) (pick_done sch attempt) ctx (Delay rcfg)
                 (emit (EvSelect (clock w) (Delay rcfg)) w)
          else (CaseAfter, w)) = (CaseAfter, w1)"
    and "foreign fn (emit (EvFn (clock w1)) w1) = Return None w2"
  shows "WithRetry_loop sch ctx rcfg retryOn fn attempt lastErr w = Return None w2"
  using assms(2,3) by (simp add: WithRetry_loop_step [OF assms(1)])

text \<open>
  A run of \<open>WithRetry\<close> that gets to the \<open>k\<close>-th test of the counter goes on from there
  as the loop does.
\<close>

lemma WithRetry_head_loop:
  "WithRetry_head sch ctx rcfg fn w k = Some (lastErr, wk) \<Longrightarrow>
   WithRetry sch ctx rcfg fn w
     = WithRetry_loop sch ctx rcfg (retryOn_of rcfg) fn (int k) lastErr wk"
proof (induction k arbitrary: lastErr wk)
  case 0
  then show ?case by (simp add: WithRetry_def)
next
  case (Suc k)
  from Suc.prems obtain le wp where
    hd: "WithRetry_head sch ctx rcfg fn w k = Some (le, wp)"
    by (auto split: option.splits)
  from Suc.prems hd have lt: "int k < MaxAttempts rcfg"
    by (auto split: if_splits)
  from Suc.prems hd lt
  have "WithRetry_loop sch ctx rcfg (retryOn_of rcfg) fn (int k) le wp
          = WithRetry_loop sch ctx rcfg (retryOn_of rcfg) fn (int k + 1) lastErr wk"
    by (subst WithRetry_loop_step [OF lt])
       (auto split: prod.splits select_case.splits outcome.splits option.splits if_splits)
  with Suc.IH [OF hd] show ?case by (simp add: add.commute)
qed

text \<open>Such a run has just called the operation, and has only added to the trace.\<close>

lemma WithRetry_head_extends_trace:
  "WithRetry_head sch ctx rcfg fn w k = Some (lastErr, wk) \<Longrightarrow>
   \<exists>evs. trace wk = trace w @ evs"
proof (induction k arbitrary: lastErr wk)
  case 0
  then show ?case by simp
next
  case (Suc k)
  from Suc.prems obtain le wp where
    hd: "WithRetry_head sch ctx rcfg fn w k = Some (le, wp)"
    by (auto split: option.splits)
  from Suc.IH [OF hd] obtain evs where evs: "trace wp = trace w @ evs" by blast
  define sel where "sel = (if 0 < k
       then select_Done_After (poll_latency sch (int k)) (pick_done sch (int k)) ctx
              (Delay rcfg) (emit (EvSelect (clock wp) (Delay rcfg)) wp)
       else (CaseAfter, wp))"
  obtain sc w1 where sel: "sel = (sc, w1)" by (cases sel)
  have tr1: "\<exists>evs. trace w1 = trace wp @ evs"
    using sel select_Done_After_trace [where lat = "poll_latency sch (int k)"
        and pk = "pick_done sch (int k)" and ctx = ctx
        and d = "Delay rcfg" and w = "emit (EvSelect (clock wp) (Delay rcfg)) wp"]
    by (auto simp: sel_def emit_def split: if_splits)
  from Suc.prems hd sel have "foreign fn (emit (EvFn (clock w1)) w1) = Return lastErr wk"
    by (auto simp: sel_def [symmetric]
        split: select_case.splits outcome.splits option.splits if_splits)
  from foreign_Return_trace [OF this] have "trace wk = trace w1 @ [EvFn (clock w1)]"
    by (simp add: emit_def)
  with tr1 evs show ?case by auto
qed

lemma WithRetry_head_after_call:
  "WithRetry_head sch ctx rcfg fn w k = Some (lastErr, wk) \<Longrightarrow> 0 < k \<Longrightarrow>
   \<exists>evs t. trace wk = trace w @ evs @ [EvFn t]"
proof (cases k)
  case 0
  assume "0 < k"
  with 0 show ?thesis by simp
next
  case (Suc j)
  assume h: "WithRetry_head sch ctx rcfg fn w k = Some (lastErr, wk)"
  from h Suc obtain le wp where
    hd: "WithRetry_head sch ctx rcfg fn w j = Some (le, wp)"
    by (auto split: option.splits)
  from WithRetry_head_extends_trace [OF hd] obtain evs where evs: "trace wp = trace w @ evs"
    by blast
  define sel where "sel = (if 0 < j
       then select_Done_After (poll_latency sch (int j)) (pick_done sch (int j)) ctx
              (Delay rcfg) (emit (EvSelect (clock wp) (Delay rcfg)) wp)
       else (CaseAfter, wp))"
  obtain sc w1 where sel: "sel = (sc, w1)" by (cases sel)
  have tr1: "\<exists>evs. trace w1 = trace wp @ evs"
    using sel select_Done_After_trace [where lat = "poll_latency sch (int j)"
        and pk = "pick_done sch (int j)" and ctx = ctx
        and d = "Delay rcfg" and w = "emit (EvSelect (clock wp) (Delay rcfg)) wp"]
    by (auto simp: sel_def emit_def split: if_splits)
  from h Suc hd sel have "foreign fn (emit (EvFn (clock w1)) w1) = Return lastErr wk"
    by (auto simp: sel_def [symmetric]
        split: select_case.splits outcome.splits option.splits if_splits)
  from foreign_Return_trace [OF this] have "trace wk = trace w1 @ [EvFn (clock w1)]"
    by (simp add: emit_def)
  with tr1 evs show ?thesis by auto
qed

lemma WithRetry_success:
  assumes "WithRetry_head sch ctx rcfg fn w k = Some (lastErr, wk)"
    and "int k < MaxAttempts rcfg"
    and "(if 0 < k
          then select_Done_After (poll_latency sch (int k)) (pick_done sch (int k)) ctx
                 (Delay rcfg) (emit (EvSelect (clock wk) (Delay rcfg)) wk)
          else (CaseAfter, wk)) = (CaseAfter, w1)"
    and "foreign fn (emit (EvFn (clock w1)) w1) = Return None w2"
  shows "WithRetry sch ctx rcfg fn w = Return None w2"
proof -
  have "(if 0 < int k
          then select_Done_After (poll_latency sch (int k)) (pick_done sch (int k)) ctx
                 (Delay rcfg) (emit (EvSelect (clock wk) (Delay rcfg)) wk)
          else (CaseAfter, wk)) = (CaseAfter, w1)"
    using assms(3) by simp
  from WithRetry_loop_success [OF assms(2) this assms(4)] WithRetry_head_loop [OF assms(1)]
  show ?thesis by simp
qed

lemma digits_0: "digits 0 = ''0''"
  by (subst digits.simps) simp

lemma digits_2: "digits 2 = ''2''"
  by (subst digits.simps) simp

lemma digits_3: "digits 3 = ''3''"
  by (subst digits.simps) simp

lemma retryable_deadlock:
  "default_retryOn (Some (DBError (Some ErrDeadlock) (Some database_is_locked) []))"
  by (simp add: default_retryOn_def IsDeadlock_def errors_Is_def sentinel_defs)

lemma Error_deadlock:
  "Error (DBError (Some ErrDeadlock) (Some database_is_locked) [])
     = ''sqltoolkit/db: deadlock detected (cause: database is locked)''"
  by (simp add: sentinel_defs Error_database_is_locked)

lemmas retry_eval_defs =
  WithRetry_def retryOn_of_def failing_fn_def flaky_fn_def example_world_def foreign_def
  emit_def select_Done_After_def ctx_done_at_def ctx_Err_def context_Background_def Let_def
  all_attempts_failed_def itoa_def prompt_sched_def late_sched_def

text \<open>
  C5, as amended. With \<open>MaxAttempts\<close> at least 1 and an operation that fails every time
  with an error the predicate accepts, a run of \<open>WithRetry\<close> ends in one of two ways.
  Either the operation has been called exactly \<open>MaxAttempts\<close> times and what is returned
  is the composite error that wraps the error of the last call. Or \<open>WithRetry\<close> returns
  from a wait between two attempts with the error of the context,
  \<open>context.Canceled\<close> or \<open>context.DeadlineExceeded\<close>, the context being done by then,
  and the operation has been called at least once and fewer than \<open>MaxAttempts\<close> times.
  With a context that is never done it is the former. When the predicate rejects the
  error of the first call, the operation is called once and that error is returned. An
  attempt of a run of \<open>WithRetry\<close> on which the operation returns nil ends the run
  with nil at once.
\<close>

theorem WithRetry_bounded:
  "(1 \<le> MaxAttempts rcfg \<longrightarrow>
    (\<forall>s. \<exists>e s'. fn s = Return (Some e) s' \<and> retryOn_of rcfg (Some e)) \<longrightarrow>
      ((\<exists>w' e s. WithRetry sch ctx rcfg fn w
                   = Return (Some (all_attempts_failed (MaxAttempts rcfg) (Some e))) w'
                 \<and> fn s = Return (Some e) (clock w', ext w')
                 \<and> length (fn_calls (trace w'))
                     = length (fn_calls (trace w)) + nat (MaxAttempts rcfg))
       \<or> (\<exists>w' c k. WithRetry sch ctx rcfg fn w = Return (ctx_Err ctx (clock w')) w'
                 \<and> (ctx_Err ctx (clock w') = Some context_canceled
                    \<or> ctx_Err ctx (clock w') = Some context_deadline_exceeded)
                 \<and> ctx_done_at ctx = Some c \<and> c \<le> clock w'
                 \<and> (\<exists>evs s. trace w' = trace w @ evs @ [EvSelect s (Delay rcfg)])
                 \<and> length (fn_calls (trace w')) = length (fn_calls (trace w)) + k
                 \<and> 0 < k \<and> k < nat (MaxAttempts rcfg)))
      \<and> (ctx_done_at ctx = None \<longrightarrow>
           (\<exists>w' e s. WithRetry sch ctx rcfg fn w
                   = Return (Some (all_attempts_failed (MaxAttempts rcfg) (Some e))) w'
                 \<and> fn s = Return (Some e) (clock w', ext w')
                 \<and> length (fn_calls (trace w'))
                     = length (fn_calls (trace w)) + nat (MaxAttempts rcfg))))
   \<and> (1 \<le> MaxAttempts rcfg \<longrightarrow>
       fn (clock w, ext w) = Return (Some e0) s0 \<longrightarrow>
       \<not> retryOn_of rcfg (Some e0) \<longrightarrow>
         WithRetry sch ctx rcfg fn w
           = Return (Some e0)
               (w\<lparr>trace := trace w @ [EvFn (clock w)], clock := fst s0, ext := snd s0\<rparr>))
   \<and> (WithRetry_head sch ctx rcfg fn w k = Some (lastErr, wk) \<longrightarrow>
       int k < MaxAttempts rcfg \<longrightarrow>
       (if 0 < k
        then select_Done_After (poll_latency sch (int k)) (pick_done sch (int k)) ctx
               (Delay rcfg) (emit (EvSelect (clock wk) (Delay rcfg)) wk)
        else (CaseAfter, wk)) = (CaseAfter, w1) \<longrightarrow>
       foreign fn (emit (EvFn (clock w1)) w1) = Return None w2 \<longrightarrow>
         WithRetry sch ctx rcfg fn w = Return None w2)"
  using WithRetry_always_failing [of rcfg fn sch ctx w]
    WithRetry_always_failing_context_never_done [of rcfg fn ctx sch w]
    WithRetry_not_retryable [of rcfg fn w e0 s0 sch ctx]
    WithRetry_success [of sch ctx rcfg fn w k lastErr wk w1 w2]
  by blast

text \<open>
  C5 as claimed fails when the context is cancelled: two attempts allowed, a delay of
  one second, an operation that fails each time with a deadlock, which the default
  predicate accepts, and a context cancelled from the start. When the \<open>select\<close> looks,
  the context is done and the timer is far from firing. The operation has been called
  once and what is returned is \<open>context.Canceled\<close>, not the composite error.
\<close>

theorem WithRetry_stops_early_on_cancelled_context:
  "default_retryOn (Some (DBError (Some ErrDeadlock) (Some database_is_locked) []))
   \<and> WithRetry prompt_sched \<lparr>Deadline = None, cancelled_at = Some 0\<rparr>
       \<lparr>MaxAttempts = 2, Delay = 1000000000, RetryOn = None\<rparr>
       (failing_fn (DBError (Some ErrDeadlock) (Some database_is_locked) [])) example_world
     = Return (Some context_canceled)
         \<lparr>trace = [EvFn 100, EvSelect 102 1000000000], clock = 103, ext = (1, 0)\<rparr>"
  by (simp add: retry_eval_defs retryable_deadlock
      WithRetry_loop.simps [of _ _ "\<lparr>MaxAttempts = 2, Delay = 1000000000, RetryOn = None\<rparr>"])

theorem WithRetry_bounded_witness:
  "(1::int) \<le> MaxAttempts \<lparr>MaxAttempts = 3, Delay = 5, RetryOn = None\<rparr>
   \<and> (\<forall>s. \<exists>e s'. failing_fn (DBError (Some ErrDeadlock) (Some database_is_locked) []) s
                     = Return (Some e) s'
                   \<and> retryOn_of \<lparr>MaxAttempts = 3, Delay = 5, RetryOn = None\<rparr> (Some e))
   \<and> ctx_done_at context_Background = None
   \<and> (\<exists>w' e s. WithRetry prompt_sched context_Background
                   \<lparr>MaxAttempts = 3, Delay = 5, RetryOn = None\<rparr>
                   (failing_fn (DBError (Some ErrDeadlock) (Some database_is_locked) []))
                   example_world
                 = Return (Some (all_attempts_failed 3 (Some e))) w'
               \<and> failing_fn (DBError (Some ErrDeadlock) (Some database_is_locked) []) s
                 = Return (Some e) (clock w', ext w')
               \<and> length (fn_calls (trace w')) = 3)
   \<and> WithRetry prompt_sched context_Background \<lparr>MaxAttempts = 3, Delay = 5, RetryOn = None\<rparr>
       (failing_fn (DBError (Some ErrDeadlock) (Some database_is_locked) [])) example_world
     = Return
         (Some (WrapError
            ''sqltoolkit/db: all 3 attempts failed, last error: sqltoolkit/db: deadlock detected (cause: database is locked)''
            (Some (DBError (Some ErrDeadlock) (Some database_is_locked) []))))
         \<lparr>trace = [EvFn 100, EvSelect 102 5, EvFn 107, EvSelect 109 5, EvFn 114],
          clock = 116, ext = (3, 0)\<rparr>
   \<and> failing_fn (DBError (Some ErrDuplicateKey) None []) (clock example_world, ext example_world)
     = Return (Some (DBError (Some ErrDuplicateKey) None [])) (102, 1, 0)
   \<and> \<not> retryOn_of \<lparr>MaxAttempts = 3, Delay = 5, RetryOn = None\<rparr>
           (Some (DBError (Some ErrDuplicateKey) None []))
   \<and> WithRetry prompt_sched context_Background \<lparr>MaxAttempts = 3, Delay = 5, RetryOn = None\<rparr>
       (failing_fn (DBError (Some ErrDuplicateKey) None [])) example_world
     = Return (Some (DBError (Some ErrDuplicateKey) None []))
         \<lparr>trace = [EvFn 100], clock = 102, ext = (1, 0)\<rparr>
   \<and> WithRetry_head prompt_sched context_Background \<lparr>MaxAttempts = 3, Delay = 5, RetryOn = None\<rparr>
       (flaky_fn (DBError (Some ErrDeadlock) (Some database_is_locked) [])) example_world (Suc 0)
     = Some (Some (DBError (Some ErrDeadlock) (Some database_is_locked) []),
             \<lparr>trace = [EvFn 100], clock = 102, ext = (1, 0)\<rparr>)
   \<and> int (Suc 0) < MaxAttempts \<lparr>MaxAttempts = 3, Delay = 5, RetryOn = None\<rparr>
   \<and> select_Done_After 1 False context_Background 5
       (emit (EvSelect 102 5) \<lparr>trace = [EvFn 100], clock = 102, ext = (1::nat, 0::nat)\<rparr>)
     = (CaseAfter, \<lparr>trace = [EvFn 100, EvSelect 102 5], clock = 107, ext = (1, 0)\<rparr>)
   \<and> foreign (flaky_fn (DBError (Some ErrDeadlock) (Some database_is_locked) []))
       (emit (EvFn 107) \<lparr>trace = [EvFn 100, EvSelect 102 5], clock = 107, ext = (1, 0)\<rparr>)
     = Return None \<lparr>trace = [EvFn 100, EvSelect 102 5, EvFn 107], clock = 109, ext = (2, 0)\<rparr>
   \<and> WithRetry prompt_sched context_Background \<lparr>MaxAttempts = 3, Delay = 5, RetryOn = None\<rparr>
       (flaky_fn (DBError (Some ErrDeadlock) (Some database_is_locked) [])) example_world
     = Return None \<lparr>trace = [EvFn 100, EvSelect 102 5, EvFn 107], clock = 109, ext = (2, 0)\<rparr>"
proof -
  let ?rc = "\<lparr>MaxAttempts = 3, Delay = 5, RetryOn = None\<rparr>"
  let ?dead = "DBError (Some ErrDeadlock) (Some database_is_locked) []"
  let ?dup = "DBError (Some ErrDuplicateKey) None []"
  let ?w1 = "\<lparr>trace = [EvFn 100], clock = 102, ext = (1::nat, 0::nat)\<rparr>"
  let ?w2 = "\<lparr>trace = [EvFn 100, EvSelect 102 5], clock = 107, ext = (1::nat, 0::nat)\<rparr>"
  let ?w3 = "\<lparr>trace = [EvFn 100, EvSelect 102 5, EvFn 107], clock = 109, ext = (2::nat, 0::nat)\<rparr>"
  have r: "retryOn_of ?rc (Some ?dead)"
    by (simp add: retryOn_of_def retryable_deadlock)
  have nr: "\<not> retryOn_of ?rc (Some ?dup)"
    by (simp add: retryOn_of_def default_retryOn_def IsDeadlock_def IsTimeout_def errors_Is_def
        sentinel_defs)
  have fails: "\<forall>s. \<exists>e s'. failing_fn ?dead s = Return (Some e) s' \<and> retryOn_of ?rc (Some e)"
    using r by (simp add: failing_fn_def)
  have run: "WithRetry prompt_sched context_Background ?rc (failing_fn ?dead) example_world
     = Return
         (Some (WrapError
            ''sqltoolkit/db: all 3 attempts failed, last error: sqltoolkit/db: deadlock detected (cause: database is locked)''
            (Some ?dead)))
         \<lparr>trace = [EvFn 100, EvSelect 102 5, EvFn 107, EvSelect 109 5, EvFn 114],
          clock = 116, ext = (3, 0)\<rparr>"
    by (simp add: retry_eval_defs retryable_deadlock digits_3 Error_deadlock
        WithRetry_loop.simps [of _ _ ?rc] del: Error.simps)
  note a = WithRetry_bounded
    [where rcfg = ?rc and fn = "failing_fn ?dead" and sch = prompt_sched
       and ctx = context_Background and w = example_world]
  note b = WithRetry_bounded
    [where rcfg = ?rc and fn = "failing_fn ?dup" and sch = prompt_sched
       and ctx = context_Background and w = example_world and ?e0.0 = ?dup
       and ?s0.0 = "(102, 1, 0)"]
  note c = WithRetry_bounded
    [where rcfg = ?rc and fn = "flaky_fn ?dead" and sch = prompt_sched
       and ctx = context_Background and k = "Suc 0" and lastErr = "Some ?dead"
       and w = example_world and wk = ?w1 and ?w1.0 = ?w2 and ?w2.0 = ?w3]
  have never: "ctx_done_at context_Background = None"
    by (simp add: ctx_done_at_def context_Background_def)
  have hd: "WithRetry_head prompt_sched context_Background ?rc (flaky_fn ?dead) example_world
              (Suc 0) = Some (Some ?dead, ?w1)"
    by (simp add: retry_eval_defs retryable_deadlock del: Error.simps)
  have sel: "select_Done_After 1 False context_Background 5 (emit (EvSelect 102 5) ?w1)
     = (CaseAfter, ?w2)"
    by (simp add: retry_eval_defs)
  have ok: "foreign (flaky_fn ?dead) (emit (EvFn 107) ?w2) = Return None ?w3"
    by (simp add: retry_eval_defs)
  have first: "failing_fn ?dup (clock example_world, ext example_world)
     = Return (Some ?dup) (102, 1, 0)"
    by (simp add: failing_fn_def example_world_def)
  have le: "1 \<le> MaxAttempts ?rc" by simp
  from a [THEN conjunct1, rule_format, OF le fails [rule_format], THEN conjunct2, rule_format, OF never]
  have A: "\<exists>w' e s. WithRetry prompt_sched context_Background ?rc
                   (failing_fn ?dead) example_world
                 = Return (Some (all_attempts_failed 3 (Some e))) w'
               \<and> failing_fn ?dead s = Return (Some e) (clock w', ext w')
               \<and> length (fn_calls (trace w')) = 3"
    by (simp add: example_world_def)
  from b [THEN conjunct2, THEN conjunct1, rule_format, OF le first nr]
  have B: "WithRetry prompt_sched context_Background ?rc
       (failing_fn ?dup) example_world
     = Return (Some ?dup) \<lparr>trace = [EvFn 100], clock = 102, ext = (1, 0)\<rparr>"
    by (simp add: example_world_def)
  have C: "WithRetry prompt_sched context_Background ?rc (flaky_fn ?dead) example_world
     = Return None ?w3"
    by (rule c [THEN conjunct2, THEN conjunct2, rule_format, OF hd])
       (simp_all add: retry_eval_defs)
  show ?thesis
    using A B C fails never run first nr hd sel ok by simp
qed

text \<open>
  C6, as amended. \<open>WithRetry\<close> with at least one attempt allowed begins by calling the
  operation, at the instant it is entered, whatever the state of the context: nothing
  is waited for before the first attempt. When a run of \<open>WithRetry\<close> comes to a later
  attempt, it has just called the operation, the next thing it does is the \<open>select\<close>
  with the configured delay, and the operation is not called again before the delay has
  passed. When the context is not done by the time the \<open>select\<close> takes a case, the wait
  is completed and the operation is called again. When the context is done before the
  delay has passed, and the \<open>select\<close> looks at its channels before the delay has passed,
  \<open>WithRetry\<close> returns at the instant the context is seen done, before the end of the
  delay and without calling the operation again, and what it returns is the error of
  the context, \<open>context.Canceled\<close> or \<open>context.DeadlineExceeded\<close>. Once the attempts are
  used up \<open>WithRetry\<close> returns where it stands: nothing is waited for after the last
  attempt.
\<close>

theorem WithRetry_waits_between_attempts_and_can_be_cancelled:
  "(0 < MaxAttempts rcfg \<longrightarrow>
      (\<exists>evs. trace (state_of (WithRetry sch ctx rcfg fn w)) = trace w @ EvFn (clock w) # evs))
   \<and> (WithRetry_head sch ctx rcfg fn w k = Some (lastErr, wk) \<longrightarrow>
       0 < k \<longrightarrow> int k < MaxAttempts rcfg \<longrightarrow>
         (\<exists>evs t. trace wk = trace w @ evs @ [EvFn t])
         \<and> (\<exists>evs. trace (state_of (WithRetry sch ctx rcfg fn w))
                    = trace wk @ EvSelect (clock wk) (Delay rcfg) # evs
                  \<and> (evs = []
                     \<or> (\<exists>t evs'. evs = EvFn t # evs'
                                  \<and> clock wk + max 0 (Delay rcfg) \<le> t))))
   \<and> (WithRetry_head sch ctx rcfg fn w k = Some (lastErr, wk) \<longrightarrow>
       0 < k \<longrightarrow> int k < MaxAttempts rcfg \<longrightarrow>
       (case ctx_done_at ctx of
          None \<Rightarrow> True
        | Some c \<Rightarrow> max (clock wk + max 0 (Delay rcfg))
                        (clock wk + max 0 (poll_latency sch (int k))) < c) \<longrightarrow>
         (\<exists>evs. trace (state_of (WithRetry sch ctx rcfg fn w))
                = trace wk @ EvSelect (clock wk) (Delay rcfg)
                    # EvFn (max (clock wk + max 0 (Delay rcfg))
                               (clock wk + max 0 (poll_latency sch (int k)))) # evs))
   \<and> (WithRetry_head sch ctx rcfg fn w k = Some (lastErr, wk) \<longrightarrow>
       0 < k \<longrightarrow> int k < MaxAttempts rcfg \<longrightarrow>
       ctx_done_at ctx = Some c \<longrightarrow>
       max c (clock wk + max 0 (poll_latency sch (int k))) < clock wk + max 0 (Delay rcfg) \<longrightarrow>
         WithRetry sch ctx rcfg fn w
           = Return (ctx_Err ctx (max c (clock wk + max 0 (poll_latency sch (int k)))))
               (wk\<lparr>trace := trace wk @ [EvSelect (clock wk) (Delay rcfg)],
                   clock := max c (clock wk + max 0 (poll_latency sch (int k)))\<rparr>)
         \<and> (ctx_Err ctx (max c (clock wk + max 0 (poll_latency sch (int k))))
              = Some context_canceled
            \<or> ctx_Err ctx (max c (clock wk + max 0 (poll_latency sch (int k))))
              = Some context_deadline_exceeded))
   \<and> (WithRetry_head sch ctx rcfg fn w k = Some (lastErr, wk) \<longrightarrow>
       \<not> int k < MaxAttempts rcfg \<longrightarrow>
         WithRetry sch ctx rcfg fn w
           = Return (Some (all_attempts_failed (MaxAttempts rcfg) lastErr)) wk)"
proof (intro conjI impI)
  assume "0 < MaxAttempts rcfg"
  then show "\<exists>evs. trace (state_of (WithRetry sch ctx rcfg fn w))
                 = trace w @ EvFn (clock w) # evs"
    using WithRetry_loop_first_call [of 0 rcfg sch ctx "retryOn_of rcfg" fn None w]
    by (simp add: WithRetry_def)
next
  assume "WithRetry_head sch ctx rcfg fn w k = Some (lastErr, wk)" "0 < k"
  then show "\<exists>evs t. trace wk = trace w @ evs @ [EvFn t]"
    by (rule WithRetry_head_after_call)
next
  assume h: "WithRetry_head sch ctx rcfg fn w k = Some (lastErr, wk)"
    and a: "0 < k" "int k < MaxAttempts rcfg"
  from a(1) have pos: "0 < int k" by simp
  from WithRetry_loop_wait_first [OF a(2) pos, of sch ctx "retryOn_of rcfg" fn lastErr wk]
  show "\<exists>evs. trace (state_of (WithRetry sch ctx rcfg fn w))
                = trace wk @ EvSelect (clock wk) (Delay rcfg) # evs
              \<and> (evs = []
                 \<or> (\<exists>t evs'. evs = EvFn t # evs' \<and> clock wk + max 0 (Delay rcfg) \<le> t))"
    by (simp add: WithRetry_head_loop [OF h])
next
  assume h: "WithRetry_head sch ctx rcfg fn w k = Some (lastErr, wk)"
    and a: "0 < k" "int k < MaxAttempts rcfg"
    and n: "case ctx_done_at ctx of
              None \<Rightarrow> True
            | Some c \<Rightarrow> max (clock wk + max 0 (Delay rcfg))
                            (clock wk + max 0 (poll_latency sch (int k))) < c"
  from a(1) have pos: "0 < int k" by simp
  from WithRetry_loop_waited [OF a(2) pos n, of "retryOn_of rcfg" fn lastErr]
  show "\<exists>evs. trace (state_of (WithRetry sch ctx rcfg fn w))
                = trace wk @ EvSelect (clock wk) (Delay rcfg)
                    # EvFn (max (clock wk + max 0 (Delay rcfg))
                               (clock wk + max 0 (poll_latency sch (int k)))) # evs"
    by (simp add: WithRetry_head_loop [OF h])
next
  assume h: "WithRetry_head sch ctx rcfg fn w k = Some (lastErr, wk)"
    and a: "0 < k" "int k < MaxAttempts rcfg"
    and c: "ctx_done_at ctx = Some c"
      "max c (clock wk + max 0 (poll_latency sch (int k))) < clock wk + max 0 (Delay rcfg)"
  from a(1) have pos: "0 < int k" by simp
  from WithRetry_loop_cancelled [OF a(2) pos c, of "retryOn_of rcfg" fn lastErr]
  show "WithRetry sch ctx rcfg fn w
           = Return (ctx_Err ctx (max c (clock wk + max 0 (poll_latency sch (int k)))))
               (wk\<lparr>trace := trace wk @ [EvSelect (clock wk) (Delay rcfg)],
                   clock := max c (clock wk + max 0 (poll_latency sch (int k)))\<rparr>)"
    by (simp add: WithRetry_head_loop [OF h])
  show "ctx_Err ctx (max c (clock wk + max 0 (poll_latency sch (int k))))
              = Some context_canceled
            \<or> ctx_Err ctx (max c (clock wk + max 0 (poll_latency sch (int k))))
              = Some context_deadline_exceeded"
    using ctx_Err_done [OF c(1), of "max c (clock wk + max 0 (poll_latency sch (int k)))"]
    by simp
next
  assume h: "WithRetry_head sch ctx rcfg fn w k = Some (lastErr, wk)"
    and "\<not> int k < MaxAttempts rcfg"
  then show "WithRetry sch ctx rcfg fn w
           = Return (Some (all_attempts_failed (MaxAttempts rcfg) lastErr)) wk"
    by (simp add: WithRetry_head_loop [OF h] WithRetry_loop_exhausted)
qed

text \<open>
  C6 as claimed fails when the \<open>select\<close> comes late. Two attempts allowed, a delay of 5,
  an operation that fails each time with a deadlock, and a context cancelled at 103:
  the first call returns at 102, so the context is cancelled during the wait, which
  lasts until 107. The \<open>select\<close> looks at its channels at 112, when the context is done
  and the timer has fired, and takes the timer. \<open>WithRetry\<close> completes the wait, calls
  the operation a second time and returns the composite error, not
  \<open>context.Canceled\<close>.
\<close>

theorem WithRetry_completes_the_wait_when_the_timer_is_taken:
  "ctx_done_at \<lparr>Deadline = None, cancelled_at = Some 103\<rparr> = Some 103
   \<and> WithRetry late_sched \<lparr>Deadline = None, cancelled_at = Some 103\<rparr>
       \<lparr>MaxAttempts = 2, Delay = 5, RetryOn = None\<rparr>
       (failing_fn (DBError (Some ErrDeadlock) (Some database_is_locked) [])) example_world
     = Return
         (Some (WrapError
            ''sqltoolkit/db: all 2 attempts failed, last error: sqltoolkit/db: deadlock detected (cause: database is locked)''
            (Some (DBError (Some ErrDeadlock) (Some database_is_locked) []))))
         \<lparr>trace = [EvFn 100, EvSelect 102 5, EvFn 112], clock = 114, ext = (2, 0)\<rparr>"
  by (simp add: retry_eval_defs retryable_deadlock digits_2 Error_deadlock
      WithRetry_loop.simps [of _ _ "\<lparr>MaxAttempts = 2, Delay = 5, RetryOn = None\<rparr>"]
      del: Error.simps)

theorem WithRetry_waits_between_attempts_and_can_be_cancelled_witness:
  "(0::int) < MaxAttempts \<lparr>MaxAttempts = 2, Delay = 5, RetryOn = None\<rparr>
   \<and> (\<exists>evs. trace (state_of (WithRetry prompt_sched \<lparr>Deadline = None, cancelled_at = Some 0\<rparr>
                 \<lparr>MaxAttempts = 2, Delay = 5, RetryOn = None\<rparr>
                 (failing_fn (DBError (Some ErrDeadlock) (Some database_is_locked) []))
                 example_world))
             = trace example_world @ EvFn (clock example_world) # evs)
   \<and> WithRetry_head prompt_sched context_Background \<lparr>MaxAttempts = 2, Delay = 5, RetryOn = None\<rparr>
       (failing_fn (DBError (Some ErrDeadlock) (Some database_is_locked) [])) example_world (Suc 0)
     = Some (Some (DBError (Some ErrDeadlock) (Some database_is_locked) []),
             \<lparr>trace = [EvFn 100], clock = 102, ext = (1, 0)\<rparr>)
   \<and> int (Suc 0) < MaxAttempts \<lparr>MaxAttempts = 2, Delay = 5, RetryOn = None\<rparr>
   \<and> (\<exists>evs. trace (state_of (WithRetry prompt_sched context_Background
                 \<lparr>MaxAttempts = 2, Delay = 5, RetryOn = None\<rparr>
                 (failing_fn (DBError (Some ErrDeadlock) (Some database_is_locked) []))
                 example_world))
             = [EvFn 100] @ EvSelect 102 5 # evs
           \<and> (evs = [] \<or> (\<exists>t evs'. evs = EvFn t # evs' \<and> 107 \<le> t)))
   \<and> (case ctx_done_at context_Background of
         None \<Rightarrow> True
       | Some c \<Rightarrow> max (102 + max 0 5) (102 + max 0 (poll_latency prompt_sched (int (Suc 0)))) < c)
   \<and> (\<exists>evs. trace (state_of (WithRetry prompt_sched context_Background
                 \<lparr>MaxAttempts = 2, Delay = 5, RetryOn = None\<rparr>
                 (failing_fn (DBError (Some ErrDeadlock) (Some database_is_locked) []))
                 example_world))
             = [EvFn 100] @ EvSelect 102 5 # EvFn 107 # evs)
   \<and> WithRetry_head prompt_sched \<lparr>Deadline = None, cancelled_at = Some 104\<rparr>
       \<lparr>MaxAttempts = 2, Delay = 5, RetryOn = None\<rparr>
       (failing_fn (DBError (Some ErrDeadlock) (Some database_is_locked) [])) example_world (Suc 0)
     = Some (Some (DBError (Some ErrDeadlock) (Some database_is_locked) []),
             \<lparr>trace = [EvFn 100], clock = 102, ext = (1, 0)\<rparr>)
   \<and> ctx_done_at \<lparr>Deadline = None, cancelled_at = Some 104\<rparr> = Some 104
   \<and> max 104 (102 + max 0 (poll_latency prompt_sched (int (Suc 0)))) < (102::int) + max 0 5
   \<and> WithRetry prompt_sched \<lparr>Deadline = None, cancelled_at = Some 104\<rparr>
       \<lparr>MaxAttempts = 2, Delay = 5, RetryOn = None\<rparr>
       (failing_fn (DBError (Some ErrDeadlock) (Some database_is_locked) [])) example_world
     = Return (Some context_canceled)
         \<lparr>trace = [EvFn 100, EvSelect 102 5], clock = 104, ext = (1, 0)\<rparr>
   \<and> WithRetry_head prompt_sched context_Background \<lparr>MaxAttempts = 2, Delay = 5, RetryOn = None\<rparr>
       (failing_fn (DBError (Some ErrDeadlock) (Some database_is_locked) [])) example_world
       (Suc (Suc 0))
     = Some (Some (DBError (Some ErrDeadlock) (Some database_is_locked) []),
             \<lparr>trace = [EvFn 100, EvSelect 102 5, EvFn 107], clock = 109, ext = (2, 0)\<rparr>)
   \<and> \<not> int (Suc (Suc 0)) < MaxAttempts \<lparr>MaxAttempts = 2, Delay = 5, RetryOn = None\<rparr>
   \<and> WithRetry prompt_sched context_Background \<lparr>MaxAttempts = 2, Delay = 5, RetryOn = None\<rparr>
       (failing_fn (DBError (Some ErrDeadlock) (Some database_is_locked) [])) example_world
     = Return
         (Some (all_attempts_failed 2 (Some (DBError (Some ErrDeadlock) (Some database_is_locked) []))))
         \<lparr>trace = [EvFn 100, EvSelect 102 5, EvFn 107], clock = 109, ext = (2, 0)\<rparr>"
proof -
  let ?rc = "\<lparr>MaxAttempts = 2, Delay = 5, RetryOn = None\<rparr>"
  let ?dead = "DBError (Some ErrDeadlock) (Some database_is_locked) []"
  let ?cancelled = "\<lparr>Deadline = None, cancelled_at = Some 104\<rparr>"
  let ?w1 = "\<lparr>trace = [EvFn 100], clock = 102, ext = (1::nat, 0::nat)\<rparr>"
  let ?w3 = "\<lparr>trace = [EvFn 100, EvSelect 102 5, EvFn 107], clock = 109, ext = (2::nat, 0::nat)\<rparr>"
  note a = WithRetry_waits_between_attempts_and_can_be_cancelled
    [where rcfg = ?rc and sch = prompt_sched and fn = "failing_fn ?dead"
       and ctx = "\<lparr>Deadline = None, cancelled_at = Some 0\<rparr>" and w = example_world,
     THEN conjunct1, rule_format]
  note b = WithRetry_waits_between_attempts_and_can_be_cancelled
    [where rcfg = ?rc and sch = prompt_sched and fn = "failing_fn ?dead"
       and ctx = context_Background and w = example_world and k = "Suc 0"
       and lastErr = "Some ?dead" and wk = ?w1,
     THEN conjunct2, THEN conjunct1, rule_format]
  note b' = WithRetry_waits_between_attempts_and_can_be_cancelled
    [where rcfg = ?rc and sch = prompt_sched and fn = "failing_fn ?dead"
       and ctx = context_Background and w = example_world and k = "Suc 0"
       and lastErr = "Some ?dead" and wk = ?w1,
     THEN conjunct2, THEN conjunct2, THEN conjunct1, rule_format]
  note c = WithRetry_waits_between_attempts_and_can_be_cancelled
    [where rcfg = ?rc and sch = prompt_sched and fn = "failing_fn ?dead"
       and ctx = ?cancelled and w = example_world and k = "Suc 0"
       and lastErr = "Some ?dead" and wk = ?w1 and c = 104,
     THEN conjunct2, THEN conjunct2, THEN conjunct2, THEN conjunct1, rule_format]
  note e = WithRetry_waits_between_attempts_and_can_be_cancelled
    [where rcfg = ?rc and sch = prompt_sched and fn = "failing_fn ?dead"
       and ctx = context_Background and w = example_world and k = "Suc (Suc 0)"
       and lastErr = "Some ?dead" and wk = ?w3,
     THEN conjunct2, THEN conjunct2, THEN conjunct2, THEN conjunct2, rule_format]
  have hd1: "WithRetry_head prompt_sched context_Background ?rc (failing_fn ?dead)
               example_world (Suc 0) = Some (Some ?dead, ?w1)"
    by (simp add: retry_eval_defs retryable_deadlock del: Error.simps)
  have hd1': "WithRetry_head prompt_sched ?cancelled ?rc (failing_fn ?dead)
               example_world (Suc 0) = Some (Some ?dead, ?w1)"
    by (simp add: retry_eval_defs retryable_deadlock del: Error.simps)
  have hd2: "WithRetry_head prompt_sched context_Background ?rc (failing_fn ?dead)
               example_world (Suc (Suc 0)) = Some (Some ?dead, ?w3)"
    by (simp add: retry_eval_defs retryable_deadlock del: Error.simps)
  have A: "\<exists>evs. trace (state_of (WithRetry prompt_sched \<lparr>Deadline = None, cancelled_at = Some 0\<rparr>
                 ?rc (failing_fn ?dead) example_world))
             = trace example_world @ EvFn (clock example_world) # evs"
    by (rule a) simp
  have never: "case ctx_done_at context_Background of
         None \<Rightarrow> True
       | Some c \<Rightarrow> max (102 + max 0 5) (102 + max 0 (poll_latency prompt_sched (int (Suc 0)))) < c"
    by (simp add: ctx_done_at_def context_Background_def)
  have never': "case ctx_done_at context_Background of
         None \<Rightarrow> True
       | Some c \<Rightarrow> max (clock ?w1 + max 0 (Delay ?rc))
                       (clock ?w1 + max 0 (poll_latency prompt_sched (int (Suc 0)))) < c"
    by (simp add: ctx_done_at_def context_Background_def)
  have B: "\<exists>evs. trace (state_of (WithRetry prompt_sched context_Background ?rc
                 (failing_fn ?dead) example_world))
             = [EvFn 100] @ EvSelect 102 5 # evs
           \<and> (evs = [] \<or> (\<exists>t evs'. evs = EvFn t # evs' \<and> 107 \<le> t))"
    using b [OF hd1] by simp
  have B': "\<exists>evs. trace (state_of (WithRetry prompt_sched context_Background ?rc
                 (failing_fn ?dead) example_world))
             = [EvFn 100] @ EvSelect 102 5 # EvFn 107 # evs"
    using b' [OF hd1 _ _ never'] by (simp add: prompt_sched_def)
  have d: "ctx_done_at ?cancelled = Some 104"
    by (simp add: ctx_done_at_def)
  have lt: "max 104 (102 + max 0 (poll_latency prompt_sched (int (Suc 0)))) < (102::int) + max 0 5"
    by (simp add: prompt_sched_def)
  have lt': "max 104 (clock ?w1 + max 0 (poll_latency prompt_sched (int (Suc 0))))
               < clock ?w1 + max 0 (Delay ?rc)"
    by (simp add: prompt_sched_def)
  have C: "WithRetry prompt_sched ?cancelled ?rc (failing_fn ?dead) example_world
     = Return (Some context_canceled)
         \<lparr>trace = [EvFn 100, EvSelect 102 5], clock = 104, ext = (1, 0)\<rparr>"
    using c [OF hd1' _ _ d lt'] by (simp add: ctx_Err_def prompt_sched_def)
  have E: "WithRetry prompt_sched context_Background ?rc (failing_fn ?dead) example_world
     = Return (Some (all_attempts_failed 2 (Some ?dead))) ?w3"
    using e [OF hd2] by simp
  show ?thesis
    using A B B' C E never d lt hd1 hd1' hd2 by simp
qed

text \<open>
  C9. With \<open>MaxAttempts\<close> zero or negative, \<open>WithRetry\<close> returns at once, the world as it
  was (the operation is not called), and what it returns is not nil: it is the
  composite error for \<open>MaxAttempts\<close> attempts, which wraps nothing and whose text ends
  with what \<open>%w\<close> prints for nil.
\<close>

theorem WithRetry_without_attempts_returns_composite_error:
  "MaxAttempts rcfg \<le> 0 \<longrightarrow>
     WithRetry sch ctx rcfg fn w
       = Return (Some (all_attempts_failed (MaxAttempts rcfg) None)) w
     \<and> Unwrap (all_attempts_failed (MaxAttempts rcfg) None) = None
     \<and> Error (all_attempts_failed (MaxAttempts rcfg) None)
         = ''sqltoolkit/db: all '' @ itoa (MaxAttempts rcfg)
           @ '' attempts failed, last error: %!w(<nil>)''"
  by (simp add: WithRetry_def WithRetry_loop_exhausted all_attempts_failed_def)

theorem WithRetry_without_attempts_returns_composite_error_witness:
  "MaxAttempts \<lparr>MaxAttempts = 0, Delay = 5, RetryOn = None\<rparr> \<le> 0
   \<and> WithRetry prompt_sched context_Background \<lparr>MaxAttempts = 0, Delay = 5, RetryOn = None\<rparr>
       (failing_fn database_is_locked) example_world
     = Return
         (Some (WrapError ''sqltoolkit/db: all 0 attempts failed, last error: %!w(<nil>)'' None))
         example_world
   \<and> Error (all_attempts_failed 0 None)
     = ''sqltoolkit/db: all 0 attempts failed, last error: %!w(<nil>)''"
  using WithRetry_without_attempts_returns_composite_error
    [where rcfg = "\<lparr>MaxAttempts = 0, Delay = 5, RetryOn = None\<rparr>" and sch = prompt_sched
       and ctx = context_Background and fn = "failing_fn database_is_locked"
       and w = example_world]
  by (simp add: all_attempts_failed_def itoa_def digits_0)

end
